(* ===== verification/Prelude.thy ===== *)
theory Prelude
  imports Complex_Main
begin

text \<open>
  Shared vocabulary of the development. JavaScript numbers are modelled as \<open>real\<close>
  (IEEE rounding is not modelled); the few places where the source can produce a
  non-finite number (a division by a zero width) go through \<open>js_num\<close>, which adds
  the three non-finite values and the comparisons the source applies to them.
  Array indexing by a number (\<open>arr[i]\<close>) is \<open>js_index\<close>: \<open>undefined\<close>, here
  \<open>None\<close>, unless \<open>i\<close> is an integer within the array. The range and integrality
  predicates used by every invariant of the library are defined here, together with
  the lemmas on \<open>floor\<close>, \<open>ceiling\<close> and \<open>round\<close> (JavaScript's \<open>Math.floor\<close>,
  \<open>Math.ceil\<close> and \<open>Math.round\<close>) that the components share.
\<close>

named_theorems js_simps "evaluation rules for the JavaScript helpers"
named_theorems range_intros "introduction rules for index-range facts"

type_synonym number = real

text \<open>
  Where the source would go on computing with \<open>undefined\<close> or \<open>NaN\<close>, the model
  stops with an error: an instance field read before the first \<open>touchstart\<close> set it
  (\<open>NoSession\<close>), a drag index that is \<open>NaN\<close> (\<open>NaNIndex\<close>), an \<open>index\<close>
  property that is not a number when the initial state reads it (\<open>NoIndexProp\<close>).
\<close>

datatype error = NoSession | NaNIndex | NoIndexProp

subsection \<open>Non-finite numbers\<close>

datatype js_num = Num real | PosInf | NegInf | NaN

fun js_lt :: "js_num \<Rightarrow> real \<Rightarrow> bool" where
  "js_lt (Num r) y = (r < y)"
| "js_lt PosInf y = False"
| "js_lt NegInf y = True"
| "js_lt NaN y = False"

fun js_gt :: "js_num \<Rightarrow> real \<Rightarrow> bool" where
  "js_gt (Num r) y = (y < r)"
| "js_gt PosInf y = True"
| "js_gt NegInf y = False"
| "js_gt NaN y = False"

text \<open>\<open>a / b\<close> in JavaScript: finite unless \<open>b = 0\<close>; \<open>0 / 0\<close> is \<open>NaN\<close>.\<close>

definition js_div :: "real \<Rightarrow> real \<Rightarrow> js_num" where
  "js_div a b =
     (if b \<noteq> 0 then Num (a / b)
      else if 0 < a then PosInf else if a < 0 then NegInf else NaN)"

fun js_plus :: "real \<Rightarrow> js_num \<Rightarrow> js_num" where
  "js_plus x (Num r) = Num (x + r)"
| "js_plus x PosInf = PosInf"
| "js_plus x NegInf = NegInf"
| "js_plus x NaN = NaN"

subsection \<open>Integers, ranges and array indexing\<close>

definition is_int :: "real \<Rightarrow> bool" where
  "is_int x \<longleftrightarrow> of_int \<lfloor>x\<rfloor> = x"

definition in_range :: "real \<Rightarrow> real \<Rightarrow> bool" where
  "in_range hi x \<longleftrightarrow> 0 \<le> x \<and> x \<le> hi"

definition is_slot :: "real \<Rightarrow> real \<Rightarrow> bool" where
  "is_slot hi x \<longleftrightarrow> is_int x \<and> in_range hi x"

definition js_index :: "'a list \<Rightarrow> real \<Rightarrow> 'a option" where
  "js_index xs i =
     (if is_int i \<and> 0 \<le> i \<and> i < real (length xs) then Some (xs ! nat \<lfloor>i\<rfloor>) else None)"

text \<open>The largest valid index of a collection of \<open>n\<close> children, as the source computes it.\<close>

definition index_max :: "nat \<Rightarrow> real" where
  "index_max n = real n - 1"

declare js_div_def [js_simps] in_range_def [js_simps] is_slot_def [js_simps]
  index_max_def [js_simps]

subsection \<open>Lemmas shared by the components\<close>

lemma js_div_nonzero [simp]: "b \<noteq> 0 \<Longrightarrow> js_div a b = Num (a / b)"
  by (simp add: js_div_def)

lemma is_int_iff_Ints: "is_int x \<longleftrightarrow> x \<in> \<int>"
  by (metis Ints_of_int floor_of_int is_int_def Ints_cases)

lemma is_int_of_int [simp, range_intros]: "is_int (of_int k)"
  by (simp add: is_int_def)

lemma is_int_of_nat [simp, range_intros]: "is_int (of_nat n)"
  by (simp add: is_int_def)

lemma is_int_numeral [simp]: "is_int (numeral k)" and is_int_0 [simp]: "is_int 0"
  and is_int_1 [simp]: "is_int 1"
  by (simp_all add: is_int_def)

lemma is_int_floor [simp]: "is_int (of_int \<lfloor>x\<rfloor>)"
  by simp

lemma index_max_int [simp]: "of_int (int n - 1) = index_max n"
  by (simp add: index_max_def)

lemma floor_in_range [range_intros]:
  "in_range (index_max n) x \<Longrightarrow> in_range (index_max n) (of_int \<lfloor>x\<rfloor>)"
  by (auto simp: in_range_def intro: order_trans [OF of_int_floor_le])

lemma ceiling_in_range [range_intros]:
  assumes "in_range (index_max n) x"
  shows "in_range (index_max n) (of_int \<lceil>x\<rceil>)"
proof -
  from assms have "x \<le> of_int (int n - 1)" by (simp add: in_range_def index_max_def)
  then have "\<lceil>x\<rceil> \<le> int n - 1" by (simp only: ceiling_le_iff)
  then have "real_of_int \<lceil>x\<rceil> \<le> index_max n" by (simp add: index_max_def)
  moreover from assms have "0 \<le> real_of_int \<lceil>x\<rceil>"
    by (simp add: in_range_def)
  ultimately show ?thesis by (simp add: in_range_def)
qed

lemma round_in_range [range_intros]:
  assumes "in_range (index_max n) x"
  shows "in_range (index_max n) (of_int (round x))"
proof -
  from assms have "x + 1/2 < of_int (int n - 1) + 1" by (simp add: in_range_def index_max_def)
  then have "\<lfloor>x + 1/2\<rfloor> \<le> int n - 1" by linarith
  then have "real_of_int (round x) \<le> index_max n" by (simp add: round_def index_max_def)
  moreover from assms have "0 \<le> round x" by (simp add: in_range_def round_def)
  ultimately show ?thesis by (simp add: in_range_def)
qed

lemma slot_nat:
  assumes "is_slot (index_max n) t"
  shows "t = real (nat \<lfloor>t\<rfloor>)" and "nat \<lfloor>t\<rfloor> < n"
proof -
  from assms obtain z where z: "t = of_int z" and "0 \<le> t" and "t \<le> real n - 1"
    by (auto simp: is_slot_def is_int_def in_range_def index_max_def)
  then have "0 \<le> z" and "z < int n" by simp_all
  with z show "t = real (nat \<lfloor>t\<rfloor>)" and "nat \<lfloor>t\<rfloor> < n" by simp_all
qed

lemma slot_of_int_range [range_intros]:
  "in_range hi (of_int k) \<Longrightarrow> is_slot hi (of_int k)"
  by (simp add: is_slot_def)

lemma js_index_Some:
  "js_index xs i = Some v \<longleftrightarrow>
     (is_int i \<and> 0 \<le> i \<and> i < real (length xs) \<and> v = xs ! nat \<lfloor>i\<rfloor>)"
  by (auto simp: js_index_def)

lemma js_index_Nil [simp]: "js_index [] i = None"
  by (simp add: js_index_def)

lemma js_index_not_int: "\<not> is_int i \<Longrightarrow> js_index xs i = None"
  by (simp add: js_index_def)

lemma js_index_of_nat [simp]:
  "js_index xs (of_nat k) = (if k < length xs then Some (xs ! k) else None)"
  by (simp add: js_index_def)

lemma half_average_abs_le: "\<bar>a * 0.5 + b * 0.5\<bar> \<le> max \<bar>a\<bar> \<bar>b :: real\<bar>"
  by (simp add: abs_if max_def split: if_splits)

lemma js_index_0 [simp]: "js_index xs 0 = (if 0 < length xs then Some (xs ! 0) else None)"
  using js_index_of_nat [of xs 0] by simp

lemma js_index_1 [simp]: "js_index xs 1 = (if 1 < length xs then Some (xs ! 1) else None)"
  using js_index_of_nat [of xs 1] by simp

lemma js_index_numeral [simp]:
  "js_index xs (numeral k) = (if numeral k < length xs then Some (xs ! numeral k) else None)"
  using js_index_of_nat [of xs "numeral k"] by simp

lemma not_is_int_half [simp]: "\<not> is_int (1/2)"
  by (simp add: is_int_def)

text \<open>Geometric decay: a quantity bounded by \<open>B q\<^sup>n\<close> with \<open>0 \<le> q < 1\<close> is eventually
  below any positive bound, and stays there.\<close>

lemma geometric_eventually:
  fixes B q \<epsilon> :: real
  assumes "0 \<le> B" and "0 \<le> q" and "q < 1" and "0 < \<epsilon>"
  shows "\<exists>N. \<forall>n\<ge>N. B * q ^ n < \<epsilon>"
proof -
  from assms obtain N where N: "q ^ N < \<epsilon> / (B + 1)"
    using real_arch_pow_inv [of "\<epsilon> / (B + 1)" q] by auto
  have "B * q ^ n < \<epsilon>" if "N \<le> n" for n
  proof -
    have "q ^ n \<le> q ^ N" using that assms by (intro power_decreasing) simp_all
    then have "B * q ^ n \<le> (B + 1) * q ^ N" using assms by (intro mult_mono) simp_all
    also have "\<dots> < \<epsilon>" using N assms by (simp add: pos_less_divide_eq mult.commute)
    finally show ?thesis .
  qed
  then show ?thesis by blast
qed

lemma abs_less_of_power2_less: "x\<^sup>2 < \<epsilon>\<^sup>2 \<Longrightarrow> 0 < \<epsilon> \<Longrightarrow> \<bar>x :: real\<bar> < \<epsilon>"
  by (rule power_less_imp_less_base [of _ 2]) simp_all

end
