(* ===== verification/Resolver.thy ===== *)
theory Resolver
  imports Prelude
begin

text \<open>
  The release decision of \<open>handleTouchEnd\<close> (src/src/index.js, lines 144--160):
  from the smoothed horizontal delta, the threshold, the index at the start of the
  drag and the fractional index at release, the index the view settles on. A quick
  movement (\<open>|deltaX| > threshold\<close>) snaps to the floor or the ceiling of the
  release index, depending on the direction of the last movement; a slow one rounds
  the release index if it moved more than 0.6 of a slide away from the start, and
  returns to the start otherwise. The lemmas show that the result is a valid slide
  whenever its inputs are, what each branch computes in terms of the release
  position, that a slow release changes the slide exactly when the drag exceeded the
  hysteresis, and that one drag moves by at most one slide when it covered at most one.
\<close>

definition index_new :: "real \<Rightarrow> real \<Rightarrow> real \<Rightarrow> real \<Rightarrow> real" where
  "index_new threshold deltaX startIndex index =
     (if threshold < \<bar>deltaX\<bar> then
        (if 0 < deltaX then of_int \<lfloor>index\<rfloor> else of_int \<lceil>index\<rceil>)
      else if 0.6 < \<bar>startIndex - index\<bar> then of_int (round index)
      else startIndex)"

lemma index_new_cases:
  obtains (floor) "index_new thr d si x = of_int \<lfloor>x\<rfloor>"
  | (ceiling) "index_new thr d si x = of_int \<lceil>x\<rceil>"
  | (round) "index_new thr d si x = of_int (round x)"
  | (start) "index_new thr d si x = si"
  by (cases "thr < \<bar>d\<bar>"; cases "0 < d"; cases "0.6 < \<bar>si - x\<bar>")
     (auto simp: index_new_def)

lemma round_ne_far:
  assumes "is_int si" and "0.6 < \<bar>si - x\<bar>"
  shows "of_int (round x) \<noteq> si"
proof
  assume eq: "of_int (round x) = si"
  have "\<bar>of_int (round x) - x\<bar> \<le> 1/2"
    using of_int_round_abs_le [of x] by (simp add: abs_minus_commute)
  with eq assms(2) show False by simp
qed

lemma neighbour_slots:
  assumes "is_int si" and "\<bar>x - si\<bar> \<le> 1"
  shows "\<bar>of_int \<lfloor>x\<rfloor> - si\<bar> \<le> 1" and "\<bar>of_int \<lceil>x\<rceil> - si\<bar> \<le> 1"
    and "\<bar>of_int (round x) - si\<bar> \<le> 1"
proof -
  obtain k where k: "si = of_int k" using assms(1) by (metis is_int_def)
  from assms(2) k have lo: "of_int (k - 1) \<le> x" and hi: "x \<le> of_int (k + 1)" by auto
  from lo hi have "k - 1 \<le> \<lfloor>x\<rfloor> \<and> \<lfloor>x\<rfloor> \<le> k + 1"
    by (metis floor_mono floor_of_int)
  then show "\<bar>of_int \<lfloor>x\<rfloor> - si\<bar> \<le> 1" using k by (simp add: abs_le_iff)
  from lo hi have "k - 1 \<le> \<lceil>x\<rceil> \<and> \<lceil>x\<rceil> \<le> k + 1"
    by (metis ceiling_mono ceiling_of_int)
  then show "\<bar>of_int \<lceil>x\<rceil> - si\<bar> \<le> 1" using k by (simp add: abs_le_iff)
  from lo hi have "k - 1 \<le> round x \<and> round x \<le> k + 1"
    by (metis round_mono round_of_int)
  then show "\<bar>of_int (round x) - si\<bar> \<le> 1" using k by (simp add: abs_le_iff)
qed

lemma index_new_near: "\<bar>index_new thr d si x - x\<bar> < 1"
proof (cases "thr < \<bar>d\<bar>")
  case True
  then show ?thesis by (auto simp: index_new_def) linarith+
next
  case False
  have "\<bar>of_int (round x) - x\<bar> \<le> 1/2" by (rule of_int_round_abs_le)
  with False show ?thesis by (auto simp: index_new_def)
qed

subsection \<open>Properties of the release decision\<close>

text \<open>C3: when the release index lies in the valid range and the drag started on a
  valid slide, the settled index is a valid slide: an integer in
  \<open>[0, childCount - 1]\<close>, whichever branch decides it.\<close>

theorem index_new_slot:
  assumes "in_range (index_max n) x" and "is_slot (index_max n) si"
  shows "is_slot (index_max n) (index_new thr d si x)"
  using assms by (cases thr d si x rule: index_new_cases) (auto intro: range_intros)

theorem index_new_slot_witness:
  "in_range (index_max 3) 0.3 \<and> is_slot (index_max 3) 0 \<and>
   is_slot (index_max 3) (index_new 5 (-8) 0 0.3)"
  using index_new_slot [of 3 "0.3" 0 5 "-8"] by (simp add: js_simps)

text \<open>C5: a quick movement (\<open>|deltaX| > threshold\<close>) settles on an integer within
  one slide of the release index, on the side the content was moving to: at or
  below it when the finger last moved right (\<open>deltaX > 0\<close>, floor), at or above it
  otherwise (ceiling).\<close>

theorem index_new_quick:
  assumes "thr < \<bar>d\<bar>"
  shows "is_int (index_new thr d si x) \<and>
    (if 0 < d then index_new thr d si x \<le> x \<and> x < index_new thr d si x + 1
     else index_new thr d si x - 1 < x \<and> x \<le> index_new thr d si x)"
  using assms by (auto simp: index_new_def) linarith+

theorem index_new_quick_witness:
  "(5::real) < \<bar>-8\<bar> \<and> is_int (index_new 5 (-8) 0 0.3) \<and>
    index_new 5 (-8) 0 0.3 - 1 < 0.3 \<and> 0.3 \<le> index_new 5 (-8) 0 0.3"
  using index_new_quick [of 5 "-8" 0 "0.3"] by simp

text \<open>C6: a slow release (\<open>|deltaX| \<le> threshold\<close>) from a valid slide settles on a
  whole slide; it changes the slide exactly when the release index is more than 0.6
  slides away from the start, and then goes to the nearest slide (the integer within
  half a slide of the release index). With a zero threshold this is also the decision
  for a release whose last movement was zero.\<close>

theorem index_new_slow:
  assumes "\<not> thr < \<bar>d\<bar>" and "is_int si"
  shows "is_int (index_new thr d si x) \<and> (index_new thr d si x \<noteq> si \<longleftrightarrow> 0.6 < \<bar>si - x\<bar>) \<and>
    (0.6 < \<bar>si - x\<bar> \<longrightarrow> \<bar>index_new thr d si x - x\<bar> \<le> 1/2)"
  using assms round_ne_far [of si x] of_int_round_abs_le [of x]
  by (auto simp: index_new_def)

theorem index_new_slow_witness:
  "\<not> (5::real) < \<bar>-2\<bar> \<and> is_int 0 \<and> 0.6 < \<bar>0 - (0.7::real)\<bar> \<and>
   is_int (index_new 5 (-2) 0 0.7) \<and> index_new 5 (-2) 0 0.7 \<noteq> 0 \<and>
   \<bar>index_new 5 (-2) 0 0.7 - 0.7\<bar> \<le> 1/2"
  using index_new_slow [of 5 "-2" 0 "0.7"] by simp

text \<open>C27: a drag that covered at most one slide from a valid slide settles at most one
  slide away from where it started: one swipe never skips a view.\<close>

theorem index_new_one_slide:
  assumes "is_int si" and "\<bar>x - si\<bar> \<le> 1"
  shows "\<bar>index_new thr d si x - si\<bar> \<le> 1"
  using assms neighbour_slots [OF assms]
  by (cases thr d si x rule: index_new_cases) auto

theorem index_new_one_slide_witness:
  "is_int 1 \<and> \<bar>(0.2::real) - 1\<bar> \<le> 1 \<and> \<bar>index_new 5 8 1 0.2 - 1\<bar> \<le> 1"
  using index_new_one_slide [of 1 "0.2" 5 8] by simp

text \<open>The three release scenarios of the specification: a quick flick from slide 0
  released at 0.3 with \<open>deltaX = -8\<close> settles on 1; a slow release at 0.7 settles on
  1; a slow release at 0.4 returns to 0.\<close>

lemma index_new_scenarios:
  "index_new 5 (-8) 0 0.3 = 1 \<and> index_new 5 (-2) 0 0.7 = 1 \<and> index_new 5 (-1) 0 0.4 = 0"
  by (simp add: index_new_def round_def)

text \<open>A negative threshold makes every release a quick flick: the settled index is
  the floor or the ceiling of the release index, by the direction of the last
  movement, however far the drag went.\<close>

lemma index_new_negative_threshold:
  assumes "thr < 0"
  shows "index_new thr d si x = (if 0 < d then of_int \<lfloor>x\<rfloor> else of_int \<lceil>x\<rceil>)"
proof -
  have "thr < \<bar>d\<bar>" using assms by linarith
  then show ?thesis by (simp add: index_new_def)
qed

lemma index_new_negative_threshold_example:
  "index_new (-1) 0 0 0.4 = 1"
  using index_new_negative_threshold [of "-1" 0 0 "0.4"] by simp

text \<open>A zero threshold is not a quick-flick threshold: a release with no residual
  movement (\<open>deltaX = 0\<close>) at 0.4 from slide 0 returns to slide 0 through the
  hysteresis, where a quick flick (as with any negative threshold) settles on 1.\<close>

lemma index_new_zero_threshold:
  "index_new 0 0 0 0.4 = 0 \<and> index_new (-1/100) 0 0 0.4 = 1"
  by (simp add: index_new_def)

end
