(* ===== verification/Gesture.thy ===== *)
theory Gesture
  imports Prelude
begin

text \<open>
  The gesture tracker: the instance fields \<open>handleTouchStart\<close> sets
  (src/src/index.js, lines 93--103) and the part of \<open>handleTouchMove\<close> (lines
  104--132) that classifies the gesture once, smooths the horizontal delta and
  computes the clamped fractional index. The fields live on the component instance in
  the source; here they are the record \<open>session\<close>. \<open>touch_move\<close> returns the
  updated session and either \<open>Scroll\<close> (the early return of line 113) or
  \<open>Drag i\<close>, the index that line 134 stores into the component state; the
  controller theory performs that \<open>setState\<close>. A zero width makes the quotient of
  line 124 non-finite: \<open>\<plusminus>Infinity\<close> is clamped as in the source, \<open>NaN\<close> is the
  error \<open>NaNIndex\<close>. \<open>smoothed\<close> is the specification's closed form of the
  smoothing over a sequence of samples, used by the refinement theorem of the root
  theory.
\<close>

record touch =
  pageX :: real
  pageY :: real

record session =
  startWidth :: real
  startIndex :: real
  startX :: real
  lastX :: real
  deltaX :: real
  startY :: real
  isScroll :: "bool option"

datatype move_result = Scroll | Drag real

definition touch_start :: "real \<Rightarrow> real \<Rightarrow> touch \<Rightarrow> session" where
  "touch_start width index t =
     \<lparr>startWidth = width, startIndex = index, startX = pageX t, lastX = pageX t,
      deltaX = 0, startY = pageY t, isScroll = None\<rparr>"

definition classify :: "session \<Rightarrow> touch \<Rightarrow> session" where
  "classify s t =
     (case isScroll s of
        None \<Rightarrow> s\<lparr>isScroll := Some (\<bar>startY s - pageY t\<bar> > \<bar>startX s - pageX t\<bar>)\<rparr>
      | Some _ \<Rightarrow> s)"

definition smooth :: "session \<Rightarrow> touch \<Rightarrow> session" where
  "smooth s t = s\<lparr>deltaX := deltaX s * 0.5 + (pageX t - lastX s) * 0.5, lastX := pageX t\<rparr>"

definition raw_index :: "session \<Rightarrow> touch \<Rightarrow> js_num" where
  "raw_index s t = js_plus (startIndex s) (js_div (startX s - pageX t) (startWidth s))"

definition clamp_index :: "real \<Rightarrow> touch \<Rightarrow> js_num \<Rightarrow> session \<Rightarrow> (session \<times> real) option" where
  "clamp_index indexMax t index s =
     (if js_lt index 0 then Some (s\<lparr>startX := pageX t\<rparr>, 0)
      else if js_gt index indexMax then Some (s\<lparr>startX := pageX t\<rparr>, indexMax)
      else (case index of Num r \<Rightarrow> Some (s, r) | _ \<Rightarrow> None))"

definition touch_move :: "nat \<Rightarrow> session \<Rightarrow> touch \<Rightarrow> error + session \<times> move_result" where
  "touch_move count s t =
     (let s1 = classify s t in
      if isScroll s1 = Some True then Inr (s1, Scroll)
      else
        let s2 = smooth s1 t in
        (case clamp_index (index_max count) t (raw_index s2 t) s2 of
           None \<Rightarrow> Inl NaNIndex
         | Some (s3, i) \<Rightarrow> Inr (s3, Drag i)))"

text \<open>The smoothed delta of a sequence of horizontal samples, in the closed form the
  specification states it (section 4.2): starting from the delta \<open>d\<close> and the last
  position \<open>lx\<close>, each sample halves the delta towards its displacement.\<close>

fun smoothed :: "real \<Rightarrow> real \<Rightarrow> real list \<Rightarrow> real" where
  "smoothed d lx [] = d"
| "smoothed d lx (x # xs) = smoothed (d * 0.5 + (x - lx) * 0.5) x xs"

lemmas gesture_defs = touch_start_def classify_def smooth_def raw_index_def clamp_index_def

subsection \<open>Facts about the steps of a move\<close>

lemma classify_isScroll:
  "isScroll (classify s t) =
     Some (case isScroll s of None \<Rightarrow> \<bar>startY s - pageY t\<bar> > \<bar>startX s - pageX t\<bar> | Some b \<Rightarrow> b)"
  by (simp add: classify_def split: option.split)

lemma classify_fields [simp]:
  "startWidth (classify s t) = startWidth s" "startIndex (classify s t) = startIndex s"
  "startX (classify s t) = startX s" "lastX (classify s t) = lastX s"
  "deltaX (classify s t) = deltaX s" "startY (classify s t) = startY s"
  by (simp_all add: classify_def split: option.split)

lemma clamp_index_range:
  assumes "clamp_index (index_max n) t r s = Some (s', i)" and "0 < n"
  shows "in_range (index_max n) i"
  using assms
  by (cases r) (auto simp: clamp_index_def in_range_def index_max_def split: if_splits)

lemma clamp_index_NaN: "clamp_index m t r s = None \<longleftrightarrow> r = NaN"
  by (cases r) (auto simp: clamp_index_def)

lemma clamp_index_Num_inside:
  "0 \<le> r \<Longrightarrow> r \<le> m \<Longrightarrow> clamp_index m t (Num r) s = Some (s, r)"
  by (simp add: clamp_index_def)

lemma raw_index_NaN:
  "raw_index s t = NaN \<longleftrightarrow> startWidth s = 0 \<and> pageX t = startX s"
  by (auto simp: raw_index_def js_div_def elim: js_plus.elims)

lemma touch_move_swipe:
  assumes "isScroll (classify s t) \<noteq> Some True"
  shows "touch_move n s t =
    (case clamp_index (index_max n) t (raw_index (smooth (classify s t) t) t)
                      (smooth (classify s t) t) of
       None \<Rightarrow> Inl NaNIndex | Some (s3, i) \<Rightarrow> Inr (s3, Drag i))"
  using assms by (simp add: touch_move_def Let_def)

lemma touch_move_scroll:
  "isScroll (classify s t) = Some True \<Longrightarrow> touch_move n s t = Inr (classify s t, Scroll)"
  by (simp add: touch_move_def)

lemma touch_move_DragD:
  assumes "touch_move n s t = Inr (s', Drag i)"
  shows "isScroll (classify s t) \<noteq> Some True \<and>
    clamp_index (index_max n) t (raw_index (smooth (classify s t) t) t) (smooth (classify s t) t)
      = Some (s', i)"
proof (cases "isScroll (classify s t) = Some True")
  case True
  with assms show ?thesis by (simp add: touch_move_scroll)
next
  case False
  with assms show ?thesis by (auto simp: touch_move_swipe split: option.splits)
qed

lemma touch_move_positive_width:
  assumes "0 < startWidth s"
  shows "touch_move n s t \<noteq> Inl e"
proof (cases "isScroll (classify s t) = Some True")
  case True
  then show ?thesis by (simp add: touch_move_scroll)
next
  case False
  have "raw_index (smooth (classify s t) t) t \<noteq> NaN"
    using assms by (simp add: raw_index_NaN smooth_def)
  with False show ?thesis
    by (auto simp: touch_move_swipe clamp_index_NaN split: option.split)
qed

subsection \<open>Properties of the gesture tracker\<close>

text \<open>C4: with at least one child, every index a move reports lies in
  \<open>[0, childCount - 1]\<close>: the clamp of lines 126--132 keeps the drag inside the
  collection.\<close>

theorem touch_move_range:
  assumes "touch_move n s t = Inr (s', Drag i)" and "0 < n"
  shows "in_range (index_max n) i"
  using touch_move_DragD [OF assms(1)] assms(2) by (blast intro: clamp_index_range)

theorem touch_move_range_witness:
  "touch_move 3 (touch_start 100 1 \<lparr>pageX = 0, pageY = 0\<rparr>) \<lparr>pageX = 150, pageY = 0\<rparr>
     = Inr (touch_start 100 1 \<lparr>pageX = 0, pageY = 0\<rparr>
              \<lparr>isScroll := Some False, deltaX := 75, lastX := 150, startX := 150\<rparr>, Drag 0)
   \<and> (0::nat) < 3 \<and> in_range (index_max 3) 0"
  using touch_move_range [of 3 "touch_start 100 1 \<lparr>pageX = 0, pageY = 0\<rparr>"
      "\<lparr>pageX = 150, pageY = 0\<rparr>"
      "touch_start 100 1 \<lparr>pageX = 0, pageY = 0\<rparr>
         \<lparr>isScroll := Some False, deltaX := 75, lastX := 150, startX := 150\<rparr>" 0]
  by (simp add: touch_move_def gesture_defs js_simps)

text \<open>C26: a move fails only where the source computes \<open>NaN\<close>: the session is a
  swipe, its width is zero and the finger is back at \<open>startX\<close> (\<open>0 / 0\<close>). In
  particular a move never fails on a session with a positive width.\<close>

theorem touch_move_error:
  "touch_move n s t = Inl e \<longleftrightarrow>
     e = NaNIndex \<and> isScroll (classify s t) \<noteq> Some True \<and>
     startWidth s = 0 \<and> pageX t = startX s"
proof (cases "isScroll (classify s t) = Some True")
  case True
  then show ?thesis by (simp add: touch_move_scroll)
next
  case False
  have raw: "raw_index (smooth (classify s t) t) t = NaN \<longleftrightarrow>
      startWidth s = 0 \<and> pageX t = startX s"
    by (simp add: raw_index_NaN smooth_def)
  from False have "touch_move n s t = Inl e \<longleftrightarrow>
      e = NaNIndex \<and> clamp_index (index_max n) t (raw_index (smooth (classify s t) t) t)
                       (smooth (classify s t) t) = None"
    by (auto simp: touch_move_swipe split: option.split)
  with False raw show ?thesis by (simp add: clamp_index_NaN)
qed

text \<open>C24: the scroll/swipe decision is taken once per session, on the first move
  sample (\<open>|\<Delta>y| > |\<Delta>x|\<close> measured from the start point), and never revised; a
  move on a session classified as scroll changes nothing else and reports
  \<open>Scroll\<close>.\<close>

theorem touch_move_classified_once:
  assumes "touch_move n s t = Inr (s', r)"
  shows "isScroll s' =
      Some (case isScroll s of
              None \<Rightarrow> \<bar>startY s - pageY t\<bar> > \<bar>startX s - pageX t\<bar>
            | Some b \<Rightarrow> b)
    \<and> (isScroll s' = Some True \<longrightarrow> r = Scroll \<and> s' = classify s t)"
proof (cases "isScroll (classify s t) = Some True")
  case True
  from assms True have "s' = classify s t" and "r = Scroll"
    by (simp_all add: touch_move_scroll)
  with True show ?thesis by (simp add: classify_isScroll)
next
  case False
  with assms obtain s2 i where r: "r = Drag i"
    and c: "clamp_index (index_max n) t (raw_index (smooth (classify s t) t) t)
              (smooth (classify s t) t) = Some (s2, i)" and s2: "s' = s2"
    by (auto simp: touch_move_swipe split: option.splits)
  from c have "isScroll s2 = isScroll (classify s t)"
    by (auto simp: clamp_index_def smooth_def split: if_splits js_num.splits)
  with False s2 r show ?thesis by (simp add: classify_isScroll)
qed

theorem touch_move_classified_once_witness:
  "touch_move 3 (touch_start 100 1 \<lparr>pageX = 0, pageY = 0\<rparr>) \<lparr>pageX = 5, pageY = 40\<rparr>
     = Inr ((touch_start 100 1 \<lparr>pageX = 0, pageY = 0\<rparr>)\<lparr>isScroll := Some True\<rparr>, Scroll)
   \<and> isScroll ((touch_start 100 1 \<lparr>pageX = 0, pageY = 0\<rparr>)\<lparr>isScroll := Some True\<rparr>) = Some True"
  using touch_move_classified_once [of 3 "touch_start 100 1 \<lparr>pageX = 0, pageY = 0\<rparr>"
      "\<lparr>pageX = 5, pageY = 40\<rparr>" "(touch_start 100 1 \<lparr>pageX = 0, pageY = 0\<rparr>)\<lparr>isScroll := Some True\<rparr>"
      Scroll]
  by (simp add: touch_move_def gesture_defs)

lemma touch_move_inside:
  assumes "isScroll (classify s t) \<noteq> Some True" and "0 < startWidth s"
    and "in_range (index_max n) (startIndex s + (startX s - pageX t) / startWidth s)"
  shows "touch_move n s t =
    Inr (smooth (classify s t) t, Drag (startIndex s + (startX s - pageX t) / startWidth s))"
proof -
  have "raw_index (smooth (classify s t) t) t =
          Num (startIndex s + (startX s - pageX t) / startWidth s)"
    using assms(2) by (simp add: raw_index_def smooth_def)
  with assms show ?thesis
    by (simp add: touch_move_swipe clamp_index_Num_inside in_range_def)
qed

text \<open>C25: inside the collection the reported index follows the finger: a swipe move
  with a positive width whose raw index \<open>startIndex + (startX - x) / width\<close> lies in
  \<open>[0, childCount - 1]\<close> reports exactly that index, keeps the anchor \<open>startX\<close>,
  records \<open>lastX = x\<close> and halves the smoothed delta towards the new displacement.\<close>

theorem touch_move_tracks:
  assumes "isScroll (classify s t) \<noteq> Some True" and "0 < startWidth s"
    and "0 \<le> startIndex s + (startX s - pageX t) / startWidth s"
    and "startIndex s + (startX s - pageX t) / startWidth s \<le> index_max n"
  shows "touch_move n s t =
    Inr (smooth (classify s t) t, Drag (startIndex s + (startX s - pageX t) / startWidth s))
    \<and> deltaX (smooth (classify s t) t) = deltaX s * 0.5 + (pageX t - lastX s) * 0.5
    \<and> startX (smooth (classify s t) t) = startX s \<and> lastX (smooth (classify s t) t) = pageX t"
  using touch_move_inside [OF assms(1,2), of n] assms(3,4) by (simp add: in_range_def smooth_def)

theorem touch_move_tracks_witness:
  "touch_move 3 (touch_start 100 1 \<lparr>pageX = 0, pageY = 0\<rparr>) \<lparr>pageX = 30, pageY = 2\<rparr>
     = Inr (smooth (classify (touch_start 100 1 \<lparr>pageX = 0, pageY = 0\<rparr>) \<lparr>pageX = 30, pageY = 2\<rparr>)
                   \<lparr>pageX = 30, pageY = 2\<rparr>, Drag 0.7)"
proof -
  have h: "isScroll (classify (touch_start 100 1 \<lparr>pageX = 0, pageY = 0\<rparr>) \<lparr>pageX = 30, pageY = 2\<rparr>)
             \<noteq> Some True"
    by (simp add: classify_def touch_start_def)
  show ?thesis
    using touch_move_tracks [OF h, of 3] by (simp add: touch_start_def js_simps)
qed

text \<open>The smoothed delta is an average of the previous delta and the latest
  displacement, so it never exceeds the larger of the two in magnitude.\<close>

lemma touch_move_delta_bound:
  assumes "touch_move n s t = Inr (s', Drag i)"
  shows "\<bar>deltaX s'\<bar> \<le> max \<bar>deltaX s\<bar> \<bar>pageX t - lastX s\<bar>"
proof -
  from assms have sw: "isScroll (classify s t) \<noteq> Some True"
    by (auto simp: touch_move_scroll)
  with assms obtain s3 where
    c: "clamp_index (index_max n) t (raw_index (smooth (classify s t) t) t)
          (smooth (classify s t) t) = Some (s3, i)" and "s' = s3"
    by (auto simp: touch_move_swipe split: option.splits)
  then have "deltaX s' = deltaX s * 0.5 + (pageX t - lastX s) * 0.5"
    by (auto simp: clamp_index_def smooth_def split: if_splits js_num.splits)
  then show ?thesis by (simp only: half_average_abs_le)
qed

lemma touch_move_delta_bound_example:
  "touch_move 3 (touch_start 100 1 \<lparr>pageX = 0, pageY = 0\<rparr>) \<lparr>pageX = 30, pageY = 2\<rparr>
     = Inr (smooth (classify (touch_start 100 1 \<lparr>pageX = 0, pageY = 0\<rparr>) \<lparr>pageX = 30, pageY = 2\<rparr>)
                   \<lparr>pageX = 30, pageY = 2\<rparr>, Drag 0.7)
   \<and> \<bar>deltaX (smooth (classify (touch_start 100 1 \<lparr>pageX = 0, pageY = 0\<rparr>) \<lparr>pageX = 30, pageY = 2\<rparr>)
                   \<lparr>pageX = 30, pageY = 2\<rparr>)\<bar> \<le> max \<bar>0\<bar> \<bar>30 - 0\<bar>"
proof -
  have e: "touch_move 3 (touch_start 100 1 \<lparr>pageX = 0, pageY = 0\<rparr>) \<lparr>pageX = 30, pageY = 2\<rparr>
     = Inr (smooth (classify (touch_start 100 1 \<lparr>pageX = 0, pageY = 0\<rparr>) \<lparr>pageX = 30, pageY = 2\<rparr>)
                   \<lparr>pageX = 30, pageY = 2\<rparr>, Drag 0.7)"
    by (simp add: touch_move_def gesture_defs js_simps)
  show ?thesis using e touch_move_delta_bound [OF e] by (simp add: touch_start_def)
qed

lemma touch_move_Drag_swipe:
  assumes "touch_move n s t = Inr (s', Drag i)"
  shows "isScroll s' = Some False"
proof -
  from touch_move_DragD [OF assms] have ns: "isScroll (classify s t) \<noteq> Some True"
    and cl: "clamp_index (index_max n) t (raw_index (smooth (classify s t) t) t) (smooth (classify s t) t)
               = Some (s', i)" by simp_all
  from ns classify_isScroll [of s t] have "isScroll (classify s t) = Some False" by auto
  with cl show ?thesis
    by (auto simp: clamp_index_def smooth_def split: if_splits js_num.splits)
qed

lemma touch_move_Scroll_scroll:
  assumes "touch_move n s t = Inr (s', Scroll)"
  shows "isScroll (classify s t) = Some True"
proof (rule ccontr)
  assume "isScroll (classify s t) \<noteq> Some True"
  with assms show False by (auto simp: touch_move_swipe split: option.splits prod.splits)
qed

subsection \<open>Re-anchoring at the boundaries\<close>

text \<open>A swipe move past slide 0 or past the last slide reports the boundary and moves
  \<open>startX\<close> to the finger (lines 126--131); the next move then reports the start index
  plus the movement since that point.\<close>

lemma touch_move_clamp_low:
  assumes "isScroll (classify s t) = Some False" and "0 < startWidth s"
    and "startIndex s * startWidth s < pageX t - startX s"
  shows "touch_move n s t = Inr ((smooth (classify s t) t)\<lparr>startX := pageX t\<rparr>, Drag 0)"
proof -
  have r: "raw_index (smooth (classify s t) t) t = Num (startIndex s + (startX s - pageX t) / startWidth s)"
    using assms(2) by (simp add: raw_index_def smooth_def js_div_def)
  have "(startX s - pageX t) / startWidth s < - startIndex s"
    using assms(2,3) by (simp add: divide_less_eq algebra_simps)
  then show ?thesis using assms(1) r by (simp add: touch_move_swipe clamp_index_def)
qed

lemma touch_move_clamp_high:
  assumes "isScroll (classify s t) = Some False" and "0 < startWidth s"
    and "is_slot (index_max n) (startIndex s)"
    and "(index_max n - startIndex s) * startWidth s < startX s - pageX t"
  shows "touch_move n s t = Inr ((smooth (classify s t) t)\<lparr>startX := pageX t\<rparr>, Drag (index_max n))"
proof -
  have r: "raw_index (smooth (classify s t) t) t = Num (startIndex s + (startX s - pageX t) / startWidth s)"
    using assms(2) by (simp add: raw_index_def smooth_def js_div_def)
  have x: "index_max n - startIndex s < (startX s - pageX t) / startWidth s"
    using assms(2,4) by (simp add: less_divide_eq algebra_simps)
  have "0 \<le> startIndex s" and "startIndex s \<le> index_max n"
    using assms(3) by (simp_all add: is_slot_def in_range_def)
  with x have "index_max n < startIndex s + (startX s - pageX t) / startWidth s"
    and "\<not> startIndex s + (startX s - pageX t) / startWidth s < 0"
    by linarith+
  then show ?thesis using assms(1) r by (simp add: touch_move_swipe clamp_index_def)
qed

lemma touch_move_after_reanchor:
  assumes "isScroll (classify s t) = Some False" and "0 < startWidth s"
    and "in_range (index_max n) (startIndex s + (pageX t - pageX t') / startWidth s)"
  shows "\<exists>s2. touch_move n ((smooth (classify s t) t)\<lparr>startX := pageX t\<rparr>) t' =
               Inr (s2, Drag (startIndex s + (pageX t - pageX t') / startWidth s))"
proof -
  let ?s1 = "(smooth (classify s t) t)\<lparr>startX := pageX t\<rparr>"
  have c: "classify ?s1 t' = ?s1" using assms(1) by (simp add: classify_def smooth_def)
  have r: "raw_index (smooth ?s1 t') t' = Num (startIndex s + (pageX t - pageX t') / startWidth s)"
    using assms(2) by (simp add: raw_index_def smooth_def js_div_def)
  show ?thesis
    using assms(1,3) c r by (simp add: touch_move_swipe clamp_index_Num_inside smooth_def in_range_def)
qed

text \<open>C28: the re-anchoring of lines 128 and 131 works when the drag started on slide 0:
  after a swipe from slide 0 has overshot it (reported 0 with the finger past the start
  point), moving back by \<open>d\<close> pixels reports \<open>d / width\<close> at once, measured from where the
  finger turned: there is no excess drag to win back.\<close>

theorem touch_move_boundary_hold:
  assumes "isScroll (classify s t) = Some False" and "0 < startWidth s" and "startIndex s = 0"
    and "startX s < pageX t" and "pageX t' = pageX t - d" and "0 \<le> d"
    and "d \<le> index_max n * startWidth s"
  shows "\<exists>s1 s2. touch_move n s t = Inr (s1, Drag 0) \<and>
           touch_move n s1 t' = Inr (s2, Drag (d / startWidth s))"
proof -
  have "d / startWidth s \<le> index_max n" using assms(2,7) by (simp add: divide_le_eq mult.commute)
  with assms(2,6) have "in_range (index_max n) (startIndex s + (pageX t - pageX t') / startWidth s)"
    using assms(3,5) by (simp add: in_range_def)
  from touch_move_clamp_low [of s t, OF assms(1,2)] touch_move_after_reanchor [OF assms(1,2) this] assms(3,4,5)
  show ?thesis by auto
qed

theorem touch_move_boundary_hold_witness:
  "\<exists>s1 s2. touch_move 3 (touch_start 100 0 \<lparr>pageX = 0, pageY = 0\<rparr>) \<lparr>pageX = 50, pageY = 0\<rparr>
             = Inr (s1, Drag 0) \<and>
           touch_move 3 s1 \<lparr>pageX = 30, pageY = 0\<rparr> = Inr (s2, Drag 0.2)"
  using touch_move_boundary_hold [of "touch_start 100 0 \<lparr>pageX = 0, pageY = 0\<rparr>"
          "\<lparr>pageX = 50, pageY = 0\<rparr>" "\<lparr>pageX = 30, pageY = 0\<rparr>" 20 3]
  by (simp add: touch_start_def classify_def js_simps)

text \<open>C22: the re-anchoring does not work when the drag started on another slide. A
  swipe that overshoots slide 0 reports 0 and moves \<open>startX\<close> to the finger, but
  \<open>startIndex\<close> stays; a further move of \<open>d\<close> pixels in the same direction, up to
  \<open>startIndex\<close> widths, then reports \<open>startIndex - d / width\<close>: the view jumps back
  to nearly the start slide while the finger keeps moving the same way.\<close>

theorem touch_move_clamp_jump:
  assumes "isScroll (classify s t) = Some False" and "0 < startWidth s"
    and "is_slot (index_max n) (startIndex s)"
    and "startIndex s * startWidth s < pageX t - startX s"
    and "pageX t' = pageX t + d" and "0 \<le> d" and "d \<le> startIndex s * startWidth s"
  shows "\<exists>s1 s2. touch_move n s t = Inr (s1, Drag 0) \<and>
           touch_move n s1 t' = Inr (s2, Drag (startIndex s - d / startWidth s))"
proof -
  have "0 \<le> startIndex s - d / startWidth s" using assms(2,7) by (simp add: divide_le_eq mult.commute)
  moreover have "startIndex s - d / startWidth s \<le> index_max n"
    using assms(2,3,6) by (auto simp: is_slot_def in_range_def intro: order_trans [of _ "startIndex s"])
  ultimately have "in_range (index_max n) (startIndex s + (pageX t - pageX t') / startWidth s)"
    using assms(5) by (simp add: in_range_def)
  from touch_move_clamp_low [OF assms(1,2,4)] touch_move_after_reanchor [OF assms(1,2) this] assms(5)
  show ?thesis by auto
qed

theorem touch_move_clamp_jump_witness:
  "\<exists>s1 s2.
     touch_move 3 (touch_start 100 1 \<lparr>pageX = 0, pageY = 0\<rparr>) \<lparr>pageX = 150, pageY = 0\<rparr>
       = Inr (s1, Drag 0) \<and>
     touch_move 3 s1 \<lparr>pageX = 151, pageY = 0\<rparr> = Inr (s2, Drag 0.99)"
  using touch_move_clamp_jump [of "touch_start 100 1 \<lparr>pageX = 0, pageY = 0\<rparr>"
          "\<lparr>pageX = 150, pageY = 0\<rparr>" 3 "\<lparr>pageX = 151, pageY = 0\<rparr>" 1]
  by (simp add: touch_start_def classify_def js_simps)

text \<open>The same at the last slide: a swipe that overshoots it reports the last index and
  re-anchors, and a further move of \<open>d\<close> pixels to the left reports
  \<open>startIndex + d / width\<close>.\<close>

lemma touch_move_clamp_jump_upper:
  assumes "isScroll (classify s t) = Some False" and "0 < startWidth s"
    and "is_slot (index_max n) (startIndex s)"
    and "(index_max n - startIndex s) * startWidth s < startX s - pageX t"
    and "pageX t' = pageX t - d" and "0 \<le> d" and "d \<le> (index_max n - startIndex s) * startWidth s"
  shows "\<exists>s1 s2. touch_move n s t = Inr (s1, Drag (index_max n)) \<and>
           touch_move n s1 t' = Inr (s2, Drag (startIndex s + d / startWidth s))"
proof -
  have "d / startWidth s \<le> index_max n - startIndex s"
    using assms(2,7) by (simp add: divide_le_eq mult.commute)
  moreover have "0 \<le> startIndex s" using assms(3) by (simp add: is_slot_def in_range_def)
  ultimately have "in_range (index_max n) (startIndex s + (pageX t - pageX t') / startWidth s)"
    using assms(2,5,6) by (simp add: in_range_def)
  from touch_move_clamp_high [OF assms(1-4)] touch_move_after_reanchor [OF assms(1,2) this] assms(5)
  show ?thesis by auto
qed

end
