(* ===== verification/Spring.thy ===== *)
theory Spring
  imports Prelude
begin

text \<open>
  The spring integrator. The component hands its animation targets to react-motion's
  \<open>Motion\<close> (src/src/index.js, lines 234--252), which advances every animated value
  once per frame with a damped spring; that library is not part of the repository, so
  \<open>advance\<close> is modelled from the specification (section 4.1): the acceleration is
  \<open>stiffness * (target - current) - damping * velocity\<close>, the velocity is advanced by
  \<open>dt\<close> first and the position by the new velocity. The configurations are the
  two of line 234 and react-motion's default, which line 239 uses for the height.
  \<open>motion_tick\<close> advances the two channels of the component, offset and height,
  independently. The lemmas show the equilibrium, that the error dynamics does not
  depend on the target, and that the dragging configuration overshoots: the distance
  to the target does not decrease monotonically.
\<close>

record spring_config =
  stiffness :: real
  damping :: real

record spring_state =
  current :: real
  velocity :: real

definition dragging_config :: spring_config where
  "dragging_config = \<lparr>stiffness = 3000, damping = 50\<rparr>"

definition idle_config :: spring_config where
  "idle_config = \<lparr>stiffness = 300, damping = 30\<rparr>"

definition default_config :: spring_config where
  "default_config = \<lparr>stiffness = 170, damping = 26\<rparr>"

definition frame_dt :: real where
  "frame_dt = 1 / 60"

definition advance :: "spring_config \<Rightarrow> real \<Rightarrow> real \<Rightarrow> spring_state \<Rightarrow> spring_state" where
  "advance c dt target s =
     (let a = stiffness c * (target - current s) - damping c * velocity s;
          v' = velocity s + a * dt
      in \<lparr>current = current s + v' * dt, velocity = v'\<rparr>)"

fun advance_n :: "nat \<Rightarrow> spring_config \<Rightarrow> real \<Rightarrow> real \<Rightarrow> spring_state \<Rightarrow> spring_state" where
  "advance_n 0 c dt target s = s"
| "advance_n (Suc n) c dt target s = advance_n n c dt target (advance c dt target s)"

record motion_style =
  translate_target :: real
  translate_config :: spring_config
  height_target :: real
  height_config :: spring_config

record motion_state =
  translate :: spring_state
  height :: spring_state

definition motion_tick :: "real \<Rightarrow> motion_style \<Rightarrow> motion_state \<Rightarrow> motion_state" where
  "motion_tick dt st m =
     \<lparr>translate = advance (translate_config st) dt (translate_target st) (translate m),
      height = advance (height_config st) dt (height_target st) (height m)\<rparr>"

definition motion_init :: "motion_style \<Rightarrow> motion_state" where
  "motion_init st =
     \<lparr>translate = \<lparr>current = translate_target st, velocity = 0\<rparr>,
      height = \<lparr>current = height_target st, velocity = 0\<rparr>\<rparr>"

text \<open>Quantities the spring dynamics scales by a constant factor every frame (with
  \<open>dt = 1/60\<close>; \<open>w = velocity * dt\<close> is the displacement of one frame): the energy
  \<open>5 e\<^sup>2 + w\<^sup>2\<close> of the dragging configuration, and the two modes \<open>e + 2 w\<close>
  and \<open>e + 3 w\<close> of the idle one, where \<open>e = current - target\<close>.\<close>

definition drag_energy :: "real \<Rightarrow> spring_state \<Rightarrow> real" where
  "drag_energy target s = 5 * (current s - target)\<^sup>2 + (velocity s * frame_dt)\<^sup>2"

definition idle_mode_a :: "real \<Rightarrow> spring_state \<Rightarrow> real" where
  "idle_mode_a target s = current s - target + 2 * (velocity s * frame_dt)"

definition idle_mode_b :: "real \<Rightarrow> spring_state \<Rightarrow> real" where
  "idle_mode_b target s = current s - target + 3 * (velocity s * frame_dt)"

text \<open>For react-motion's default configuration \<open>[170, 26]\<close> the dynamics has two
  real, irrational eigenvalues (about 0.862 and 0.657); the quadratic form
  \<open>e\<^sup>2 + 3 e w + 3 w\<^sup>2\<close> shrinks by at least \<open>4/5\<close> every frame.\<close>

definition height_energy :: "real \<Rightarrow> spring_state \<Rightarrow> real" where
  "height_energy target s =
     (current s - target)\<^sup>2 + 3 * (current s - target) * (velocity s * frame_dt) +
     3 * (velocity s * frame_dt)\<^sup>2"

lemmas spring_defs = dragging_config_def idle_config_def default_config_def frame_dt_def

subsection \<open>Error dynamics\<close>

lemma advance_shift:
  "advance c dt target s =
     (let e = current s - target;
          v' = velocity s - (stiffness c * e + damping c * velocity s) * dt
      in \<lparr>current = target + (e + v' * dt), velocity = v'\<rparr>)"
  by (simp add: advance_def Let_def algebra_simps)

lemma advance_rest: "advance c dt target \<lparr>current = target, velocity = 0\<rparr> = \<lparr>current = target, velocity = 0\<rparr>"
  by (simp add: advance_def)

lemma advance_n_rest:
  "advance_n n c dt target \<lparr>current = target, velocity = 0\<rparr> = \<lparr>current = target, velocity = 0\<rparr>"
  by (induction n) (simp_all add: advance_rest)

lemma advance_n_add:
  "advance_n (m + n) c dt target s = advance_n n c dt target (advance_n m c dt target s)"
  by (induction m arbitrary: s) simp_all

subsection \<open>Convergence\<close>

lemma drag_energy_advance:
  "drag_energy target (advance dragging_config frame_dt target s) = drag_energy target s / 6"
  by (simp add: drag_energy_def advance_def spring_defs Let_def power2_eq_square field_simps)

lemma drag_energy_advance_n:
  "drag_energy target (advance_n n dragging_config frame_dt target s) = drag_energy target s / 6 ^ n"
  by (induction n arbitrary: s) (simp_all add: drag_energy_advance)

lemma idle_mode_a_advance:
  "idle_mode_a target (advance idle_config frame_dt target s) = 3/4 * idle_mode_a target s"
  by (simp add: idle_mode_a_def advance_def spring_defs Let_def field_simps)

lemma idle_mode_b_advance:
  "idle_mode_b target (advance idle_config frame_dt target s) = 2/3 * idle_mode_b target s"
  by (simp add: idle_mode_b_def advance_def spring_defs Let_def field_simps)

lemma idle_modes_advance_n:
  "idle_mode_a target (advance_n n idle_config frame_dt target s) = (3/4) ^ n * idle_mode_a target s \<and>
   idle_mode_b target (advance_n n idle_config frame_dt target s) = (2/3) ^ n * idle_mode_b target s"
  by (induction n arbitrary: s) (simp_all add: idle_mode_a_advance idle_mode_b_advance)

lemma idle_error_modes: "current s - target = 3 * idle_mode_a target s - 2 * idle_mode_b target s"
  by (simp add: idle_mode_a_def idle_mode_b_def)

lemma dragging_error_bound:
  "(current (advance_n n dragging_config frame_dt target s) - target)\<^sup>2 \<le> drag_energy target s / (5 * 6 ^ n)"
proof -
  let ?s = "advance_n n dragging_config frame_dt target s"
  have "5 * (current ?s - target)\<^sup>2 \<le> drag_energy target ?s" by (simp add: drag_energy_def)
  also have "\<dots> = drag_energy target s / 6 ^ n" by (rule drag_energy_advance_n)
  finally show ?thesis by (simp add: field_simps)
qed

text \<open>C30: with the dragging configuration \<open>[3000, 50]\<close> of line 234, a spring that
  starts at rest at most one slide (100 percent) from its target is within 0.01 of
  the target from the 11th frame on, and stays there.\<close>

theorem dragging_settles:
  assumes "velocity s = 0" and "\<bar>current s - target\<bar> \<le> 100" and "11 \<le> n"
  shows "\<bar>current (advance_n n dragging_config frame_dt target s) - target\<bar> < 0.01"
proof -
  let ?e = "current (advance_n n dragging_config frame_dt target s) - target"
  have "\<bar>current s - target\<bar>\<^sup>2 \<le> 100\<^sup>2"
    using power_mono [OF assms(2) abs_ge_zero, of 2] .
  then have "(current s - target)\<^sup>2 \<le> 100\<^sup>2" by simp
  then have E: "drag_energy target s \<le> 50000" using assms(1) by (simp add: drag_energy_def)
  have "(6::real) ^ 11 \<le> 6 ^ n" using assms(3) by (rule power_increasing) simp
  then have "drag_energy target s / (5 * 6 ^ n) \<le> 50000 / (5 * 6 ^ 11)"
    using E by (intro frac_le) (simp_all add: drag_energy_def)
  with dragging_error_bound [of n target s] have "?e\<^sup>2 \<le> 50000 / (5 * 6 ^ 11)" by linarith
  also have "\<dots> < 0.01\<^sup>2" by (simp add: power2_eq_square)
  finally have "\<bar>?e\<bar>\<^sup>2 < 0.01\<^sup>2" by simp
  then show ?thesis by (rule power_less_imp_less_base) simp
qed

theorem dragging_settles_witness:
  "\<bar>current (advance_n 11 dragging_config frame_dt 100 \<lparr>current = 0, velocity = 0\<rparr>) - 100\<bar> < 0.01"
  using dragging_settles [of "\<lparr>current = 0, velocity = 0\<rparr>" 100 11] by simp

text \<open>The error dynamics is linear: from rest, the distance to the target after
  \<open>n\<close> frames is the initial distance times the distance of a spring started at rest
  one unit from its target.\<close>

lemma advance_scale:
  "advance c dt target \<lparr>current = target + e * x, velocity = e * v\<rparr> =
     \<lparr>current = target + e * current (advance c dt 0 \<lparr>current = x, velocity = v\<rparr>),
      velocity = e * velocity (advance c dt 0 \<lparr>current = x, velocity = v\<rparr>)\<rparr>"
  by (simp add: advance_def Let_def algebra_simps)

lemma advance_n_scale:
  "advance_n n c dt target \<lparr>current = target + e * x, velocity = e * v\<rparr> =
     \<lparr>current = target + e * current (advance_n n c dt 0 \<lparr>current = x, velocity = v\<rparr>),
      velocity = e * velocity (advance_n n c dt 0 \<lparr>current = x, velocity = v\<rparr>)\<rparr>"
proof (induction n arbitrary: x v)
  case 0
  then show ?case by simp
next
  case (Suc n)
  let ?a = "advance c dt 0 \<lparr>current = x, velocity = v\<rparr>"
  have "advance_n (Suc n) c dt 0 \<lparr>current = x, velocity = v\<rparr> =
        advance_n n c dt 0 \<lparr>current = current ?a, velocity = velocity ?a\<rparr>" by (cases ?a) simp
  with Suc.IH [of "current ?a" "velocity ?a"] show ?case by (simp add: advance_scale)
qed

lemma from_rest_scale:
  assumes "velocity s = 0"
  shows "current (advance_n n c dt target s) - target =
           (current s - target) * current (advance_n n c dt 0 \<lparr>current = 1, velocity = 0\<rparr>)"
proof -
  have "s = \<lparr>current = target + (current s - target) * 1, velocity = (current s - target) * 0\<rparr>"
    using assms by simp
  then have "advance_n n c dt target s = advance_n n c dt target
      \<lparr>current = target + (current s - target) * 1, velocity = (current s - target) * 0\<rparr>" by simp
  then show ?thesis by (simp only: advance_n_scale) simp
qed

lemma drag_unit:
  "current (advance_n 2 dragging_config frame_dt 0 \<lparr>current = 1, velocity = 0\<rparr>) = -1/9 \<and>
   \<bar>current (advance_n 4 dragging_config frame_dt 0 \<lparr>current = 1, velocity = 0\<rparr>)\<bar> <
   \<bar>current (advance_n 5 dragging_config frame_dt 0 \<lparr>current = 1, velocity = 0\<rparr>)\<bar>"
  by (simp add: advance_def spring_defs numeral_eq_Suc Let_def)

text \<open>C31: the dragging configuration overshoots: from rest at any distance from the
  target, after two frames the spring is on the other side of its target (at \<open>-1/9\<close>
  of the initial distance), and its distance to the target is larger after the 5th
  frame than after the 4th, so the distance does not decrease monotonically.\<close>

theorem dragging_overshoots:
  assumes "velocity s = 0" and "current s \<noteq> target"
  shows "(current (advance_n 2 dragging_config frame_dt target s) - target) * (current s - target) < 0 \<and>
    \<bar>current (advance_n 4 dragging_config frame_dt target s) - target\<bar>
      < \<bar>current (advance_n 5 dragging_config frame_dt target s) - target\<bar>"
  using drag_unit assms
  by (simp add: from_rest_scale [OF assms(1)] abs_mult mult.commute [of "current s - target"]
                mult.assoc power2_eq_square [symmetric])

theorem dragging_overshoots_witness:
  "(current (advance_n 2 dragging_config frame_dt 100 \<lparr>current = 0, velocity = 0\<rparr>) - 100) * (0 - 100) < 0 \<and>
   \<bar>current (advance_n 4 dragging_config frame_dt 100 \<lparr>current = 0, velocity = 0\<rparr>) - 100\<bar>
     < \<bar>current (advance_n 5 dragging_config frame_dt 100 \<lparr>current = 0, velocity = 0\<rparr>) - 100\<bar>"
  using dragging_overshoots [of "\<lparr>current = 0, velocity = 0\<rparr>" 100] by simp

lemma idle_from_rest:
  assumes "velocity s = 0"
  shows "current (advance_n n idle_config frame_dt target s) - target =
           (current s - target) * (3 * (3/4) ^ n - 2 * (2/3) ^ n)"
  using idle_error_modes [of "advance_n n idle_config frame_dt target s" target]
        idle_modes_advance_n [of target n s] assms
  by (simp add: idle_mode_a_def idle_mode_b_def algebra_simps)

lemma idle_factor:
  "0 \<le> 3 * (3/4::real) ^ n - 2 * (2/3) ^ n \<and>
   3 * (3/4::real) ^ Suc n - 2 * (2/3) ^ Suc n \<le> 3 * (3/4) ^ n - 2 * (2/3) ^ n \<and>
   3 * (3/4::real) ^ n - 2 * (2/3) ^ n \<le> 3 * (3/4) ^ n"
proof -
  have le: "(2/3::real) ^ n \<le> (3/4) ^ n" by (rule power_mono) simp_all
  have ge: "0 \<le> (2/3::real) ^ n" by simp
  have suc: "(3/4::real) ^ Suc n = 3/4 * (3/4) ^ n" "(2/3::real) ^ Suc n = 2/3 * (2/3) ^ n"
    by simp_all
  from le ge show ?thesis unfolding suc by linarith
qed

text \<open>C32: with the idle configuration \<open>[300, 30]\<close> of line 234, a spring that starts
  at rest approaches its target from one side, never overshooting, and its distance to
  the target never grows from one frame to the next.\<close>

theorem idle_no_overshoot:
  assumes "velocity s = 0"
  shows "0 \<le> (current (advance_n n idle_config frame_dt target s) - target) * (current s - target) \<and>
    \<bar>current (advance_n (Suc n) idle_config frame_dt target s) - target\<bar>
      \<le> \<bar>current (advance_n n idle_config frame_dt target s) - target\<bar>"
proof -
  define e0 where "e0 = current s - target"
  define f where "f = (\<lambda>n. 3 * (3/4::real) ^ n - 2 * (2/3) ^ n)"
  have en: "current (advance_n m idle_config frame_dt target s) - target = e0 * f m" for m
    unfolding e0_def f_def by (rule idle_from_rest [OF assms])
  have f: "0 \<le> f n" "0 \<le> f (Suc n)" "f (Suc n) \<le> f n"
    using idle_factor [of n] idle_factor [of "Suc n"] unfolding f_def by simp_all
  have "0 \<le> (e0 * e0) * f n" using f(1) by (rule mult_nonneg_nonneg [OF zero_le_square])
  then have sign: "0 \<le> (e0 * f n) * e0" by (simp add: mult_ac)
  have "\<bar>e0 * f (Suc n)\<bar> = \<bar>e0\<bar> * f (Suc n)" using f(2) by (simp add: abs_mult)
  also have "\<dots> \<le> \<bar>e0\<bar> * f n" using f(3) by (rule mult_left_mono) simp
  also have "\<dots> = \<bar>e0 * f n\<bar>" using f(1) by (simp add: abs_mult)
  finally show ?thesis using sign unfolding en e0_def by simp
qed

theorem idle_no_overshoot_witness:
  "0 \<le> (current (advance_n 3 idle_config frame_dt 100 \<lparr>current = 0, velocity = 0\<rparr>) - 100) *
       (current \<lparr>current = 0, velocity = 0\<rparr> - 100) \<and>
   \<bar>current (advance_n (Suc 3) idle_config frame_dt 100 \<lparr>current = 0, velocity = 0\<rparr>) - 100\<bar>
     \<le> \<bar>current (advance_n 3 idle_config frame_dt 100 \<lparr>current = 0, velocity = 0\<rparr>) - 100\<bar>"
  by (rule idle_no_overshoot) simp

text \<open>With the idle configuration, a spring that starts at rest at most one slide
  from its target is within 0.01 of it from the 40th frame on.\<close>

lemma idle_settles:
  assumes "velocity s = 0" and "\<bar>current s - target\<bar> \<le> 100" and "40 \<le> n"
  shows "\<bar>current (advance_n n idle_config frame_dt target s) - target\<bar> < 0.01"
proof -
  let ?f = "3 * (3/4::real) ^ n - 2 * (2/3) ^ n"
  have f: "0 \<le> ?f" "?f \<le> 3 * (3/4) ^ n" using idle_factor [of n] by simp_all
  have "(3/4::real) ^ n \<le> (3/4) ^ 40" using assms(3) by (rule power_decreasing) simp_all
  with f have "?f \<le> 3 * (3/4) ^ 40" by linarith
  have "\<bar>current (advance_n n idle_config frame_dt target s) - target\<bar> = \<bar>current s - target\<bar> * ?f"
    using f(1) by (simp add: idle_from_rest [OF assms(1)] abs_mult)
  also have "\<dots> \<le> 100 * (3 * (3/4) ^ 40)"
    using assms(2) f(1) \<open>?f \<le> 3 * (3/4) ^ 40\<close> by (intro mult_mono) simp_all
  also have "\<dots> < 0.01" by (simp add: power_divide)
  finally show ?thesis .
qed

lemma idle_settles_example:
  "\<bar>current (advance_n 40 idle_config frame_dt 100 \<lparr>current = 0, velocity = 0\<rparr>) - 100\<bar> < 0.01"
  using idle_settles [of "\<lparr>current = 0, velocity = 0\<rparr>" 100 40] by simp

lemma idle_error_bound:
  "\<bar>current (advance_n n idle_config frame_dt target s) - target\<bar> \<le>
     5 * max \<bar>idle_mode_a target s\<bar> \<bar>idle_mode_b target s\<bar> * (3/4) ^ n"
proof -
  let ?s = "advance_n n idle_config frame_dt target s"
  let ?M = "max \<bar>idle_mode_a target s\<bar> \<bar>idle_mode_b target s\<bar>"
  have e: "current ?s - target = 3 * ((3/4) ^ n * idle_mode_a target s) - 2 * ((2/3) ^ n * idle_mode_b target s)"
    using idle_error_modes [of ?s target] idle_modes_advance_n [of target n s] by simp
  have "(2/3::real) ^ n \<le> (3/4) ^ n" by (rule power_mono) simp_all
  then have b: "\<bar>(2/3) ^ n * idle_mode_b target s\<bar> \<le> (3/4) ^ n * ?M"
    by (simp add: abs_mult mult_mono)
  have a: "\<bar>(3/4) ^ n * idle_mode_a target s\<bar> \<le> (3/4) ^ n * ?M"
    by (simp add: abs_mult mult_left_mono)
  have m: "5 * ?M * (3/4) ^ n = 3 * ((3/4) ^ n * ?M) + 2 * ((3/4) ^ n * ?M)"
    by (simp add: algebra_simps)
  show ?thesis unfolding e m using a b by arith
qed

lemma translate_ticks:
  "translate ((motion_tick dt st ^^ n) m) =
     advance_n n (translate_config st) dt (translate_target st) (translate m)"
  by (induction n arbitrary: m) (simp_all add: motion_tick_def funpow_Suc_right del: funpow.simps)

lemma height_ticks:
  "height ((motion_tick dt st ^^ n) m) =
     advance_n n (height_config st) dt (height_target st) (height m)"
  by (induction n arbitrary: m) (simp_all add: motion_tick_def funpow_Suc_right del: funpow.simps)

lemma default_step_error:
  "velocity (advance default_config frame_dt target s) * frame_dt =
     17/30 * (velocity s * frame_dt) - 17/360 * (current s - target) \<and>
   current (advance default_config frame_dt target s) - target =
     (current s - target) + (17/30 * (velocity s * frame_dt) - 17/360 * (current s - target))"
  by (simp add: advance_def spring_defs Let_def field_simps)

lemma default_energy_identity:
  fixes e w :: real
  shows "4/5 * (e\<^sup>2 + 3 * e * w + 3 * w\<^sup>2) -
     ((e + (17/30 * w - 17/360 * e))\<^sup>2 + 3 * (e + (17/30 * w - 17/360 * e)) * (17/30 * w - 17/360 * e)
      + 3 * (17/30 * w - 17/360 * e)\<^sup>2) =
     2657/129600 * (e - 3804/2657 * w)\<^sup>2 + 1464/13285 * w\<^sup>2"
  by (simp add: power2_eq_square algebra_simps)

lemma height_energy_advance:
  "height_energy target (advance default_config frame_dt target s) \<le> 4/5 * height_energy target s"
proof -
  let ?e = "current s - target" and ?w = "velocity s * frame_dt"
  let ?w' = "17/30 * ?w - 17/360 * ?e"
  let ?z = "2657/129600 * (?e - 3804/2657 * ?w)\<^sup>2 + 1464/13285 * ?w\<^sup>2"
  have h1: "height_energy target (advance default_config frame_dt target s) =
          (?e + ?w')\<^sup>2 + 3 * (?e + ?w') * ?w' + 3 * ?w'\<^sup>2"
    unfolding height_energy_def default_step_error [THEN conjunct1] default_step_error [THEN conjunct2] ..
  have h0: "height_energy target s = ?e\<^sup>2 + 3 * ?e * ?w + 3 * ?w\<^sup>2"
    by (simp add: height_energy_def)
  have "4/5 * height_energy target s - height_energy target (advance default_config frame_dt target s) = ?z"
    unfolding h0 h1 by (rule default_energy_identity)
  moreover have "0 \<le> ?z" by simp
  ultimately show ?thesis by linarith
qed
lemma height_energy_advance_n:
  "height_energy target (advance_n n default_config frame_dt target s) \<le> (4/5) ^ n * height_energy target s"
proof (induction n arbitrary: s)
  case 0
  then show ?case by simp
next
  case (Suc n)
  have "height_energy target (advance_n n default_config frame_dt target (advance default_config frame_dt target s))
          \<le> (4/5) ^ n * height_energy target (advance default_config frame_dt target s)"
    by (rule Suc.IH)
  also have "\<dots> \<le> (4/5) ^ n * (4/5 * height_energy target s)"
    by (rule mult_left_mono [OF height_energy_advance]) simp
  finally show ?case by simp
qed

lemma height_energy_lower: "(current s - target)\<^sup>2 \<le> 4 * height_energy target s"
proof -
  have "4 * height_energy target s - (current s - target)\<^sup>2 =
          3 * (current s - target + 2 * (velocity s * frame_dt))\<^sup>2"
    by (simp add: height_energy_def power2_eq_square algebra_simps)
  moreover have "0 \<le> 3 * (current s - target + 2 * (velocity s * frame_dt))\<^sup>2" by simp
  ultimately show ?thesis by linarith
qed

lemma height_energy_nonneg: "0 \<le> height_energy target s"
  using height_energy_lower [of s target] zero_le_power2 [of "current s - target"] by linarith

lemma default_error_bound:
  "(current (advance_n n default_config frame_dt target s) - target)\<^sup>2
     \<le> 4 * (4/5) ^ n * height_energy target s"
  using height_energy_lower [of "advance_n n default_config frame_dt target s" target]
        height_energy_advance_n [of target n s]
  by simp

text \<open>Each of the three configurations converges from any state: the distance to the
  target is eventually below any positive bound, and stays below it.\<close>

lemma spring_converges:
  assumes "cfg \<in> {dragging_config, idle_config, default_config}" and "0 < \<epsilon>"
  shows "\<exists>N. \<forall>n\<ge>N. \<bar>current (advance_n n cfg frame_dt target s) - target\<bar> < \<epsilon>"
proof -
  let ?e = "\<lambda>n. current (advance_n n cfg frame_dt target s) - target"
  consider "cfg = dragging_config" | "cfg = idle_config" | "cfg = default_config" using assms(1) by blast
  then show ?thesis
  proof cases
    case 1
    let ?B = "drag_energy target s / 5"
    have "0 \<le> ?B" by (simp add: drag_energy_def)
    from geometric_eventually [OF this _ _ zero_less_power [OF assms(2), of 2], of "1/6"]
    obtain N where N: "\<forall>n\<ge>N. ?B * (1/6) ^ n < \<epsilon>\<^sup>2" by auto
    have "\<bar>?e n\<bar> < \<epsilon>" if "N \<le> n" for n
    proof -
      have "(?e n)\<^sup>2 \<le> ?B * (1/6) ^ n"
        using dragging_error_bound [of n target s] 1 by (simp add: power_one_over field_simps)
      with N that have "(?e n)\<^sup>2 < \<epsilon>\<^sup>2" by fastforce
      then show ?thesis using assms(2) by (rule abs_less_of_power2_less)
    qed
    then show ?thesis by blast
  next
    case 2
    let ?B = "5 * max \<bar>idle_mode_a target s\<bar> \<bar>idle_mode_b target s\<bar>"
    have "0 \<le> ?B" by simp
    from geometric_eventually [OF this _ _ assms(2), of "3/4"]
    obtain N where N: "\<forall>n\<ge>N. ?B * (3/4) ^ n < \<epsilon>" by auto
    have "\<bar>?e n\<bar> < \<epsilon>" if "N \<le> n" for n
      using idle_error_bound [of n target s] N that 2 by fastforce
    then show ?thesis by blast
  next
    case 3
    let ?B = "4 * height_energy target s"
    have "0 \<le> ?B" using height_energy_nonneg [of target s] by simp
    from geometric_eventually [OF this _ _ zero_less_power [OF assms(2), of 2], of "4/5"]
    obtain N where N: "\<forall>n\<ge>N. ?B * (4/5) ^ n < \<epsilon>\<^sup>2" by auto
    have "\<bar>?e n\<bar> < \<epsilon>" if "N \<le> n" for n
    proof -
      have "(?e n)\<^sup>2 \<le> ?B * (4/5) ^ n"
        using default_error_bound [of n target s] 3 by (simp add: mult_ac)
      with N that have "(?e n)\<^sup>2 < \<epsilon>\<^sup>2" by fastforce
      then show ?thesis using assms(2) by (rule abs_less_of_power2_less)
    qed
    then show ?thesis by blast
  qed
qed

end
