(* ===== verification/Slides.thy ===== *)
theory Slides
  imports Prelude
begin

text \<open>
  The slide nodes \<open>renderContainer\<close> collects through React refs (src/src/index.js,
  lines 191--212). Every render resets \<open>this._slides\<close> to \<open>[]\<close> and a local counter
  \<open>i\<close> to 0 and creates fresh ref closures: on the first render one closure that
  stores its node at index 0, afterwards one closure per child that stores a non-null
  node at \<open>i++\<close>. When React commits the render it first calls the closures of the
  previous render with \<open>null\<close> (their identity changed) and then the new ones with
  their nodes, in document order; all of them write into the array of the new render.
  A JavaScript array is a list of optional values here: an assignment past the end
  extends it with holes (\<open>js_store\<close>), and a hole, \<open>undefined\<close> and \<open>null\<close> are all
  \<open>None\<close>, which is how \<open>getTargetHeight\<close>'s test \<open>slide != undefined\<close> sees them.
\<close>

text \<open>A slide node, read through the heights (\<open>clientHeight\<close>) of its children.\<close>

type_synonym dom_slide = "real list"

definition js_store :: "'a option list \<Rightarrow> nat \<Rightarrow> 'a option \<Rightarrow> 'a option list" where
  "js_store xs i v =
     (if i < length xs then xs[i := v] else xs @ replicate (i - length xs) None @ [v])"

text \<open>The two kinds of ref closure \<open>renderContainer\<close> creates (line 197 and lines
  204--207).\<close>

datatype ref_cb = FirstRef | MapRef

fun ref_call :: "ref_cb \<Rightarrow> dom_slide option \<Rightarrow> dom_slide option list \<times> nat \<Rightarrow>
                 dom_slide option list \<times> nat" where
  "ref_call FirstRef s (xs, i) = (js_store xs 0 s, i)"
| "ref_call MapRef None (xs, i) = (xs, i)"
| "ref_call MapRef (Some s) (xs, i) = (js_store xs i (Some s), Suc i)"

definition render_refs :: "bool \<Rightarrow> nat \<Rightarrow> ref_cb list" where
  "render_refs isFirstRender n = (if isFirstRender then [FirstRef] else replicate n MapRef)"

definition detach_refs :: "ref_cb list \<Rightarrow> dom_slide option list \<times> nat \<Rightarrow>
                           dom_slide option list \<times> nat" where
  "detach_refs cbs st = fold (\<lambda>cb. ref_call cb None) cbs st"

definition attach_refs :: "ref_cb list \<Rightarrow> dom_slide list \<Rightarrow> dom_slide option list \<times> nat \<Rightarrow>
                           dom_slide option list \<times> nat" where
  "attach_refs cbs doms st = fold (\<lambda>(cb, d). ref_call cb (Some d)) (zip cbs doms) st"

definition commit_refs :: "ref_cb list \<Rightarrow> ref_cb list \<Rightarrow> dom_slide list \<Rightarrow> dom_slide option list" where
  "commit_refs old new doms = fst (attach_refs new doms (detach_refs old ([], 0)))"

subsection \<open>Arrays\<close>

lemma length_js_store [simp]: "length (js_store xs i v) = max (length xs) (Suc i)"
  by (simp add: js_store_def)

lemma js_store_nth:
  "j < length (js_store xs i v) \<Longrightarrow>
   js_store xs i v ! j = (if j = i then v else if j < length xs then xs ! j else None)"
  by (auto simp: js_store_def nth_append nth_list_update)

lemma js_store_snoc [simp]: "js_store xs (length xs) v = xs @ [v]"
  by (simp add: js_store_def)

lemma js_store_hole [simp]: "js_store [None] 0 v = [v]"
  by (simp add: js_store_def)

subsection \<open>Ref callbacks\<close>

lemma detach_refs_cleared:
  "xs = [] \<or> xs = [None] \<Longrightarrow>
   \<exists>ys. detach_refs cbs (xs, i) = (ys, i) \<and> (ys = [] \<or> ys = [None])"
proof (induction cbs arbitrary: xs)
  case Nil
  then show ?case by (auto simp: detach_refs_def)
next
  case (Cons cb cbs)
  have "ref_call cb None (xs, i) = (if cb = FirstRef then [None] else xs, i)"
    using Cons.prems by (cases cb) (auto simp: js_store_def)
  then show ?case
    using Cons.IH [of "if cb = FirstRef then [None] else xs"] Cons.prems
    by (simp add: detach_refs_def)
qed

lemma attach_map_refs:
  "rest = [] \<or> rest = [None] \<Longrightarrow>
   attach_refs (replicate (length ds) MapRef) ds (map Some ps @ rest, length ps) =
     (if ds = [] then map Some ps @ rest else map Some (ps @ ds), length ps + length ds)"
proof (induction ds arbitrary: ps rest)
  case Nil
  then show ?case by (simp add: attach_refs_def)
next
  case (Cons d ds)
  have "js_store (map Some ps @ rest) (length ps) (Some d) = map Some (ps @ [d])"
    using Cons.prems by (auto simp: js_store_def list_update_append)
  then have "attach_refs (replicate (length (d # ds)) MapRef) (d # ds) (map Some ps @ rest, length ps)
           = attach_refs (replicate (length ds) MapRef) ds (map Some (ps @ [d]) @ [], length (ps @ [d]))"
    by (simp add: attach_refs_def)
  also have "\<dots> = (map Some (ps @ d # ds), length ps + length (d # ds))"
    using Cons.IH [of "[]" "ps @ [d]"] by simp
  finally show ?case by simp
qed

subsection \<open>Properties of the slide registration\<close>

text \<open>A store into a JavaScript array and a read by a number round-trip: reading
  the index just written gives the stored value; an index below the old length keeps
  its old value; the indices between the old end and the new one read as holes; and
  indices past the new end are out of range.\<close>

lemma js_store_roundtrip:
  "js_index (js_store xs i v) (real j) =
     (if j = i then Some v
      else if j < length xs then js_index xs (real j)
      else if j < i then Some None else None)"
  by (auto simp: js_store_nth)

text \<open>The ref callbacks of a commit register exactly the rendered slide nodes, in
  document order, whatever closures the previous render left behind.\<close>

lemma commit_refs_rendered:
  assumes "length doms = length (render_refs isFirst n)" and "doms \<noteq> []"
  shows "commit_refs old (render_refs isFirst n) doms = map Some doms"
proof -
  obtain ys where d: "detach_refs old ([], 0) = (ys, 0)" and ys: "ys = [] \<or> ys = [None]"
    using detach_refs_cleared [of "[]" old 0] by auto
  show ?thesis
  proof (cases isFirst)
    case True
    with assms obtain d0 where "doms = [d0]" by (cases doms) (auto simp: render_refs_def)
    with True d ys show ?thesis
      by (auto simp: commit_refs_def attach_refs_def render_refs_def js_store_def)
  next
    case False
    with assms(1) have "render_refs isFirst n = replicate (length doms) MapRef"
      by (simp add: render_refs_def)
    with d ys assms(2) attach_map_refs [of ys doms "[]"] show ?thesis
      by (simp add: commit_refs_def)
  qed
qed

end
