(* ===== verification/Styles.thy ===== *)
theory Styles
  imports Prelude "HOL-Library.AList"
begin

text \<open>
  Inline styles of src/src/index.js: the constant \<open>styles\<close> (lines 9--21) and
  \<open>objectAssign\<close> (the object-assign package, \<open>Object.assign\<close>), which
  \<open>renderContainer\<close> uses to merge the animated transform and height with the
  container's flex layout and the user's \<open>style\<close> property (lines 214--219). A style
  object is an association list from property names to values, in insertion order, as
  JavaScript objects keep their string keys. A value is a number, a string, or the
  template string \<open>translate3d(-${x}%, 0, 0)\<close> of line 216 with its number \<open>x\<close>.
  \<open>String(x)\<close> of a negative number starts with a minus sign, so for \<open>x < 0\<close> the
  template reads \<open>translate3d(--\<dots>%, 0, 0)\<close>, which is not a CSS transform: browsers
  drop the declaration. \<open>translate_valid\<close> records exactly that.
\<close>

datatype css = CssNum real | CssStr string | Translate3d real

type_synonym css_object = "(string \<times> css) list"

definition translate_valid :: "css \<Rightarrow> bool" where
  "translate_valid v = (case v of Translate3d x \<Rightarrow> 0 \<le> x | _ \<Rightarrow> True)"

text \<open>\<open>objectAssign(target, ...sources)\<close>: each source that is not \<open>null\<close> or
  \<open>undefined\<close> (\<open>None\<close>) has its properties copied in order; a property already present
  keeps its position and takes the new value.\<close>

definition assign_props :: "css_object \<Rightarrow> css_object \<Rightarrow> css_object" where
  "assign_props src target = fold (\<lambda>(k, v) acc. AList.update k v acc) src target"

definition objectAssign :: "css_object \<Rightarrow> css_object option list \<Rightarrow> css_object" where
  "objectAssign target sources =
     fold (\<lambda>src acc. case src of None \<Rightarrow> acc | Some obj \<Rightarrow> assign_props obj acc) sources target"

definition styles_root :: css_object where
  "styles_root = [(''overflowX'', CssStr ''hidden'')]"

definition styles_container :: css_object where
  "styles_container = [(''display'', CssStr ''flex'')]"

definition styles_slide :: css_object where
  "styles_slide = [(''width'', CssStr ''100%''), (''flexShrink'', CssNum 0), (''overflow'', CssStr ''auto'')]"

subsection \<open>Lookup in merged style objects\<close>

lemma map_of_assign_props:
  "map_of (assign_props src target) = map_of target ++ map_of (rev src)"
proof (induction src arbitrary: target)
  case Nil
  then show ?case by (simp add: assign_props_def)
next
  case (Cons kv src)
  obtain k v where kv: "kv = (k, v)" by fastforce
  have "map_of (assign_props (kv # src) target) = map_of (AList.update k v target) ++ map_of (rev src)"
    using Cons.IH [of "AList.update k v target"] by (simp add: assign_props_def kv)
  also have "\<dots> = map_of target ++ map_of (rev (kv # src))"
    by (auto simp: kv update_conv' map_add_def fun_eq_iff split: option.splits)
  finally show ?case .
qed

lemma map_of_objectAssign:
  "map_of (objectAssign target srcs) =
     foldl (\<lambda>m src. case src of None \<Rightarrow> m | Some obj \<Rightarrow> m ++ map_of (rev obj)) (map_of target) srcs"
proof (induction srcs arbitrary: target)
  case Nil
  then show ?case by (simp add: objectAssign_def)
next
  case (Cons src srcs)
  then show ?case
    by (cases src) (simp_all add: objectAssign_def map_of_assign_props)
qed

lemma distinct_assign_props:
  "distinct (map fst target) \<Longrightarrow> distinct (map fst (assign_props src target))"
  by (induction src arbitrary: target) (auto simp: assign_props_def distinct_update)

end
