(* ===== verification/Controller.thy ===== *)
theory Controller
  imports Resolver Gesture Spring Slides Styles
begin

text \<open>
  The component \<open>SwipeableViews\<close> of src/src/index.js as a state machine. Its
  properties (after \<open>getDefaultProps\<close>), its React state, the instance fields of the
  current touch session, the slide nodes its refs collect and the state of its
  \<open>Motion\<close> child form the record \<open>component\<close>. Each handler of the source is one
  definition that returns the new component and the effects it performs
  (\<open>preventDefault\<close> on the touch event, a call of \<open>onChangeIndex\<close>); \<open>step\<close>
  dispatches the events React delivers (touch events only while not
  \<open>disabled\<close>, as \<open>render\<close> attaches them; a \<open>touchcancel\<close> has no handler),
  and \<open>run\<close> folds it over a list of events, stopping at the first error.
  \<open>render\<close> computes the spring targets the component hands to \<open>Motion\<close>, and a
  \<open>Frame\<close> event advances the two springs towards them. \<open>wf\<close> is the invariant,
  \<open>ok_event\<close> the order the browser delivers events in, and \<open>reachable\<close> the
  states reached from \<open>mount\<close> in that order.
\<close>

record props =
  children :: nat
  disabled :: bool
  prop_index :: "real option"
  onChangeIndex :: bool
  style :: "css_object option"
  threshold :: real

record sv_state =
  index :: real
  targetIndex :: real
  isDragging :: bool
  isFirstRender :: bool

record component =
  props :: props
  state :: sv_state
  session :: "session option"
  slides :: "dom_slide option list"
  rendered :: "ref_cb list"
  motion :: motion_state
  style_given :: motion_style

datatype effect = PreventDefault | ChangeIndex real

datatype event =
    TouchStart real touch
  | TouchMove touch
  | TouchEnd
  | TouchCancel
  | ReceiveProps props
  | DidMount
  | Commit "dom_slide list"
  | Frame real

subsection \<open>Properties and initial state\<close>

definition getDefaultProps :: "nat \<Rightarrow> props" where
  "getDefaultProps n =
     \<lparr>children = n, disabled = False, prop_index = Some 0, onChangeIndex = False, style = None,
      threshold = 5\<rparr>"

definition getInitialState :: "props \<Rightarrow> error + sv_state" where
  "getInitialState p =
     (case prop_index p of
        None \<Rightarrow> Inl NoIndexProp
      | Some i \<Rightarrow> Inr \<lparr>index = i, targetIndex = i, isDragging = False, isFirstRender = True\<rparr>)"

definition componentDidMount :: "component \<Rightarrow> component" where
  "componentDidMount c = c\<lparr>state := (state c)\<lparr>isFirstRender := False\<rparr>\<rparr>"

definition componentWillReceiveProps :: "props \<Rightarrow> component \<Rightarrow> component" where
  "componentWillReceiveProps p c =
     (let c' = (case prop_index p of
                  Some i \<Rightarrow> if Some i \<noteq> prop_index (props c)
                            then c\<lparr>state := (state c)\<lparr>index := i\<rparr>\<rparr> else c
                | None \<Rightarrow> c)
      in c'\<lparr>props := p\<rparr>)"

subsection \<open>Touch handlers\<close>

definition handleTouchStart :: "real \<Rightarrow> touch \<Rightarrow> component \<Rightarrow> component" where
  "handleTouchStart width t c = c\<lparr>session := Some (touch_start width (index (state c)) t)\<rparr>"

definition handleTouchMove :: "touch \<Rightarrow> component \<Rightarrow> error + component \<times> effect list" where
  "handleTouchMove t c =
     (case session c of
        None \<Rightarrow> Inl NoSession
      | Some s \<Rightarrow>
          (case touch_move (children (props c)) s t of
             Inl e \<Rightarrow> Inl e
           | Inr (s', Scroll) \<Rightarrow> Inr (c\<lparr>session := Some s'\<rparr>, [])
           | Inr (s', Drag i) \<Rightarrow>
               Inr (c\<lparr>session := Some s',
                      state := (state c)\<lparr>isDragging := True, index := i\<rparr>\<rparr>, [PreventDefault])))"

definition handleTouchEnd :: "component \<Rightarrow> error + component \<times> effect list" where
  "handleTouchEnd c =
     (case session c of
        None \<Rightarrow> Inl NoSession
      | Some s \<Rightarrow>
          if isScroll s = Some True then Inr (c, [])
          else
            let indexNew = index_new (threshold (props c)) (deltaX s) (startIndex s) (index (state c))
            in Inr (c\<lparr>state := (state c)\<lparr>index := indexNew, targetIndex := indexNew,
                                           isDragging := False\<rparr>\<rparr>,
                    if onChangeIndex (props c) \<and> indexNew \<noteq> startIndex s
                    then [ChangeIndex indexNew] else []))"

subsection \<open>Rendering\<close>

definition getTargetHeight :: "component \<Rightarrow> real" where
  "getTargetHeight c =
     (case js_index (slides c) (targetIndex (state c)) of
        None \<Rightarrow> 0
      | Some None \<Rightarrow> 0
      | Some (Some slide) \<Rightarrow> (case slide of [] \<Rightarrow> 0 | child # _ \<Rightarrow> child))"

definition render :: "component \<Rightarrow> motion_style" where
  "render c =
     \<lparr>translate_target = index (state c) * 100,
      translate_config = (if isDragging (state c) then dragging_config else idle_config),
      height_target = getTargetHeight c,
      height_config = default_config\<rparr>"

subsection \<open>Events and runs\<close>

text \<open>\<open>dispatch\<close> runs the handler React calls for an event: touch events only
  while not \<open>disabled\<close> (as \<open>render\<close> attaches them), no handler for
  \<open>touchcancel\<close>; a \<open>Commit\<close> runs the ref callbacks of the last render, and an
  animation \<open>Frame\<close> advances \<open>Motion\<close>'s springs towards the style it was last
  given.\<close>

fun dispatch :: "component \<Rightarrow> event \<Rightarrow> error + component \<times> effect list" where
  "dispatch c (TouchStart w t) =
     (if disabled (props c) then Inr (c, []) else Inr (handleTouchStart w t c, []))"
| "dispatch c (TouchMove t) = (if disabled (props c) then Inr (c, []) else handleTouchMove t c)"
| "dispatch c TouchEnd = (if disabled (props c) then Inr (c, []) else handleTouchEnd c)"
| "dispatch c TouchCancel = Inr (c, [])"
| "dispatch c (ReceiveProps p) = Inr (componentWillReceiveProps p c, [])"
| "dispatch c DidMount = Inr (componentDidMount c, [])"
| "dispatch c (Commit doms) =
     Inr (c\<lparr>slides := commit_refs (rendered c) (render_refs (isFirstRender (state c)) (children (props c))) doms,
            rendered := render_refs (isFirstRender (state c)) (children (props c))\<rparr>, [])"
| "dispatch c (Frame dt) = Inr (c\<lparr>motion := motion_tick dt (style_given c) (motion c)\<rparr>, [])"

text \<open>After a handler React re-renders the component when \<open>PureRenderMixin\<close>'s
  \<open>shouldComponentUpdate\<close> says so (line 58--60): when the props or the state do not
  compare shallowly equal. A property change from the host comes with children elements
  the host's render created afresh, so its props never compare equal; every other event
  leaves the props object as it is, and only a change of the state counts. The
  re-render computes the style \<open>render\<close> hands to \<open>Motion\<close> from the state and from
  the slide nodes registered at that moment.\<close>

definition shouldComponentUpdate :: "bool \<Rightarrow> component \<Rightarrow> sv_state \<Rightarrow> bool" where
  "shouldComponentUpdate fresh_props c nextState \<longleftrightarrow> fresh_props \<or> state c \<noteq> nextState"

definition react_update :: "bool \<Rightarrow> component \<Rightarrow> component \<Rightarrow> component" where
  "react_update fresh_props c c' =
     (if shouldComponentUpdate fresh_props c (state c') then c'\<lparr>style_given := render c'\<rparr> else c')"

fun props_event :: "event \<Rightarrow> bool" where
  "props_event (ReceiveProps p) = True"
| "props_event e = False"

definition step :: "component \<Rightarrow> event \<Rightarrow> error + component \<times> effect list" where
  "step c e =
     (case dispatch c e of
        Inl err \<Rightarrow> Inl err
      | Inr (c', out) \<Rightarrow> Inr (react_update (props_event e) c c', out))"

fun run :: "component \<Rightarrow> event list \<Rightarrow> error + component \<times> effect list" where
  "run c [] = Inr (c, [])"
| "run c (e # es) =
     (case step c e of
        Inl err \<Rightarrow> Inl err
      | Inr (c', out) \<Rightarrow>
          (case run c' es of
             Inl err \<Rightarrow> Inl err
           | Inr (c'', out') \<Rightarrow> Inr (c'', out @ out')))"

text \<open>The style slot before the first render; \<open>mount\<close> replaces it by the style the
  first render computes.\<close>

definition no_style :: motion_style where
  "no_style = \<lparr>translate_target = 0, translate_config = idle_config, height_target = 0,
               height_config = default_config\<rparr>"

definition mount :: "props \<Rightarrow> error + component" where
  "mount p =
     (case getInitialState p of
        Inl e \<Rightarrow> Inl e
      | Inr s \<Rightarrow>
          (let c0 = \<lparr>props = p, state = s, session = None, slides = [], rendered = [],
                     motion = \<lparr>translate = \<lparr>current = 0, velocity = 0\<rparr>,
                               height = \<lparr>current = 0, velocity = 0\<rparr>\<rparr>,
                     style_given = no_style\<rparr>
           in Inr (c0\<lparr>motion := motion_init (render c0), style_given := render c0\<rparr>)))"


subsection \<open>The invariant and the browser's event order\<close>

text \<open>
  \<open>wf\<close> is the state invariant: at least one child, the displayed index within the
  collection, the settled index a valid slide, the displayed index an integer whenever
  no drag is in progress, and a touch session that started from a valid slide with a
  positive width. \<open>ok_event\<close> is what the browser and a well-behaved host
  guarantee about the next event: a \<open>touchstart\<close> comes with a positive width and
  not in the middle of a drag (no second finger, no lost \<open>touchend\<close>), moves and
  ends follow a start, and new properties keep the number of children and give a
  valid index.
\<close>

definition session_ok :: "nat \<Rightarrow> session option \<Rightarrow> bool" where
  "session_ok n so =
     (case so of None \<Rightarrow> True
      | Some s \<Rightarrow> is_slot (index_max n) (startIndex s) \<and> 0 < startWidth s)"

definition wf :: "component \<Rightarrow> bool" where
  "wf c \<longleftrightarrow>
     (let n = children (props c); st = state c in
      0 < n \<and> in_range (index_max n) (index st) \<and> is_slot (index_max n) (targetIndex st) \<and>
      (\<not> isDragging st \<longrightarrow> is_int (index st)) \<and> session_ok n (session c))"

definition props_ok :: "props \<Rightarrow> bool" where
  "props_ok p \<longleftrightarrow>
     0 < children p \<and>
     (case prop_index p of None \<Rightarrow> True | Some i \<Rightarrow> is_slot (index_max (children p)) i)"

fun ok_event :: "component \<Rightarrow> event \<Rightarrow> bool" where
  "ok_event c (TouchStart w t) = (0 < w \<and> \<not> isDragging (state c))"
| "ok_event c (TouchMove t) = (session c \<noteq> None)"
| "ok_event c TouchEnd = (session c \<noteq> None)"
| "ok_event c (ReceiveProps p) = (props_ok p \<and> children p = children (props c))"
| "ok_event c (Commit doms) =
     (length doms = length (render_refs (isFirstRender (state c)) (children (props c))))"
| "ok_event c _ = True"

text \<open>A sequence of events in the browser's order: each event is in order in the state
  the events before it reached. After an error nothing more is required, so that
  \<open>ok_run\<close> says nothing about whether the handlers succeed.\<close>

fun ok_run :: "component \<Rightarrow> event list \<Rightarrow> bool" where
  "ok_run c [] = True"
| "ok_run c (e # es) =
     (ok_event c e \<and> (case step c e of Inl _ \<Rightarrow> True | Inr (c', _) \<Rightarrow> ok_run c' es))"

text \<open>The states a component mounted with properties \<open>p\<close> reaches through events in
  the browser's order, as an inductive relation: rule induction over it is the
  invariant argument.\<close>

inductive reachable :: "props \<Rightarrow> component \<Rightarrow> bool" where
  mounted: "mount p = Inr c \<Longrightarrow> reachable p c"
| stepped: "reachable p c \<Longrightarrow> ok_event c e \<Longrightarrow> step c e = Inr (c', out) \<Longrightarrow> reachable p c'"

text \<open>The effects of a run as the host sees them: the arguments of the
  \<open>onChangeIndex\<close> calls, in order.\<close>

fun notified :: "effect list \<Rightarrow> real list" where
  "notified [] = []"
| "notified (ChangeIndex n # es) = n # notified es"
| "notified (PreventDefault # es) = notified es"

text \<open>An example used by the witnesses: three slides whose first children are 120, 80
  and 200 pixels high, mounted and committed, with an \<open>onChangeIndex\<close> callback.\<close>

definition demo :: component where
  "demo =
     \<lparr>props = (getDefaultProps 3)\<lparr>onChangeIndex := True\<rparr>,
      state = \<lparr>index = 0, targetIndex = 0, isDragging = False, isFirstRender = False\<rparr>,
      session = None, slides = [Some [120], Some [80], Some [200]],
      rendered = replicate 3 MapRef,
      motion = \<lparr>translate = \<lparr>current = 0, velocity = 0\<rparr>,
                height = \<lparr>current = 120, velocity = 0\<rparr>\<rparr>,
      style_given = \<lparr>translate_target = 0, translate_config = idle_config, height_target = 120,
                     height_config = default_config\<rparr>\<rparr>"

lemmas handler_defs = handleTouchStart_def handleTouchMove_def handleTouchEnd_def
  componentWillReceiveProps_def componentDidMount_def

fun_cases dispatch_TouchMoveE: "dispatch c (TouchMove t) = Inr r"
fun_cases dispatch_TouchEndE: "dispatch c TouchEnd = Inr r"

subsection \<open>The re-render after an event\<close>

lemma react_update_fields [simp]:
  "props (react_update b c c') = props c'" "state (react_update b c c') = state c'"
  "session (react_update b c c') = session c'" "slides (react_update b c c') = slides c'"
  "rendered (react_update b c c') = rendered c'" "motion (react_update b c c') = motion c'"
  by (simp_all add: react_update_def)

lemma react_update_skip [simp]:
  "state c' = state c \<Longrightarrow> react_update False c c' = c'"
  by (simp add: react_update_def shouldComponentUpdate_def)

lemma react_update_render:
  "shouldComponentUpdate b c (state c') \<Longrightarrow> react_update b c c' = c'\<lparr>style_given := render c'\<rparr>"
  by (simp add: react_update_def)

lemma react_update_eq:
  "react_update b c c' = c'\<lparr>style_given := style_given (react_update b c c')\<rparr>"
  by (simp add: react_update_def)

lemma react_update_state_cong:
  "state c1 = state c \<Longrightarrow> react_update b c1 x = react_update b c x"
  by (simp add: react_update_def shouldComponentUpdate_def)

lemma style_given_react_update:
  "style_given (react_update b c c') =
     (if b \<or> state c \<noteq> state c' then render c' else style_given c')"
  by (simp add: react_update_def shouldComponentUpdate_def)

lemma wf_react_update [simp]: "wf (react_update b c c') = wf c'"
  and wf_style_given [simp]: "wf (c\<lparr>style_given := g\<rparr>) = wf c"
  by (simp_all add: wf_def)

lemma step_simps [simp]:
  "step c (TouchStart w t) =
     (if disabled (props c) then Inr (c, []) else Inr (handleTouchStart w t c, []))"
  "step c (TouchMove t) =
     (if disabled (props c) then Inr (c, [])
      else case handleTouchMove t c of Inl err \<Rightarrow> Inl err
           | Inr (c', out) \<Rightarrow> Inr (react_update False c c', out))"
  "step c TouchEnd =
     (if disabled (props c) then Inr (c, [])
      else case handleTouchEnd c of Inl err \<Rightarrow> Inl err
           | Inr (c', out) \<Rightarrow> Inr (react_update False c c', out))"
  "step c TouchCancel = Inr (c, [])"
  "step c (ReceiveProps p) =
     Inr ((componentWillReceiveProps p c)\<lparr>style_given := render (componentWillReceiveProps p c)\<rparr>, [])"
  "step c DidMount = Inr (react_update False c (componentDidMount c), [])"
  "step c (Commit doms) =
     Inr (c\<lparr>slides := commit_refs (rendered c) (render_refs (isFirstRender (state c)) (children (props c))) doms,
            rendered := render_refs (isFirstRender (state c)) (children (props c))\<rparr>, [])"
  "step c (Frame dt) = Inr (c\<lparr>motion := motion_tick dt (style_given c) (motion c)\<rparr>, [])"
  by (auto simp: step_def react_update_def shouldComponentUpdate_def handleTouchStart_def
           split: sum.splits)

subsection \<open>Basic facts\<close>

lemma wf_D:
  assumes "wf c"
  shows "0 < children (props c)" "in_range (index_max (children (props c))) (index (state c))"
    "is_slot (index_max (children (props c))) (targetIndex (state c))"
    "\<not> isDragging (state c) \<Longrightarrow> is_int (index (state c))"
    "session_ok (children (props c)) (session c)"
  using assms by (simp_all add: wf_def Let_def)

lemma wf_I:
  assumes "0 < children (props c)" "in_range (index_max (children (props c))) (index (state c))"
    "is_slot (index_max (children (props c))) (targetIndex (state c))"
    "\<not> isDragging (state c) \<Longrightarrow> is_int (index (state c))"
    "session_ok (children (props c)) (session c)"
  shows "wf c"
  using assms by (simp add: wf_def Let_def)

subsection \<open>One step keeps the invariant\<close>

lemma touch_move_startIndex:
  "touch_move n s t = Inr (s', r) \<Longrightarrow> startIndex s' = startIndex s \<and> startWidth s' = startWidth s"
  by (auto simp: touch_move_def Let_def gesture_defs split: if_splits option.splits js_num.splits)

lemma handleTouchMove_wf:
  assumes "wf c" and "handleTouchMove t c = Inr (c', out)"
  shows "wf c'"
proof -
  from assms(2) obtain s s' r where ss: "session c = Some s" and tm: "touch_move (children (props c)) s t = Inr (s', r)"
    by (auto simp: handleTouchMove_def split: option.splits sum.splits)
  have sok: "session_ok (children (props c)) (Some s')"
    using wf_D(5) [OF assms(1)] ss touch_move_startIndex [OF tm] by (simp add: session_ok_def)
  show ?thesis
  proof (cases r)
    case Scroll
    with assms(2) ss tm have "c' = c\<lparr>session := Some s'\<rparr>"
      by (simp add: handleTouchMove_def)
    with assms(1) sok show ?thesis by (auto simp: wf_def Let_def)
  next
    case (Drag i)
    with assms(2) ss tm have c': "c' = c\<lparr>session := Some s', state := (state c)\<lparr>isDragging := True, index := i\<rparr>\<rparr>"
      by (simp add: handleTouchMove_def)
    from touch_move_DragD [OF tm [unfolded Drag]] wf_D(1) [OF assms(1)]
    have "in_range (index_max (children (props c))) i"
      by (blast intro: clamp_index_range)
    with assms(1) sok c' show ?thesis by (auto simp: wf_def Let_def)
  qed
qed

lemma handleTouchEnd_new_slot:
  assumes "wf c" and "session c = Some s"
  shows "is_slot (index_max (children (props c)))
           (index_new (threshold (props c)) (deltaX s) (startIndex s) (index (state c)))"
proof -
  from assms have "is_slot (index_max (children (props c))) (startIndex s)"
    by (simp add: wf_def Let_def session_ok_def)
  with wf_D(2) [OF assms(1)] show ?thesis
    by (cases "threshold (props c)" "deltaX s" "startIndex s" "index (state c)"
        rule: index_new_cases) (auto intro: range_intros)
qed

lemma handleTouchEnd_wf:
  assumes "wf c" and "handleTouchEnd c = Inr (c', out)"
  shows "wf c'"
proof -
  from assms(2) obtain s where ss: "session c = Some s"
    by (auto simp: handleTouchEnd_def split: option.splits)
  show ?thesis
  proof (cases "isScroll s = Some True")
    case True
    with assms ss show ?thesis by (simp add: handleTouchEnd_def)
  next
    case False
    let ?n = "children (props c)"
    let ?new = "index_new (threshold (props c)) (deltaX s) (startIndex s) (index (state c))"
    have slot: "is_slot (index_max ?n) ?new" by (rule handleTouchEnd_new_slot [OF assms(1) ss])
    from assms(2) ss False have
      "c' = c\<lparr>state := (state c)\<lparr>index := ?new, targetIndex := ?new, isDragging := False\<rparr>\<rparr>"
      by (simp add: handleTouchEnd_def Let_def)
    with assms(1) slot show ?thesis by (auto simp: wf_def Let_def is_slot_def)
  qed
qed

lemma receive_props_wf:
  assumes "wf c" and "props_ok p" and "children p = children (props c)"
  shows "wf (componentWillReceiveProps p c)"
  using assms
  by (auto simp: wf_def Let_def componentWillReceiveProps_def props_ok_def is_slot_def
           split: option.splits)

lemma step_wf:
  assumes "wf c" and "ok_event c e" and "step c e = Inr (c', out)"
  shows "wf c'"
proof (cases e)
  case (TouchStart w t)
  with assms show ?thesis
    by (auto simp: wf_def Let_def handleTouchStart_def session_ok_def touch_start_def is_slot_def
             split: if_splits)
next
  case (TouchMove t)
  with assms show ?thesis by (auto split: if_splits sum.splits intro: handleTouchMove_wf)
next
  case TouchEnd
  with assms show ?thesis by (auto split: if_splits sum.splits intro: handleTouchEnd_wf)
next
  case (ReceiveProps p)
  with assms show ?thesis by (auto intro: receive_props_wf)
qed (use assms in \<open>auto simp: wf_def Let_def componentDidMount_def\<close>)

lemma step_progress:
  assumes "wf c" and "ok_event c e"
  shows "\<exists>r. step c e = Inr r"
proof (cases e)
  case (TouchMove t)
  with assms obtain s where ss: "session c = Some s" by auto
  with wf_D(5) [OF assms(1)] have "0 < startWidth s" by (simp add: session_ok_def)
  then have "\<forall>e. touch_move (children (props c)) s t \<noteq> Inl e"
    by (blast dest: touch_move_positive_width)
  with ss TouchMove show ?thesis
    by (auto simp: handleTouchMove_def split: sum.splits move_result.splits)
next
  case TouchEnd
  with assms show ?thesis by (auto simp: handleTouchEnd_def Let_def split: option.splits)
qed simp_all

subsection \<open>Runs\<close>

lemma notified_append [simp]: "notified (xs @ ys) = notified xs @ notified ys"
  by (induction xs rule: notified.induct) simp_all

lemma run_append:
  "run c (xs @ ys) =
     (case run c xs of
        Inl err \<Rightarrow> Inl err
      | Inr (c', out) \<Rightarrow>
          (case run c' ys of Inl err \<Rightarrow> Inl err | Inr (c'', out') \<Rightarrow> Inr (c'', out @ out')))"
  by (induction xs arbitrary: c)
     (auto split: sum.splits prod.splits)

lemma run_single [simp]: "run c [e] = step c e"
  by (auto split: sum.splits prod.splits)

lemma run_wf:
  assumes "wf c" and "ok_run c es"
  shows "\<exists>c' out. run c es = Inr (c', out) \<and> wf c'"
  using assms
proof (induction es arbitrary: c)
  case Nil
  then show ?case by simp
next
  case (Cons e es)
  from Cons.prems(2) have ok: "ok_event c e" by simp
  from step_progress [OF Cons.prems(1) ok] obtain c1 out1 where st: "step c e = Inr (c1, out1)"
    by auto
  with Cons.prems(2) have rest: "ok_run c1 es" by simp
  from step_wf [OF Cons.prems(1) ok st] have "wf c1" .
  with rest Cons.IH obtain c' out where "run c1 es = Inr (c', out)" and "wf c'" by blast
  with st show ?case by simp
qed

lemma handleTouchMove_notified:
  "handleTouchMove t c = Inr (c', out) \<Longrightarrow> notified out = [] \<and> props c' = props c \<and>
    (\<exists>s s'. session c = Some s \<and> session c' = Some s' \<and> startIndex s' = startIndex s)"
  by (auto simp: handleTouchMove_def dest!: touch_move_startIndex
           split: option.splits sum.splits move_result.splits)

lemma run_moves:
  assumes "run c (map TouchMove ts) = Inr (c', out)" and "\<not> disabled (props c)"
    and "session c = Some s"
  shows "notified out = [] \<and> props c' = props c \<and>
    (\<exists>s'. session c' = Some s' \<and> startIndex s' = startIndex s)"
  using assms
proof (induction ts arbitrary: c out s)
  case Nil
  then show ?case by simp
next
  case (Cons t ts)
  from Cons.prems(1,2) obtain c1 out1 out2 where h: "handleTouchMove t c = Inr (c1, out1)"
    and r: "run (react_update False c c1) (map TouchMove ts) = Inr (c', out2)" and o: "out = out1 @ out2"
    by (auto split: sum.splits)
  from handleTouchMove_notified [OF h] Cons.prems(3) obtain s1 where
    n1: "notified out1 = []" and p1: "props c1 = props c" and s1: "session c1 = Some s1"
    and i1: "startIndex s1 = startIndex s"
    by auto
  from Cons.IH [OF r] p1 Cons.prems(2) s1 i1 n1 o show ?case by auto
qed

lemma run_moves_scroll:
  assumes "session c = Some s" and "isScroll s = Some True" and "\<not> disabled (props c)"
  shows "run c (map TouchMove ts) = Inr (c, [])"
proof (induction ts)
  case Nil
  then show ?case by simp
next
  case (Cons t ts)
  have "classify s t = s" using assms(2) by (simp add: classify_def)
  then have "handleTouchMove t c = Inr (c, [])"
    using assms by (simp add: handleTouchMove_def touch_move_scroll)
  with Cons assms(3) show ?case by simp
qed

lemma run_session_split:
  assumes "\<not> disabled (props c)"
    and "run c (TouchStart w t # map TouchMove ts @ [TouchEnd]) = Inr (c', out)"
  obtains c2 c3 out2 out3 s2 where "run (handleTouchStart w t c) (map TouchMove ts) = Inr (c2, out2)"
    and "handleTouchEnd c2 = Inr (c3, out3)" and "c' = react_update False c2 c3" and "out = out2 @ out3"
    and "notified out2 = []" and "props c2 = props c" and "session c2 = Some s2"
    and "startIndex s2 = index (state c)"
proof -
  let ?c1 = "handleTouchStart w t c"
  from assms have r: "run ?c1 (map TouchMove ts @ [TouchEnd]) = Inr (c', out)"
    by (auto split: sum.splits)
  then obtain c2 out2 out3 where r2: "run ?c1 (map TouchMove ts) = Inr (c2, out2)"
    and e: "step c2 TouchEnd = Inr (c', out3)" and o: "out = out2 @ out3"
    by (auto simp: run_append simp del: step_simps split: sum.splits)
  have s1: "session ?c1 = Some (touch_start w (index (state c)) t)" and p1: "props ?c1 = props c"
    by (simp_all add: handleTouchStart_def)
  from run_moves [OF r2 _ s1] assms(1) p1 obtain s2 where
    "notified out2 = []" "props c2 = props c" "session c2 = Some s2"
    "startIndex s2 = index (state c)"
    by (auto simp: touch_start_def)
  moreover from e assms(1) \<open>props c2 = props c\<close> obtain c3 where
    "handleTouchEnd c2 = Inr (c3, out3)" and "c' = react_update False c2 c3"
    by (auto split: sum.splits)
  ultimately show ?thesis using that r2 o by blast
qed

text \<open>C2: over one touch session (a \<open>touchstart\<close>, any moves, a \<open>touchend\<close>)
  \<open>onChangeIndex\<close> is called at most once: exactly once, with the settled index,
  when the session was a swipe, a callback is given and the settled index differs from
  the index the session started from; never for a session classified as a scroll.\<close>

theorem swipe_session_notifies:
  assumes "\<not> disabled (props c)"
    and "run c (TouchStart w t # map TouchMove ts @ [TouchEnd]) = Inr (c', out)"
  shows "notified out =
    (if (\<exists>s. session c' = Some s \<and> isScroll s = Some True) then []
     else if onChangeIndex (props c) \<and> targetIndex (state c') \<noteq> index (state c)
     then [targetIndex (state c')] else [])"
proof -
  from assms obtain c2 c3 out2 out3 s2 where e: "handleTouchEnd c2 = Inr (c3, out3)"
    and c3: "c' = react_update False c2 c3" and o: "out = out2 @ out3" and n2: "notified out2 = []" and p2: "props c2 = props c"
    and s2: "session c2 = Some s2" and i2: "startIndex s2 = index (state c)"
    by (rule run_session_split)
  show ?thesis
  proof (cases "isScroll s2 = Some True")
    case True
    with e s2 have "c3 = c2" "out3 = []" by (simp_all add: handleTouchEnd_def)
    with True s2 o n2 c3 show ?thesis by simp
  next
    case False
    with e s2 c3 have c': "session c' = Some s2"
      and t': "targetIndex (state c') =
                 index_new (threshold (props c2)) (deltaX s2) (startIndex s2) (index (state c2))"
      and o3: "out3 = (if onChangeIndex (props c2) \<and> targetIndex (state c') \<noteq> startIndex s2
                       then [ChangeIndex (targetIndex (state c'))] else [])"
      by (auto simp: handleTouchEnd_def Let_def)
    from False c' o o3 n2 p2 i2 show ?thesis by simp
  qed
qed

theorem swipe_session_notifies_witness:
  "run demo [TouchStart 100 \<lparr>pageX = 0, pageY = 0\<rparr>, TouchMove \<lparr>pageX = -30, pageY = 0\<rparr>,
             TouchMove \<lparr>pageX = -80, pageY = 0\<rparr>, TouchEnd]
     = Inr (demo\<lparr>session := Some \<lparr>startWidth = 100, startIndex = 0, startX = 0, lastX = -80,
                                    deltaX = -32.5, startY = 0, isScroll = Some False\<rparr>,
                 state := \<lparr>index = 1, targetIndex = 1, isDragging = False, isFirstRender = False\<rparr>,
                 style_given := \<lparr>translate_target = 100, translate_config = idle_config,
                                  height_target = 80, height_config = default_config\<rparr>\<rparr>,
            [PreventDefault, PreventDefault, ChangeIndex 1])
   \<and> notified [PreventDefault, PreventDefault, ChangeIndex 1] = [1]"
proof -
  have r: "run demo (TouchStart 100 \<lparr>pageX = 0, pageY = 0\<rparr> #
             map TouchMove [\<lparr>pageX = -30, pageY = 0\<rparr>, \<lparr>pageX = -80, pageY = 0\<rparr>] @ [TouchEnd])
     = Inr (demo\<lparr>session := Some \<lparr>startWidth = 100, startIndex = 0, startX = 0, lastX = -80,
                                    deltaX = -32.5, startY = 0, isScroll = Some False\<rparr>,
                 state := \<lparr>index = 1, targetIndex = 1, isDragging = False, isFirstRender = False\<rparr>,
                 style_given := \<lparr>translate_target = 100, translate_config = idle_config,
                                  height_target = 80, height_config = default_config\<rparr>\<rparr>,
            [PreventDefault, PreventDefault, ChangeIndex 1])"
    by (simp add: demo_def getDefaultProps_def handler_defs touch_move_def gesture_defs
                  js_simps index_new_def react_update_def shouldComponentUpdate_def render_def
                  getTargetHeight_def)
  have "\<not> disabled (props demo)" by (simp add: demo_def getDefaultProps_def)
  from swipe_session_notifies [OF this r] r show ?thesis by (simp add: demo_def getDefaultProps_def)
qed

text \<open>C7: a session whose first move is more vertical than horizontal is a scroll:
  whatever moves follow, the session changes neither the component's state nor its
  properties, prevents no default and calls no callback.\<close>

theorem scroll_session_silent:
  assumes "\<not> disabled (props c)" and "\<bar>pageX t - pageX t1\<bar> < \<bar>pageY t - pageY t1\<bar>"
  shows "\<exists>s. run c (TouchStart w t # TouchMove t1 # map TouchMove ts @ [TouchEnd]) =
               Inr (c\<lparr>session := Some s\<rparr>, [])"
proof -
  let ?s = "(touch_start w (index (state c)) t)\<lparr>isScroll := Some True\<rparr>"
  let ?c = "c\<lparr>session := Some ?s\<rparr>"
  have m1: "handleTouchMove t1 (handleTouchStart w t c) = Inr (?c, [])"
    using assms(2)
    by (simp add: handleTouchMove_def handleTouchStart_def touch_move_def classify_def
                  touch_start_def)
  have ms: "run ?c (map TouchMove ts) = Inr (?c, [])"
    using assms(1) by (intro run_moves_scroll [of _ ?s]) simp_all
  have e: "handleTouchEnd ?c = Inr (?c, [])" by (simp add: handleTouchEnd_def)
  from assms(1) m1 ms e show ?thesis
    by (auto simp: run_append handleTouchStart_def)
qed

theorem scroll_session_silent_witness:
  "\<exists>s. run demo [TouchStart 100 \<lparr>pageX = 0, pageY = 0\<rparr>, TouchMove \<lparr>pageX = 3, pageY = 20\<rparr>,
                 TouchMove \<lparr>pageX = 90, pageY = 25\<rparr>, TouchEnd] = Inr (demo\<lparr>session := Some s\<rparr>, [])"
proof -
  have "\<not> disabled (props demo)" by (simp add: demo_def getDefaultProps_def)
  from scroll_session_silent [OF this, of "\<lparr>pageX = 0, pageY = 0\<rparr>" "\<lparr>pageX = 3, pageY = 20\<rparr>"
      100 "[\<lparr>pageX = 90, pageY = 25\<rparr>]"]
  show ?thesis by simp
qed

lemma mount_wf: "props_ok p \<Longrightarrow> mount p = Inr c \<Longrightarrow> wf c"
  by (auto simp: mount_def getInitialState_def props_ok_def wf_def Let_def session_ok_def
                 is_slot_def motion_init_def render_def split: option.splits)

lemma mount_props: "mount p = Inr c \<Longrightarrow> props c = p"
  by (auto simp: mount_def Let_def split: sum.splits)

lemma step_children: "ok_event c e \<Longrightarrow> step c e = Inr (c', out) \<Longrightarrow> children (props c') = children (props c)"
  by (cases e) (auto simp: handler_defs Let_def split: if_splits option.splits sum.splits
                           move_result.splits)

lemma run_children:
  "ok_run c es \<Longrightarrow> run c es = Inr (c', out) \<Longrightarrow> children (props c') = children (props c)"
proof (induction es arbitrary: c out)
  case Nil
  then show ?case by simp
next
  case (Cons e es)
  from Cons.prems obtain c1 out1 out2 where st: "step c e = Inr (c1, out1)" and ok: "ok_event c e"
    and rest: "ok_run c1 es" and r: "run c1 es = Inr (c', out2)"
    by (auto split: sum.splits)
  from Cons.IH [OF rest r] step_children [OF ok st] show ?case by simp
qed

lemma handleTouchMove_inside:
  assumes "session c = Some s" and "isScroll (classify s t) \<noteq> Some True" and "0 < startWidth s"
    and "in_range (index_max (children (props c))) (startIndex s + (startX s - pageX t) / startWidth s)"
  shows "handleTouchMove t c =
    Inr (c\<lparr>session := Some (smooth (classify s t) t),
           state := (state c)\<lparr>isDragging := True,
                      index := startIndex s + (startX s - pageX t) / startWidth s\<rparr>\<rparr>,
         [PreventDefault])"
  using touch_move_inside [OF assms(2,3,4)] assms(1) by (simp add: handleTouchMove_def)

lemma run_moves_inside:
  assumes "session c = Some s" and "isScroll s = Some False" and "0 < startWidth s"
    and "\<not> disabled (props c)" and "ts \<noteq> []"
    and "\<forall>t \<in> set ts. in_range (index_max (children (props c)))
                        (startIndex s + (startX s - pageX t) / startWidth s)"
  shows "\<exists>g. run c (map TouchMove ts) =
    Inr (c\<lparr>session := Some (s\<lparr>deltaX := smoothed (deltaX s) (lastX s) (map pageX ts),
                                 lastX := last (map pageX ts)\<rparr>),
           state := (state c)\<lparr>isDragging := True,
                      index := startIndex s + (startX s - last (map pageX ts)) / startWidth s\<rparr>,
           style_given := g\<rparr>,
         replicate (length ts) PreventDefault)"
  using assms
proof (induction ts arbitrary: c s)
  case Nil
  then show ?case by simp
next
  case (Cons t ts)
  have cl: "classify s t = s" using Cons.prems(2) by (simp add: classify_def)
  let ?s1 = "smooth s t"
  let ?c1 = "c\<lparr>session := Some ?s1,
               state := (state c)\<lparr>isDragging := True,
                          index := startIndex s + (startX s - pageX t) / startWidth s\<rparr>\<rparr>"
  have m: "handleTouchMove t c = Inr (?c1, [PreventDefault])"
    using handleTouchMove_inside [of c s t] Cons.prems cl by simp
  let ?c1' = "react_update False c ?c1"
  have st: "run c (map TouchMove (t # ts)) =
    (case run ?c1' (map TouchMove ts) of Inl err \<Rightarrow> Inl err
     | Inr (c'', out') \<Rightarrow> Inr (c'', [PreventDefault] @ out'))"
    using m Cons.prems(4) by simp
  show ?case
  proof (cases "ts = []")
    case True
    with st show ?thesis
      by (subst (asm) react_update_eq) (auto simp: smooth_def)
  next
    case False
    have f: "session ?c1' = Some ?s1" "isScroll ?s1 = Some False" "0 < startWidth ?s1"
      "\<not> disabled (props ?c1')" "startIndex ?s1 = startIndex s" "startX ?s1 = startX s"
      "startWidth ?s1 = startWidth s" "props ?c1' = props c" "state ?c1' = state ?c1"
      using Cons.prems by (simp_all add: smooth_def)
    from Cons.IH [OF f(1-4) False] Cons.prems(6) f(5-8) obtain g where
      "run ?c1' (map TouchMove ts) =
      Inr (?c1'\<lparr>session := Some (?s1\<lparr>deltaX := smoothed (deltaX ?s1) (lastX ?s1) (map pageX ts),
                                  lastX := last (map pageX ts)\<rparr>),
             state := (state ?c1')\<lparr>isDragging := True,
                        index := startIndex s + (startX s - last (map pageX ts)) / startWidth s\<rparr>,
             style_given := g\<rparr>,
           replicate (length ts) PreventDefault)"
      by auto
    with st False show ?thesis
      by (subst (asm) (2) react_update_eq) (auto simp: smooth_def)
  qed
qed

end
