(* ===== verification/Render.thy ===== *)
theory Render
  imports Controller
begin

text \<open>
  The element tree the component renders (src/src/index.js, lines 181--255): the root
  \<open>div\<close> with \<open>styles.root\<close> and the touch handlers (none when \<open>disabled\<close>), the
  \<open>Motion\<close> element with the spring targets of \<open>render\<close>, and, as \<open>Motion\<close>'s child,
  the container \<open>renderContainer\<close> builds from the interpolated values: one \<open>div\<close>
  whose style merges the transform and height with \<open>styles.container\<close> and the
  user's \<open>style\<close> property, holding one slide \<open>div\<close> on the first render and one per
  child afterwards. A child of \<open>props.children\<close> is named by its position.
\<close>

datatype handler = OnTouchStart | OnTouchMove | OnTouchEnd

datatype vnode =
    Div css_object "handler list" "vnode list"
  | Motion motion_style vnode
  | ChildNode nat

fun node_style :: "vnode \<Rightarrow> css_object" where
  "node_style (Div st hs ks) = st"
| "node_style _ = []"

fun node_handlers :: "vnode \<Rightarrow> handler list" where
  "node_handlers (Div st hs ks) = hs"
| "node_handlers _ = []"

fun node_children :: "vnode \<Rightarrow> vnode list" where
  "node_children (Div st hs ks) = ks"
| "node_children (Motion ms k) = [k]"
| "node_children (ChildNode i) = []"

definition slide_div :: "nat \<Rightarrow> vnode" where
  "slide_div i = Div styles_slide [] [ChildNode i]"

definition container_base :: "motion_state \<Rightarrow> css_object" where
  "container_base m =
     [(''WebkitTransform'', Translate3d (current (translate m))),
      (''transform'', Translate3d (current (translate m))),
      (''height'', CssNum (current (height m)))]"

definition renderContainer :: "motion_state \<Rightarrow> component \<Rightarrow> vnode" where
  "renderContainer m c =
     Div (objectAssign (container_base m) [Some styles_container, style (props c)])
         []
         (if isFirstRender (state c)
          then [Div styles_slide [] (if 0 < children (props c) then [ChildNode 0] else [])]
          else map slide_div [0..<children (props c)])"

definition touch_events :: "props \<Rightarrow> handler list" where
  "touch_events p = (if disabled p then [] else [OnTouchStart, OnTouchMove, OnTouchEnd])"

definition render_tree :: "component \<Rightarrow> vnode" where
  "render_tree c =
     Div styles_root (touch_events (props c)) [Motion (render c) (renderContainer (motion c) c)]"

subsection \<open>Basic facts\<close>

lemma renderContainer_style:
  "map_of (node_style (renderContainer m c)) =
     map_of (container_base m) ++ map_of (rev styles_container) ++
     (case style (props c) of None \<Rightarrow> Map.empty | Some obj \<Rightarrow> map_of (rev obj))"
  by (cases "style (props c)") (simp_all add: renderContainer_def map_of_objectAssign)

lemma renderContainer_slides:
  "node_children (renderContainer m c) =
     (if isFirstRender (state c)
      then [Div styles_slide [] (if 0 < children (props c) then [ChildNode 0] else [])]
      else map slide_div [0..<children (props c)])"
  by (simp add: renderContainer_def)

text \<open>The slide \<open>div\<close>s are the nodes whose refs \<open>Slides\<close> models: there is one ref
  closure per slide \<open>div\<close>, so a \<open>Commit\<close> in the browser's order (\<open>ok_event\<close>)
  delivers one node per rendered slide.\<close>

lemma renderContainer_refs:
  "length (node_children (renderContainer m c)) =
     length (render_refs (isFirstRender (state c)) (children (props c)))"
  by (simp add: renderContainer_slides render_refs_def)

subsection \<open>Properties of the rendered output\<close>

text \<open>Without a \<open>style\<close> property the container follows the springs: both
  transform properties carry the translate spring's current value in the template of
  line 216, the height is the height spring's current value, and the layout is the flex
  row of \<open>styles.container\<close>.\<close>

lemma container_follows_motion:
  assumes "style (props c) = None"
  shows "map_of (node_style (renderContainer m c)) ''transform'' = Some (Translate3d (current (translate m))) \<and>
         map_of (node_style (renderContainer m c)) ''WebkitTransform'' = Some (Translate3d (current (translate m))) \<and>
         map_of (node_style (renderContainer m c)) ''height'' = Some (CssNum (current (height m))) \<and>
         map_of (node_style (renderContainer m c)) ''display'' = Some (CssStr ''flex'')"
  using assms by (simp add: renderContainer_style container_base_def styles_container_def map_add_def)

lemma container_follows_motion_example:
  "map_of (node_style (renderContainer (motion demo) demo)) ''height'' = Some (CssNum 120)"
proof -
  have "style (props demo) = None" by (simp add: demo_def getDefaultProps_def)
  from container_follows_motion [OF this, of "motion demo"] show ?thesis
    by (simp add: demo_def)
qed

text \<open>C20: the \<open>style\<close> property does not reach the slides: \<open>renderContainer\<close> merges
  it into the strip container after the animated values (lines 215--219), so a property
  it sets, such as \<open>height\<close> or \<open>transform\<close>, replaces the spring's value in every
  motion state, while every slide \<open>div\<close> keeps \<open>styles.slide\<close>. The comment of the
  \<open>style\<close> property (lines 46--50) says it is applied to each slide container.\<close>

theorem style_prop_overrides_motion:
  assumes "style (props c) = Some obj" and "map_of (rev obj) k = Some v"
  shows "map_of (node_style (renderContainer m c)) k = Some v \<and>
         (\<forall>d \<in> set (node_children (renderContainer m c)). node_style d = styles_slide)"
  using assms by (auto simp: renderContainer_style renderContainer_slides slide_div_def)

theorem style_prop_overrides_motion_witness:
  "map_of (node_style (renderContainer (motion demo)
     (demo\<lparr>props := (props demo)\<lparr>style := Some [(''height'', CssStr ''auto'')]\<rparr>\<rparr>))) ''height''
     = Some (CssStr ''auto'')"
  using style_prop_overrides_motion
          [of "demo\<lparr>props := (props demo)\<lparr>style := Some [(''height'', CssStr ''auto'')]\<rparr>\<rparr>"
              "[(''height'', CssStr ''auto'')]" "''height''" "CssStr ''auto''" "motion demo"]
  by simp

subsection \<open>Slide registration and the height target\<close>

lemma step_Commit:
  "step c (Commit doms) = Inr (c', out) \<Longrightarrow>
   c' = c\<lparr>slides := commit_refs (rendered c) (render_refs (isFirstRender (state c)) (children (props c))) doms,
          rendered := render_refs (isFirstRender (state c)) (children (props c))\<rparr> \<and> out = []"
  by auto

lemma commit_slides:
  assumes "wf c" and "ok_event c (Commit doms)" and "step c (Commit doms) = Inr (c', out)"
  shows "slides c' = map Some doms"
proof -
  from assms(2) wf_D(1) [OF assms(1)] have "doms \<noteq> []"
    by (auto simp: render_refs_def split: if_splits)
  with assms(2) step_Commit [OF assms(3)] show ?thesis
    by (simp add: commit_refs_rendered)
qed

text \<open>C17: a commit in the browser's order registers, through the ref callbacks of
  lines 191--212, exactly the slide nodes React rendered and nothing else: one node on
  the first render, one per child afterwards. The callback protocol (reset, detach with
  \<open>null\<close>, attach with \<open>i++\<close>) is equivalent to storing the list of rendered nodes.\<close>

theorem commit_registers_rendered:
  assumes "wf c" and "ok_event c (Commit doms)" and "step c (Commit doms) = Inr (c', out)"
  shows "slides c' = map Some doms \<and>
         length doms = (if isFirstRender (state c) then 1 else children (props c))"
  using commit_slides [OF assms] assms(2) by (simp add: render_refs_def)

theorem commit_registers_rendered_witness:
  "slides (demo\<lparr>slides := commit_refs (replicate 3 MapRef) (replicate 3 MapRef) [[120], [80], [200]]\<rparr>)
     = map Some [[120], [80], [200]] \<and> length [[120], [80], [200] :: real list] = 3"
proof -
  have w: "wf demo" by (simp add: wf_def demo_def getDefaultProps_def session_ok_def js_simps)
  have o: "ok_event demo (Commit [[120], [80], [200]])"
    by (simp add: demo_def getDefaultProps_def render_refs_def)
  have s: "step demo (Commit [[120], [80], [200]]) =
           Inr (demo\<lparr>slides := commit_refs (replicate 3 MapRef) (replicate 3 MapRef) [[120], [80], [200]]\<rparr>, [])"
    by (simp add: demo_def getDefaultProps_def render_refs_def)
  from commit_registers_rendered [OF w o s] show ?thesis
    by (simp add: demo_def getDefaultProps_def)
qed

text \<open>C18: after a commit, the height target \<open>getTargetHeight\<close> reads the first child of
  the slide at \<open>targetIndex\<close> among the rendered nodes; on the first render only slide 0
  is rendered and registered, so a component mounted on another slide targets the height
  0 (and, as \<open>Mounting\<close> shows, keeps that target after the mount).\<close>

theorem commit_height_target:
  assumes "wf c" and "ok_event c (Commit doms)" and "step c (Commit doms) = Inr (c', out)"
  shows "getTargetHeight c' =
           (if isFirstRender (state c) \<and> targetIndex (state c) \<noteq> 0 then 0
            else (case doms ! nat \<lfloor>targetIndex (state c)\<rfloor> of [] \<Rightarrow> 0 | h # _ \<Rightarrow> h))"
proof -
  let ?t = "targetIndex (state c)"
  define k where "k = nat \<lfloor>?t\<rfloor>"
  from wf_D(3) [OF assms(1)] have t: "?t = real k" and k: "k < children (props c)"
    unfolding k_def by (rule slot_nat)+
  have "getTargetHeight c' =
          (case js_index (map Some doms) (real k) of None \<Rightarrow> 0 | Some None \<Rightarrow> 0
           | Some (Some slide) \<Rightarrow> (case slide of [] \<Rightarrow> 0 | child # _ \<Rightarrow> child))"
    using commit_slides [OF assms] step_Commit [OF assms(3)] t by (simp add: getTargetHeight_def)
  also have "\<dots> = (if isFirstRender (state c) \<and> k \<noteq> 0 then 0
                    else (case doms ! k of [] \<Rightarrow> 0 | h # _ \<Rightarrow> h))"
  proof (cases "isFirstRender (state c)")
    case True
    with assms(2) obtain d0 where "doms = [d0]" by (cases doms) (auto simp: render_refs_def)
    with True show ?thesis by simp
  next
    case False
    with assms(2) k have "k < length doms" by (simp add: render_refs_def)
    with False show ?thesis by simp
  qed
  finally show ?thesis using t by (simp add: k_def [symmetric])
qed


theorem commit_height_target_witness:
  "getTargetHeight (demo\<lparr>state := \<lparr>index = 1, targetIndex = 1, isDragging = False, isFirstRender = True\<rparr>,
                         slides := [Some [120]], rendered := [FirstRef]\<rparr>) = 0"
proof -
  let ?c = "demo\<lparr>state := \<lparr>index = 1, targetIndex = 1, isDragging = False, isFirstRender = True\<rparr>,
                 rendered := []\<rparr>"
  have w: "wf ?c" by (simp add: wf_def demo_def getDefaultProps_def session_ok_def js_simps)
  have o: "ok_event ?c (Commit [[120]])" by (simp add: render_refs_def)
  have s: "step ?c (Commit [[120]]) =
           Inr (demo\<lparr>state := \<lparr>index = 1, targetIndex = 1, isDragging = False, isFirstRender = True\<rparr>,
                     slides := [Some [120]], rendered := [FirstRef]\<rparr>, [])"
    by (simp add: render_refs_def commit_refs_def attach_refs_def detach_refs_def js_store_def)
  from commit_height_target [OF w o s] show ?thesis by simp
qed

end
