(* ===== verification/Behaviour.thy ===== *)
theory Behaviour
  imports Controller
begin

text \<open>
  The behaviour of the controller's handlers one event at a time, with the
  divergences from the specification they show: the idle state after a
  \<open>touchend\<close>, the ignored \<open>touchcancel\<close>, property changes during a drag,
  \<open>disabled\<close>, and the animation frames that follow a release (the height channel
  and the strip).
\<close>

subsection \<open>Properties of the controller\<close>

text \<open>C21: the \<open>touchend\<close> of a swipe leaves the component idle on a valid slide:
  no drag in progress, the displayed and the settled index equal, and the springs
  re-targeted to that slide with the idle configuration (\<open>[300, 30]\<close>), the height
  spring to the height of that slide.\<close>

theorem touch_end_idle:
  assumes "wf c" and "session c = Some s" and "isScroll s \<noteq> Some True"
    and "handleTouchEnd c = Inr (c', out)"
  shows "\<not> isDragging (state c') \<and> index (state c') = targetIndex (state c') \<and>
    is_slot (index_max (children (props c'))) (targetIndex (state c')) \<and>
    translate_target (render c') = targetIndex (state c') * 100 \<and>
    translate_config (render c') = idle_config \<and> height_target (render c') = getTargetHeight c'"
proof -
  from assms(2-4) have st: "\<not> isDragging (state c')" "index (state c') = targetIndex (state c')"
    by (auto simp: handleTouchEnd_def Let_def)
  from handleTouchEnd_wf [OF assms(1,4)] have "wf c'" .
  with st show ?thesis by (simp add: render_def wf_def Let_def)
qed

theorem touch_end_idle_witness:
  "let c = demo\<lparr>state := \<lparr>index = 0.8, targetIndex = 0, isDragging = True, isFirstRender = False\<rparr>,
                session := Some \<lparr>startWidth = 100, startIndex = 0, startX = 0, lastX = -80,
                                 deltaX = -1, startY = 0, isScroll = Some False\<rparr>\<rparr>;
       c' = demo\<lparr>state := \<lparr>index = 1, targetIndex = 1, isDragging = False, isFirstRender = False\<rparr>,
                 session := Some \<lparr>startWidth = 100, startIndex = 0, startX = 0, lastX = -80,
                                  deltaX = -1, startY = 0, isScroll = Some False\<rparr>\<rparr>
   in handleTouchEnd c = Inr (c', [ChangeIndex 1]) \<and> translate_target (render c') = 100 \<and>
      translate_config (render c') = idle_config \<and> height_target (render c') = 80"
proof -
  let ?s = "\<lparr>startWidth = 100, startIndex = 0, startX = 0, lastX = -80,
              deltaX = -1, startY = 0, isScroll = Some False\<rparr> :: session"
  let ?c = "demo\<lparr>state := \<lparr>index = 0.8, targetIndex = 0, isDragging = True, isFirstRender = False\<rparr>,
                session := Some ?s\<rparr>"
  let ?c' = "demo\<lparr>state := \<lparr>index = 1, targetIndex = 1, isDragging = False, isFirstRender = False\<rparr>,
                 session := Some ?s\<rparr>"
  have w: "wf ?c"
    by (simp add: wf_def demo_def getDefaultProps_def session_ok_def js_simps)
  have e: "handleTouchEnd ?c = Inr (?c', [ChangeIndex 1])"
    by (simp add: handleTouchEnd_def demo_def getDefaultProps_def index_new_def round_def)
  have h: "getTargetHeight ?c' = 80"
    by (simp add: getTargetHeight_def demo_def)
  from touch_end_idle [OF w _ _ e] e h show ?thesis by (simp add: Let_def)
qed

text \<open>C23: the component has no \<open>touchcancel\<close> handler. A drag that the browser
  cancels at a fractional index leaves \<open>isDragging\<close> set and the index where it was; the
  next touch then starts from that index, and a tap (no move) settles on it: the view
  rests between two slides, with no \<open>onChangeIndex\<close> call, and since no slide has a
  fractional index the container's height target is 0. The event sequence is one the
  invariant's event order excludes (a touch start during a drag).\<close>

theorem cancel_then_tap_rests_between_slides:
  assumes "\<not> disabled (props c)" and "isDragging (state c)" and "\<not> is_int (index (state c))"
    and "0 \<le> threshold (props c)"
  shows "\<exists>c' out. run c [TouchCancel, TouchStart w t, TouchEnd] = Inr (c', out) \<and>
     index (state c') = index (state c) \<and> targetIndex (state c') = index (state c) \<and>
     \<not> isDragging (state c') \<and> translate_target (style_given c') = index (state c) * 100 \<and>
     height_target (style_given c') = 0 \<and> notified out = [] \<and>
     \<not> ok_run c [TouchCancel, TouchStart w t, TouchEnd]"
proof -
  have ne: "\<And>x. state c \<noteq> (state c)\<lparr>targetIndex := x, isDragging := False\<rparr>"
    using assms(2) by (auto dest: arg_cong [where f = isDragging])
  show ?thesis using assms ne
  by (simp add: handler_defs touch_start_def index_new_def render_def getTargetHeight_def
                js_index_not_int Let_def react_update_def shouldComponentUpdate_def)
qed

theorem cancel_then_tap_rests_between_slides_witness:
  "\<exists>c' out.
     run (demo\<lparr>session := Some \<lparr>startWidth = 100, startIndex = 0, startX = 0, lastX = -50,
                                deltaX = -25, startY = 0, isScroll = Some False\<rparr>,
               state := \<lparr>index = 0.5, targetIndex = 0, isDragging = True, isFirstRender = False\<rparr>\<rparr>)
         [TouchCancel, TouchStart 100 \<lparr>pageX = 0, pageY = 0\<rparr>, TouchEnd] = Inr (c', out) \<and>
     targetIndex (state c') = 0.5 \<and> \<not> isDragging (state c') \<and>
     height_target (style_given c') = 0 \<and> notified out = []"
proof -
  let ?c = "demo\<lparr>session := Some \<lparr>startWidth = 100, startIndex = 0, startX = 0, lastX = -50,
                                deltaX = -25, startY = 0, isScroll = Some False\<rparr>,
               state := \<lparr>index = 0.5, targetIndex = 0, isDragging = True, isFirstRender = False\<rparr>\<rparr>"
  have "\<not> disabled (props ?c)" and "isDragging (state ?c)" and "\<not> is_int (index (state ?c))"
    and "0 \<le> threshold (props ?c)"
    by (simp_all add: demo_def getDefaultProps_def)
  from cancel_then_tap_rests_between_slides [OF this, of 100 "\<lparr>pageX = 0, pageY = 0\<rparr>"]
  show ?thesis by auto
qed

text \<open>A new \<open>index\<close> property is applied at once, even in the middle of a drag:
  the displayed index jumps to it while the drag goes on, instead of waiting for the
  drag to end.\<close>

lemma receive_props_while_dragging:
  assumes "isDragging (state c)" and "prop_index p = Some i" and "Some i \<noteq> prop_index (props c)"
  shows "state (componentWillReceiveProps p c) = (state c)\<lparr>index := i\<rparr> \<and>
    isDragging (state (componentWillReceiveProps p c))"
  using assms by (simp add: componentWillReceiveProps_def)

lemma receive_props_while_dragging_example:
  "state (componentWillReceiveProps ((getDefaultProps 3)\<lparr>prop_index := Some 2\<rparr>)
            (demo\<lparr>state := \<lparr>index = 0.4, targetIndex = 0, isDragging = True, isFirstRender = False\<rparr>\<rparr>))
   = \<lparr>index = 2, targetIndex = 0, isDragging = True, isFirstRender = False\<rparr>"
  using receive_props_while_dragging
      [of "demo\<lparr>state := \<lparr>index = 0.4, targetIndex = 0, isDragging = True, isFirstRender = False\<rparr>\<rparr>"
          "(getDefaultProps 3)\<lparr>prop_index := Some 2\<rparr>" 2]
  by (simp add: demo_def getDefaultProps_def)

text \<open>C29: a new \<open>index\<close> property moves the displayed index but not
  \<open>targetIndex\<close>: the re-render sends the offset spring to the new slide while the
  height spring keeps the height of the slide at the old \<open>targetIndex\<close>, and the
  dragging flag and \<open>targetIndex\<close> stay as they were, so an idle component is left
  with \<open>index \<noteq> targetIndex\<close>.\<close>

theorem receive_props_keeps_target:
  assumes "prop_index p = Some i" and "Some i \<noteq> prop_index (props c)"
  shows "\<exists>c'. step c (ReceiveProps p) = Inr (c', []) \<and>
     isDragging (state c') = isDragging (state c) \<and> index (state c') = i \<and>
     targetIndex (state c') = targetIndex (state c) \<and>
     translate_target (style_given c') = i * 100 \<and> height_target (style_given c') = getTargetHeight c"
  using assms by (simp add: componentWillReceiveProps_def render_def getTargetHeight_def)

theorem receive_props_keeps_target_witness:
  "\<exists>c'. step demo (ReceiveProps ((props demo)\<lparr>prop_index := Some 2\<rparr>)) = Inr (c', []) \<and>
     \<not> isDragging (state c') \<and> index (state c') = 2 \<and> targetIndex (state c') = 0 \<and>
     translate_target (style_given c') = 200 \<and> height_target (style_given c') = 120"
proof -
  have p: "prop_index ((props demo)\<lparr>prop_index := Some 2\<rparr>) = Some 2"
    and n: "Some 2 \<noteq> prop_index (props demo)"
    by (simp_all add: demo_def getDefaultProps_def)
  have h: "getTargetHeight demo = 120" by (simp add: getTargetHeight_def demo_def)
  from receive_props_keeps_target [OF p n] h show ?thesis
    by (simp add: demo_def)
qed

text \<open>The \<open>index\<close> property is not clamped to the collection: a new index
  outside \<open>[0, childCount - 1]\<close> is stored as it is, and the component leaves the
  invariant \<open>wf\<close> (for example index 7 on three slides).\<close>

lemma receive_props_unclamped:
  assumes "prop_index p = Some i" and "Some i \<noteq> prop_index (props c)"
    and "\<not> in_range (index_max (children p)) i"
  shows "\<exists>c'. step c (ReceiveProps p) = Inr (c', []) \<and> index (state c') = i \<and> \<not> wf c'"
  using assms by (simp add: componentWillReceiveProps_def wf_def)

lemma receive_props_unclamped_example:
  "\<exists>c'. step demo (ReceiveProps ((props demo)\<lparr>prop_index := Some 7\<rparr>)) = Inr (c', []) \<and>
     index (state c') = 7 \<and> \<not> wf c' \<and> wf demo"
proof -
  have p: "prop_index ((props demo)\<lparr>prop_index := Some 7\<rparr>) = Some 7"
    and n: "Some 7 \<noteq> prop_index (props demo)"
    and r: "\<not> in_range (index_max (children ((props demo)\<lparr>prop_index := Some 7\<rparr>))) 7"
    by (simp_all add: demo_def getDefaultProps_def js_simps)
  have "wf demo" by (simp add: wf_def demo_def getDefaultProps_def session_ok_def js_simps)
  with receive_props_unclamped [OF p n r] show ?thesis by blast
qed

lemma frame_at_rest:
  assumes "motion c = motion_init (style_given c)"
  shows "step c (Frame dt) = Inr (c, [])"
proof -
  have "motion_tick dt (style_given c) (motion_init (style_given c)) = motion_init (style_given c)"
    by (simp add: motion_tick_def motion_init_def advance_rest)
  with assms show ?thesis by simp
qed

text \<open>With \<open>disabled\<close> set, no touch handler is attached: touch events leave
  the component unchanged and have no effect.\<close>

lemma disabled_ignores_touches:
  assumes "disabled (props c)"
  shows "step c (TouchStart w t) = Inr (c, []) \<and> step c (TouchMove t') = Inr (c, []) \<and>
    step c TouchEnd = Inr (c, [])"
  using assms by simp

lemma disabled_ignores_touches_example:
  "step (demo\<lparr>props := (props demo)\<lparr>disabled := True\<rparr>\<rparr>) (TouchMove \<lparr>pageX = -50, pageY = 0\<rparr>)
     = Inr (demo\<lparr>props := (props demo)\<lparr>disabled := True\<rparr>\<rparr>, [])"
  using disabled_ignores_touches [of "demo\<lparr>props := (props demo)\<lparr>disabled := True\<rparr>\<rparr>"]
  by simp

text \<open>The height channel, which \<open>render\<close> drives with react-motion's default
  configuration in every phase (line 239), settles: a height spring starting at rest
  within 1000 pixels of its target is within half a pixel of it from the 75th frame
  on.\<close>

lemma height_channel_settles:
  assumes "velocity s = 0" and "\<bar>current s - height_target (render c)\<bar> \<le> 1000" and "75 \<le> n"
  shows "\<bar>current (advance_n n (height_config (render c)) frame_dt (height_target (render c)) s)
            - height_target (render c)\<bar> < 1/2"
proof -
  let ?h = "height_target (render c)"
  let ?e = "current (advance_n n default_config frame_dt ?h s) - ?h"
  have "\<bar>current s - ?h\<bar>\<^sup>2 \<le> 1000\<^sup>2" using power_mono [OF assms(2) abs_ge_zero, of 2] .
  then have E: "height_energy ?h s \<le> 1000\<^sup>2" using assms(1) by (simp add: height_energy_def)
  have "(4/5::real) ^ n \<le> (4/5) ^ 75" using assms(3) by (rule power_decreasing) simp_all
  then have "4 * (4/5) ^ n * height_energy ?h s \<le> 4 * (4/5) ^ 75 * 1000\<^sup>2"
    using E height_energy_nonneg [of ?h s] by (intro mult_mono) simp_all
  with default_error_bound [of n ?h s] have "?e\<^sup>2 \<le> 4 * (4/5) ^ 75 * 1000\<^sup>2" by linarith
  also have "\<dots> < (1/2)\<^sup>2" by (simp add: power_divide)
  finally have "\<bar>?e\<bar>\<^sup>2 < (1/2)\<^sup>2" by simp
  then have "\<bar>?e\<bar> < 1/2" by (rule power_less_imp_less_base) simp
  then show ?thesis by (simp add: render_def)
qed

lemma height_channel_settles_example:
  "\<bar>current (advance_n 75 (height_config (render demo)) frame_dt (height_target (render demo))
      \<lparr>current = 0, velocity = 0\<rparr>) - height_target (render demo)\<bar> < 1/2 \<and>
   height_target (render demo) = 120"
proof -
  have h: "height_target (render demo) = 120"
    by (simp add: render_def getTargetHeight_def demo_def)
  have "\<bar>current \<lparr>current = 0, velocity = 0\<rparr> - height_target (render demo)\<bar> \<le> 1000"
    using h by simp
  from height_channel_settles [of "\<lparr>current = 0, velocity = 0\<rparr>", OF _ this] h show ?thesis
    by simp
qed

subsection \<open>Animation frames after a release\<close>

lemma run_frames:
  "run c (replicate n (Frame dt)) =
     Inr (c\<lparr>motion := (motion_tick dt (style_given c) ^^ n) (motion c)\<rparr>, [])"
proof (induction n arbitrary: c)
  case 0
  then show ?case by simp
next
  case (Suc n)
  have "run c (replicate (Suc n) (Frame dt)) =
        run (c\<lparr>motion := motion_tick dt (style_given c) (motion c)\<rparr>) (replicate n (Frame dt))"
    by (auto split: sum.splits)
  also have "\<dots> = Inr (c\<lparr>motion := (motion_tick dt (style_given c) ^^ Suc n) (motion c)\<rparr>, [])"
    by (simp add: Suc.IH funpow_Suc_right del: funpow.simps)
  finally show ?case .
qed

text \<open>C33: once a drag is over, the strip converges to the slide the component shows,
  from whatever position and speed the release left it at: when the last re-render
  followed the last change of the state (as after a \<open>touchend\<close>), with no further events but
  animation frames, after \<open>n\<close> frames the distance of the translate spring to
  \<open>index * 100\<close> is at most \<open>5 M (3/4)\<^sup>n\<close>, where \<open>M\<close> is the larger of the two
  idle modes \<open>e + 2 w\<close> and \<open>e + 3 w\<close> of the starting state.\<close>

theorem idle_strip_settles:
  assumes "\<not> isDragging (state c)" and "style_given c = render c"
  shows "\<exists>c'. run c (replicate n (Frame frame_dt)) = Inr (c', []) \<and> state c' = state c \<and>
           \<bar>current (translate (motion c')) - index (state c) * 100\<bar> \<le>
             5 * max \<bar>idle_mode_a (index (state c) * 100) (translate (motion c))\<bar>
                     \<bar>idle_mode_b (index (state c) * 100) (translate (motion c))\<bar> * (3/4) ^ n"
proof -
  have st: "translate_config (style_given c) = idle_config"
    "translate_target (style_given c) = index (state c) * 100"
    using assms by (simp_all add: render_def)
  show ?thesis
    using run_frames [of c n frame_dt] idle_error_bound [of n "index (state c) * 100" "translate (motion c)"]
    by (simp add: translate_ticks st)
qed

theorem idle_strip_settles_witness:
  "\<exists>c'. run (demo\<lparr>motion := \<lparr>translate = \<lparr>current = 50, velocity = 600\<rparr>,
                               height = \<lparr>current = 120, velocity = 0\<rparr>\<rparr>\<rparr>)
             (replicate 10 (Frame frame_dt)) = Inr (c', []) \<and>
         \<bar>current (translate (motion c'))\<bar> \<le> 400 * (3/4) ^ 10"
proof -
  let ?c = "demo\<lparr>motion := \<lparr>translate = \<lparr>current = 50, velocity = 600\<rparr>,
                              height = \<lparr>current = 120, velocity = 0\<rparr>\<rparr>\<rparr>"
  have "\<not> isDragging (state ?c)" and "style_given ?c = render ?c"
    by (simp_all add: demo_def render_def getTargetHeight_def getDefaultProps_def)
  from idle_strip_settles [OF this, of 10] show ?thesis
    by (simp add: demo_def idle_mode_a_def idle_mode_b_def frame_dt_def) blast
qed

end
