(* ===== verification/Reachability.thy ===== *)
theory Reachability
  imports Controller
begin

text \<open>
  Properties of every state a component reaches from \<open>mount\<close> in the browser's
  event order (the inductive \<open>reachable\<close>), by rule induction: the invariant
  \<open>wf\<close>, a drag in progress always belongs to a swipe session, an idle component
  shows a whole slide and one \<open>touchend\<close> brings any component there; and the type of
  the values passed to \<open>onChangeIndex\<close> along any run.
\<close>

subsection \<open>The invariant on reachable states\<close>

lemma reachable_wf:
  assumes "reachable p c" and "props_ok p"
  shows "wf c \<and> children (props c) = children p"
  using assms
proof (induction rule: reachable.induct)
  case (mounted p c)
  then show ?case using mount_wf mount_props by blast
next
  case (stepped p c e c' out)
  then show ?case using step_wf step_children by metis
qed

text \<open>C10: in every state a component reaches in the browser's event order from valid
  properties, an idle component (no drag in progress) displays a whole slide: its index
  is an integer within the collection.\<close>

theorem reachable_idle_on_slide:
  assumes "reachable p c" and "props_ok p" and "\<not> isDragging (state c)"
  shows "is_slot (index_max (children p)) (index (state c))"
proof -
  from reachable_wf [OF assms(1,2)] have "wf c" and "children (props c) = children p" by auto
  with assms(3) show ?thesis by (simp add: wf_def Let_def is_slot_def)
qed

theorem reachable_idle_on_slide_witness:
  "reachable (getDefaultProps 3)
     \<lparr>props = getDefaultProps 3,
      state = \<lparr>index = 0, targetIndex = 0, isDragging = False, isFirstRender = False\<rparr>,
      session = None, slides = [], rendered = [],
      motion = \<lparr>translate = \<lparr>current = 0, velocity = 0\<rparr>, height = \<lparr>current = 0, velocity = 0\<rparr>\<rparr>,
      style_given = \<lparr>translate_target = 0, translate_config = idle_config, height_target = 0, height_config = default_config\<rparr>\<rparr>
   \<and> is_slot (index_max 3) 0"
proof -
  let ?c0 = "\<lparr>props = getDefaultProps 3,
      state = \<lparr>index = 0, targetIndex = 0, isDragging = False, isFirstRender = True\<rparr>,
      session = None, slides = [], rendered = [],
      motion = \<lparr>translate = \<lparr>current = 0, velocity = 0\<rparr>, height = \<lparr>current = 0, velocity = 0\<rparr>\<rparr>,
      style_given = \<lparr>translate_target = 0, translate_config = idle_config, height_target = 0, height_config = default_config\<rparr>\<rparr>"
  have m: "mount (getDefaultProps 3) = Inr ?c0"
    by (simp add: mount_def getInitialState_def getDefaultProps_def render_def
                  getTargetHeight_def motion_init_def)
  have r: "reachable (getDefaultProps 3) (componentDidMount ?c0)"
    by (rule reachable.stepped [OF reachable.mounted [OF m], of DidMount])
       (simp_all add: react_update_def shouldComponentUpdate_def componentDidMount_def render_def
                      getTargetHeight_def)
  have p: "props_ok (getDefaultProps 3)" by (simp add: props_ok_def getDefaultProps_def js_simps)
  from reachable_idle_on_slide [OF r p] r show ?thesis
    by (simp add: componentDidMount_def getDefaultProps_def)
qed

subsection \<open>Ending a drag\<close>

lemma handleTouchMove_swipe_session:
  assumes "handleTouchMove t c = Inr (c', out)" and "isDragging (state c')"
    and "isDragging (state c) \<longrightarrow> (\<exists>s. session c = Some s \<and> isScroll s = Some False)"
  shows "\<exists>s'. session c' = Some s' \<and> isScroll s' = Some False"
proof -
  from assms(1) obtain s s' r where ss: "session c = Some s"
    and tm: "touch_move (children (props c)) s t = Inr (s', r)"
    by (auto simp: handleTouchMove_def split: option.splits sum.splits)
  show ?thesis
  proof (cases r)
    case Scroll
    with assms(1) ss tm have c': "c' = c\<lparr>session := Some s'\<rparr>" by (simp add: handleTouchMove_def)
    with assms(2,3) ss have "isScroll s = Some False" by simp
    with touch_move_Scroll_scroll [OF tm [unfolded Scroll]] show ?thesis
      by (simp add: classify_def)
  next
    case (Drag i)
    with assms(1) ss tm have "session c' = Some s'" by (auto simp: handleTouchMove_def)
    with touch_move_Drag_swipe [OF tm [unfolded Drag]] show ?thesis by simp
  qed
qed

text \<open>A drag in progress always belongs to the current touch session, which the
  user started as a swipe: a \<open>touchstart\<close> comes only while no drag is in progress,
  and only a move classified as horizontal starts a drag.\<close>

lemma reachable_swipe_session:
  assumes "reachable p c"
  shows "isDragging (state c) \<longrightarrow> (\<exists>s. session c = Some s \<and> isScroll s = Some False)"
  using assms
proof (induction rule: reachable.induct)
  case (mounted p c)
  then show ?case by (auto simp: mount_def getInitialState_def Let_def split: option.splits sum.splits)
next
  case (stepped p c e c' out)
  show ?case
  proof (cases e)
    case (TouchMove t)
    with stepped show ?thesis
      by (auto split: if_splits sum.splits dest: handleTouchMove_swipe_session)
  next
    case TouchEnd
    with stepped show ?thesis
      by (auto simp: handleTouchEnd_def Let_def split: if_splits option.splits)
  qed (use stepped in \<open>auto simp: handleTouchStart_def componentDidMount_def
                                componentWillReceiveProps_def split: if_splits option.splits\<close>)
qed

text \<open>C15: from every state a component reaches in the browser's order, a drag can be
  brought to an end: as long as the component is not \<open>disabled\<close>, at most one event
  (the \<open>touchend\<close> of the drag in progress) leaves it idle on a whole slide.\<close>

theorem reachable_can_settle:
  assumes "reachable p c" and "props_ok p" and "\<not> disabled (props c)"
  shows "\<exists>es c' out. length es \<le> 1 \<and> ok_run c es \<and> run c es = Inr (c', out) \<and>
           \<not> isDragging (state c') \<and> is_slot (index_max (children p)) (index (state c'))"
proof (cases "isDragging (state c)")
  case False
  from reachable_wf [OF assms(1,2)] have "wf c" and n: "children (props c) = children p" by auto
  with False have "is_slot (index_max (children p)) (index (state c))"
    by (auto simp: wf_def Let_def is_slot_def)
  with False show ?thesis by (intro exI [of _ "[]"]) simp
next
  case True
  from reachable_wf [OF assms(1,2)] have w: "wf c" and n: "children (props c) = children p" by auto
  from reachable_swipe_session [OF assms(1)] True obtain s
    where ss: "session c = Some s" and sw: "isScroll s = Some False" by auto
  let ?new = "index_new (threshold (props c)) (deltaX s) (startIndex s) (index (state c))"
  have o: "ok_event c TouchEnd" using ss by simp
  from step_progress [OF w o] obtain c' out where st: "step c TouchEnd = Inr (c', out)" by auto
  have w': "wf c'" by (rule step_wf [OF w o st])
  from st assms(3) ss sw have "state c' = (state c)\<lparr>index := ?new, targetIndex := ?new, isDragging := False\<rparr>"
    by (auto simp: handleTouchEnd_def Let_def)
  moreover from w' have "is_slot (index_max (children (props c'))) (targetIndex (state c'))"
    by (rule wf_D(3))
  moreover have "children (props c') = children p" using step_children [OF o st] n by simp
  ultimately have "\<not> isDragging (state c')" and "is_slot (index_max (children p)) (index (state c'))"
    by simp_all
  with o st show ?thesis by (intro exI [of _ "[TouchEnd]"]) auto
qed


theorem reachable_can_settle_witness:
  "\<exists>es c' out. length es \<le> 1 \<and>
     ok_run \<lparr>props = getDefaultProps 3,
             state = \<lparr>index = 0.4, targetIndex = 0, isDragging = True, isFirstRender = True\<rparr>,
             session = Some ((touch_start 100 0 \<lparr>pageX = 0, pageY = 0\<rparr>)
                             \<lparr>isScroll := Some False, deltaX := -20, lastX := -40\<rparr>),
             slides = [], rendered = [],
             motion = \<lparr>translate = \<lparr>current = 0, velocity = 0\<rparr>,
                       height = \<lparr>current = 0, velocity = 0\<rparr>\<rparr>,
             style_given = \<lparr>translate_target = 40, translate_config = dragging_config, height_target = 0, height_config = default_config\<rparr>\<rparr> es \<and>
     run \<lparr>props = getDefaultProps 3,
          state = \<lparr>index = 0.4, targetIndex = 0, isDragging = True, isFirstRender = True\<rparr>,
          session = Some ((touch_start 100 0 \<lparr>pageX = 0, pageY = 0\<rparr>)
                          \<lparr>isScroll := Some False, deltaX := -20, lastX := -40\<rparr>),
          slides = [], rendered = [],
          motion = \<lparr>translate = \<lparr>current = 0, velocity = 0\<rparr>,
                    height = \<lparr>current = 0, velocity = 0\<rparr>\<rparr>,
          style_given = \<lparr>translate_target = 40, translate_config = dragging_config, height_target = 0, height_config = default_config\<rparr>\<rparr> es = Inr (c', out) \<and>
     \<not> isDragging (state c') \<and> is_slot (index_max 3) (index (state c'))"
proof -
  let ?c0 = "\<lparr>props = getDefaultProps 3,
      state = \<lparr>index = 0, targetIndex = 0, isDragging = False, isFirstRender = True\<rparr>,
      session = None, slides = [], rendered = [],
      motion = \<lparr>translate = \<lparr>current = 0, velocity = 0\<rparr>, height = \<lparr>current = 0, velocity = 0\<rparr>\<rparr>,
      style_given = \<lparr>translate_target = 0, translate_config = idle_config, height_target = 0, height_config = default_config\<rparr>\<rparr>"
  let ?c1 = "?c0\<lparr>session := Some (touch_start 100 0 \<lparr>pageX = 0, pageY = 0\<rparr>)\<rparr>"
  let ?c2 = "\<lparr>props = getDefaultProps 3,
             state = \<lparr>index = 0.4, targetIndex = 0, isDragging = True, isFirstRender = True\<rparr>,
             session = Some ((touch_start 100 0 \<lparr>pageX = 0, pageY = 0\<rparr>)
                             \<lparr>isScroll := Some False, deltaX := -20, lastX := -40\<rparr>),
             slides = [], rendered = [],
             motion = \<lparr>translate = \<lparr>current = 0, velocity = 0\<rparr>,
                       height = \<lparr>current = 0, velocity = 0\<rparr>\<rparr>,
             style_given = \<lparr>translate_target = 40, translate_config = dragging_config, height_target = 0, height_config = default_config\<rparr>\<rparr>"
  have m: "mount (getDefaultProps 3) = Inr ?c0"
    by (simp add: mount_def getInitialState_def getDefaultProps_def render_def
                  getTargetHeight_def motion_init_def)
  have s1: "step ?c0 (TouchStart 100 \<lparr>pageX = 0, pageY = 0\<rparr>) = Inr (?c1, [])"
    by (simp add: getDefaultProps_def handleTouchStart_def)
  have s2: "step ?c1 (TouchMove \<lparr>pageX = -40, pageY = 0\<rparr>) = Inr (?c2, [PreventDefault])"
    by (simp add: getDefaultProps_def handler_defs touch_move_def gesture_defs js_simps
                  react_update_def shouldComponentUpdate_def render_def getTargetHeight_def)
  have r: "reachable (getDefaultProps 3) ?c2"
    by (rule reachable.stepped [OF reachable.stepped [OF reachable.mounted [OF m] _ s1] _ s2])
       (simp_all add: touch_start_def)
  have p: "props_ok (getDefaultProps 3)" by (simp add: props_ok_def getDefaultProps_def js_simps)
  have d: "\<not> disabled (props ?c2)" by (simp add: getDefaultProps_def)
  from reachable_can_settle [OF r p d] show ?thesis by (simp add: getDefaultProps_def)
qed

subsection \<open>The values passed to \<open>onChangeIndex\<close>\<close>

lemma step_notified_slot:
  assumes "wf c" and "step c e = Inr (c', out)"
  shows "\<forall>n \<in> set (notified out). is_slot (index_max (children (props c))) n"
proof (cases "e = TouchEnd \<and> \<not> disabled (props c)")
  case True
  with assms(2) obtain c'' where h: "handleTouchEnd c = Inr (c'', out)" by (auto split: sum.splits)
  then obtain s where ss: "session c = Some s" by (auto simp: handleTouchEnd_def split: option.splits)
  from h ss show ?thesis using handleTouchEnd_new_slot [OF assms(1) ss]
    by (auto simp: handleTouchEnd_def Let_def split: if_splits)
next
  case False
  have "notified out = []"
  proof (cases e)
    case (TouchMove t)
    with assms(2) show ?thesis
      by (auto simp: handleTouchMove_def split: if_splits option.splits sum.splits move_result.splits)
  qed (use assms(2) False in \<open>auto split: if_splits\<close>)
  then show ?thesis by simp
qed

text \<open>C16: the argument type of the \<open>onChangeIndex\<close> callback: along every run in the
  browser's order from a well-formed component, each value the component passes to
  \<open>onChangeIndex\<close> is the index of one of its slides, an integer between 0 and the
  number of children minus one.\<close>

theorem run_notifies_slots:
  assumes "wf c" and "ok_run c es" and "run c es = Inr (c', out)"
  shows "\<forall>n \<in> set (notified out). is_slot (index_max (children (props c))) n"
  using assms
proof (induction es arbitrary: c out)
  case Nil
  then show ?case by simp
next
  case (Cons e es)
  from Cons.prems(2,3) obtain c1 o1 where s: "step c e = Inr (c1, o1)" and o: "ok_event c e"
    and r: "ok_run c1 es" by (auto split: sum.splits)
  from Cons.prems(3) s obtain o2 where r2: "run c1 es = Inr (c', o2)" and out: "out = o1 @ o2"
    by (auto split: sum.splits)
  have "wf c1" by (rule step_wf [OF Cons.prems(1) o s])
  from Cons.IH [OF this r r2] step_children [OF o s] step_notified_slot [OF Cons.prems(1) s] out
  show ?case by auto
qed

theorem run_notifies_slots_witness:
  "\<exists>c'. wf demo \<and>
     ok_run demo [TouchStart 100 \<lparr>pageX = 0, pageY = 0\<rparr>, TouchMove \<lparr>pageX = -40, pageY = 0\<rparr>, TouchEnd] \<and>
     run demo [TouchStart 100 \<lparr>pageX = 0, pageY = 0\<rparr>, TouchMove \<lparr>pageX = -40, pageY = 0\<rparr>, TouchEnd]
       = Inr (c', [PreventDefault, ChangeIndex 1]) \<and>
     (\<forall>n \<in> set (notified [PreventDefault, ChangeIndex 1]). is_slot (index_max (children (props demo))) n)"
proof -
  let ?es = "[TouchStart 100 \<lparr>pageX = 0, pageY = 0\<rparr>, TouchMove \<lparr>pageX = -40, pageY = 0\<rparr>, TouchEnd]"
  have w: "wf demo" by (simp add: wf_def demo_def getDefaultProps_def session_ok_def js_simps)
  have o: "ok_run demo ?es"
    by (simp add: demo_def getDefaultProps_def handler_defs touch_move_def gesture_defs js_simps
                  index_new_def Let_def)
  from run_wf [OF w o] obtain c' out where r: "run demo ?es = Inr (c', out)" by blast
  from r have out: "out = [PreventDefault, ChangeIndex 1]"
    by (auto simp: demo_def getDefaultProps_def handler_defs touch_move_def gesture_defs js_simps
                   index_new_def Let_def)
  from run_notifies_slots [OF w o r] w o r out show ?thesis by blast
qed

end
