(* ===== verification/Mounting.thy ===== *)
theory Mounting
  imports Behaviour
begin

text \<open>
  Mounting and the timing of re-renders (src/src/index.js, lines 58--81, 172--180 and
  236--240). \<open>render\<close> reads the slide nodes in \<open>this._slides\<close>, which the ref
  callbacks fill only when React commits the render: the style \<open>Motion\<close> receives is
  computed from the nodes of the previous commit. React mounts the component in the
  order first render, commit of the first slide, \<open>componentDidMount\<close> (whose
  \<open>setState\<close> re-renders with all slides), commit of all slides; nothing re-renders
  after the second commit until the state or the properties change, and
  \<open>PureRenderMixin\<close> skips a re-render whenever neither changed. The reference without
  the shortcut, \<open>react_update_always\<close>, re-renders after every event.
\<close>

definition react_update_always :: "component \<Rightarrow> component" where
  "react_update_always c' = c'\<lparr>style_given := render c'\<rparr>"

fun commit_event :: "event \<Rightarrow> bool" where
  "commit_event (Commit doms) = True"
| "commit_event e = False"

text \<open>The reference runs: every handler is followed by a re-render, a commit by none.\<close>

definition step_always :: "component \<Rightarrow> event \<Rightarrow> error + component \<times> effect list" where
  "step_always c e =
     (case dispatch c e of
        Inl err \<Rightarrow> Inl err
      | Inr (c', out) \<Rightarrow> Inr (if commit_event e then c' else react_update_always c', out))"

fun run_always :: "component \<Rightarrow> event list \<Rightarrow> error + component \<times> effect list" where
  "run_always c [] = Inr (c, [])"
| "run_always c (e # es) =
     (case step_always c e of
        Inl err \<Rightarrow> Inl err
      | Inr (c', out) \<Rightarrow>
          (case run_always c' es of
             Inl err \<Rightarrow> Inl err
           | Inr (c'', out') \<Rightarrow> Inr (c'', out @ out')))"

subsection \<open>The mount sequence\<close>

lemma mount_Inr:
  assumes "prop_index p = Some k" and "mount p = Inr c0"
  shows "c0 = \<lparr>props = p,
               state = \<lparr>index = k, targetIndex = k, isDragging = False, isFirstRender = True\<rparr>,
               session = None, slides = [], rendered = [],
               motion = \<lparr>translate = \<lparr>current = k * 100, velocity = 0\<rparr>,
                         height = \<lparr>current = 0, velocity = 0\<rparr>\<rparr>,
               style_given = \<lparr>translate_target = k * 100, translate_config = idle_config,
                              height_target = 0, height_config = default_config\<rparr>\<rparr>"
  using assms
  by (auto simp: mount_def getInitialState_def Let_def render_def getTargetHeight_def motion_init_def)

lemma render_slides_state:
  "slides c' = slides c \<Longrightarrow> state c' = state c \<Longrightarrow> props c' = props c \<Longrightarrow> render c' = render c"
  by (simp add: render_def getTargetHeight_def)

text \<open>C11: a component mounted on a slide other than the first never gets that
  slide's height: after the browser's mount sequence (first render, commit of the one
  slide rendered, \<open>componentDidMount\<close>, commit of all slides) all slide nodes are
  registered and \<open>getTargetHeight\<close> would now read the height of slide \<open>k\<close>, but the
  style \<open>Motion\<close> was given comes from the re-render of \<open>componentDidMount\<close>, when only
  slide 0 was registered: its height target is 0, and since nothing re-renders
  afterwards, animation frames keep the container's height at 0.\<close>

theorem mount_on_later_slide_height_zero:
  assumes "props_ok p" and "prop_index p = Some k" and "k \<noteq> 0" and "mount p = Inr c0"
    and "length ds = children p"
  shows "\<exists>c'. run c0 [Commit [hd ds], DidMount, Commit ds] = Inr (c', []) \<and>
           height_target (style_given c') = 0 \<and>
           getTargetHeight c' = (case ds ! nat \<lfloor>k\<rfloor> of [] \<Rightarrow> 0 | h # _ \<Rightarrow> h) \<and>
           (\<forall>n. \<exists>c''. run c' (replicate n (Frame dt)) = Inr (c'', []) \<and>
                      current (height (motion c'')) = 0)"
proof -
  let ?n = "children p"
  from assms(1,2) have sl: "is_slot (index_max ?n) k" by (simp add: props_ok_def)
  define K where "K = nat \<lfloor>k\<rfloor>"
  from sl have kK: "k = real K" and Kn: "K < ?n" unfolding K_def by (rule slot_nat)+
  with assms(3) have K1: "1 \<le> K" by (cases K) simp_all
  with Kn assms(5) have ne: "ds \<noteq> []" by auto
  note c0 = mount_Inr [OF assms(2,4)]
  let ?c1 = "c0\<lparr>slides := [Some (hd ds)], rendered := [FirstRef]\<rparr>"
  have s1: "step c0 (Commit [hd ds]) = Inr (?c1, [])"
    by (simp add: c0 render_refs_def commit_refs_def attach_refs_def detach_refs_def js_store_def)
  let ?c2' = "c0\<lparr>slides := [Some (hd ds)], rendered := [FirstRef],
                  state := (state c0)\<lparr>isFirstRender := False\<rparr>\<rparr>"
  have h2: "height_target (render ?c2') = 0"
    using K1 by (simp add: c0 render_def getTargetHeight_def kK)
  have s2: "step ?c1 DidMount = Inr (?c2'\<lparr>style_given := render ?c2'\<rparr>, [])"
    by (simp add: react_update_def shouldComponentUpdate_def componentDidMount_def c0)
  let ?c2 = "?c2'\<lparr>style_given := render ?c2'\<rparr>"
  let ?c3 = "?c2\<lparr>slides := map Some ds, rendered := replicate ?n MapRef\<rparr>"
  have "commit_refs [FirstRef] (render_refs False ?n) ds = map Some ds"
    using assms(5) ne by (intro commit_refs_rendered) (simp_all add: render_refs_def)
  then have s3: "step ?c2 (Commit ds) = Inr (?c3, [])"
    by (simp add: c0 render_refs_def)
  have r: "run c0 [Commit [hd ds], DidMount, Commit ds] = Inr (?c3, [])"
    by (simp add: s1 s2 s3 del: step_simps)
  have g3: "height_target (style_given ?c3) = 0" using h2 by simp
  have t3: "getTargetHeight ?c3 = (case ds ! K of [] \<Rightarrow> 0 | h # _ \<Rightarrow> h)"
    using Kn assms(5) by (simp add: getTargetHeight_def c0 kK)
  have m3: "height (motion ?c3) = \<lparr>current = 0, velocity = 0\<rparr>" by (simp add: c0)
  have f: "\<forall>n. \<exists>c''. run ?c3 (replicate n (Frame dt)) = Inr (c'', []) \<and>
                     current (height (motion c'')) = 0"
  proof
    fix n
    show "\<exists>c''. run ?c3 (replicate n (Frame dt)) = Inr (c'', []) \<and> current (height (motion c'')) = 0"
      using run_frames [of ?c3 n dt] g3 m3 advance_n_rest [of n _ dt 0]
      by (simp add: height_ticks)
  qed
  from r g3 t3 f show ?thesis by (auto simp: K_def)
qed

theorem mount_on_later_slide_height_zero_witness:
  "\<exists>c'. run \<lparr>props = (getDefaultProps 3)\<lparr>prop_index := Some 1\<rparr>,
               state = \<lparr>index = 1, targetIndex = 1, isDragging = False, isFirstRender = True\<rparr>,
               session = None, slides = [], rendered = [],
               motion = \<lparr>translate = \<lparr>current = 100, velocity = 0\<rparr>,
                         height = \<lparr>current = 0, velocity = 0\<rparr>\<rparr>,
               style_given = \<lparr>translate_target = 100, translate_config = idle_config,
                              height_target = 0, height_config = default_config\<rparr>\<rparr>
             [Commit [[120]], DidMount, Commit [[120], [80], [200]]] = Inr (c', []) \<and>
         height_target (style_given c') = 0 \<and> getTargetHeight c' = 80"
proof -
  let ?p = "(getDefaultProps 3)\<lparr>prop_index := Some 1\<rparr>"
  have p: "props_ok ?p" by (simp add: props_ok_def getDefaultProps_def js_simps)
  have i: "prop_index ?p = Some 1" and k: "(1::real) \<noteq> 0" by simp_all
  have m: "mount ?p = Inr \<lparr>props = (getDefaultProps 3)\<lparr>prop_index := Some 1\<rparr>,
               state = \<lparr>index = 1, targetIndex = 1, isDragging = False, isFirstRender = True\<rparr>,
               session = None, slides = [], rendered = [],
               motion = \<lparr>translate = \<lparr>current = 100, velocity = 0\<rparr>,
                         height = \<lparr>current = 0, velocity = 0\<rparr>\<rparr>,
               style_given = \<lparr>translate_target = 100, translate_config = idle_config,
                              height_target = 0, height_config = default_config\<rparr>\<rparr>"
    by (simp add: mount_def getInitialState_def getDefaultProps_def render_def getTargetHeight_def
                  motion_init_def)
  have l: "length [[120], [80], [200 :: real]] = children ?p" by (simp add: getDefaultProps_def)
  from mount_on_later_slide_height_zero [OF p i k m l, of frame_dt] show ?thesis by auto
qed


subsection \<open>The re-render shortcut\<close>

text \<open>No handler but the ref callbacks of a commit changes the slide nodes, no handler
  changes the style \<open>Motion\<close> was given, and only new properties change the props.\<close>

lemma handleTouchMove_keeps_inputs:
  "handleTouchMove t c = Inr (c', out) \<Longrightarrow>
   slides c' = slides c \<and> style_given c' = style_given c \<and> props c' = props c"
  by (auto simp: handleTouchMove_def split: option.splits sum.splits prod.splits move_result.splits)

lemma handleTouchEnd_keeps_inputs:
  "handleTouchEnd c = Inr (c', out) \<Longrightarrow>
   slides c' = slides c \<and> style_given c' = style_given c \<and> props c' = props c"
  by (auto simp: handleTouchEnd_def Let_def split: option.splits if_splits)

lemma dispatch_keeps_inputs:
  assumes "dispatch c e = Inr (c', out)" and "\<not> commit_event e"
  shows "slides c' = slides c \<and> style_given c' = style_given c \<and>
         (props_event e \<or> props c' = props c)"
  using assms
  by (cases e)
     (auto simp: handleTouchStart_def componentDidMount_def componentWillReceiveProps_def Let_def
           split: if_splits option.splits dest: handleTouchMove_keeps_inputs handleTouchEnd_keeps_inputs)

lemma render_style_given [simp]: "render (c\<lparr>style_given := g\<rparr>) = render c"
  by (simp add: render_def getTargetHeight_def)

lemma step_eq_step_always:
  assumes "style_given c = render c" and "\<not> commit_event e"
  shows "step c e = step_always c e"
proof (cases "dispatch c e")
  case (Inl err)
  then show ?thesis by (simp add: step_def step_always_def)
next
  case (Inr r)
  obtain c' out where r: "r = (c', out)" by (cases r)
  from dispatch_keeps_inputs [OF Inr [unfolded r] assms(2)]
  have k: "slides c' = slides c" "style_given c' = style_given c"
      and p: "props_event e \<or> props c' = props c" by auto
  have "react_update (props_event e) c c' = react_update_always c'"
  proof (cases "props_event e \<or> state c \<noteq> state c'")
    case True
    then show ?thesis by (auto simp: react_update_def shouldComponentUpdate_def react_update_always_def)
  next
    case False
    with p have "props c' = props c" and "state c' = state c" by auto
    with k have "render c' = render c" by (intro render_slides_state)
    with k assms(1) have "render c' = style_given c'" by simp
    with False show ?thesis by (simp add: react_update_def shouldComponentUpdate_def react_update_always_def)
  qed
  with Inr r assms(2) show ?thesis by (simp add: step_def step_always_def)
qed

lemma step_always_fresh:
  "step_always c e = Inr (c', out) \<Longrightarrow> \<not> commit_event e \<Longrightarrow> style_given c' = render c'"
  by (auto simp: step_always_def react_update_always_def split: sum.splits)

text \<open>C12: \<open>PureRenderMixin\<close> only skips re-renders that would hand \<open>Motion\<close> the style
  it already has: from a component whose last render is up to date, any run of events
  without a commit (touches, cancels, new properties, \<open>componentDidMount\<close>, animation
  frames) gives the same components and effects as re-rendering after every event.\<close>

theorem pure_render_transparent:
  assumes "style_given c = render c" and "\<forall>e \<in> set es. \<not> commit_event e"
  shows "run c es = run_always c es"
  using assms
proof (induction es arbitrary: c)
  case Nil
  then show ?case by simp
next
  case (Cons e es)
  then have eq: "step c e = step_always c e" and nc: "\<not> commit_event e"
    by (simp_all add: step_eq_step_always)
  show ?case
  proof (cases "step_always c e")
    case (Inl err)
    with eq show ?thesis by (simp del: step_simps)
  next
    case (Inr r)
    obtain c' out where r: "r = (c', out)" by (cases r)
    with Inr nc have "style_given c' = render c'" by (simp add: step_always_fresh)
    with Cons.IH [of c'] Cons.prems(2) have "run c' es = run_always c' es" by simp
    with eq Inr r show ?thesis by (simp del: step_simps)
  qed
qed

theorem pure_render_transparent_witness:
  "run demo [TouchStart 100 \<lparr>pageX = 0, pageY = 0\<rparr>, TouchMove \<lparr>pageX = -30, pageY = 0\<rparr>,
             TouchEnd, Frame frame_dt] =
   run_always demo [TouchStart 100 \<lparr>pageX = 0, pageY = 0\<rparr>, TouchMove \<lparr>pageX = -30, pageY = 0\<rparr>,
             TouchEnd, Frame frame_dt]"
proof -
  have d: "style_given demo = render demo"
    by (simp add: demo_def getDefaultProps_def render_def getTargetHeight_def js_simps)
  show ?thesis by (rule pure_render_transparent [OF d]) simp
qed

end
