(* ===== verification/Host.thy ===== *)
theory Host
  imports Behaviour
begin

text \<open>
  The interface between the component and its host (src/src/index.js, lines 32--44,
  82--92 and 168--170): the host learns of a swipe through \<open>onChangeIndex\<close> and
  controls the slide through the \<open>index\<close> property. \<open>componentWillReceiveProps\<close>
  compares a new \<open>index\<close> with the previous property, not with the slide the component
  shows, and \<open>handleTouchEnd\<close> moves the shown slide without touching the property.
  The lemmas here follow a touch session with a property change from the host.
\<close>

subsection \<open>The state a notifying session leaves\<close>

lemma swipe_session_notified_state:
  assumes "\<not> disabled (props c)"
    and "run c (TouchStart w t # map TouchMove ts @ [TouchEnd]) = Inr (c', out)"
    and "notified out = [j]"
  shows "props c' = props c \<and> index (state c') = j \<and> targetIndex (state c') = j \<and>
         \<not> isDragging (state c') \<and> j \<noteq> index (state c)"
proof -
  from assms(1,2) obtain c2 c3 out2 out3 s2 where e: "handleTouchEnd c2 = Inr (c3, out3)"
    and c3: "c' = react_update False c2 c3" and o: "out = out2 @ out3" and n2: "notified out2 = []"
    and p2: "props c2 = props c" and s2: "session c2 = Some s2" and i2: "startIndex s2 = index (state c)"
    by (rule run_session_split)
  from o n2 assms(3) have n3: "notified out3 = [j]" by simp
  have "isScroll s2 \<noteq> Some True"
  proof
    assume "isScroll s2 = Some True"
    with e s2 have "out3 = []" by (simp add: handleTouchEnd_def)
    with n3 show False by simp
  qed
  with e s2 n3 i2 p2 c3 show ?thesis
    by (auto simp: handleTouchEnd_def Let_def split: if_splits)
qed

subsection \<open>A host that names the slide it showed before\<close>

text \<open>C14: the \<open>index\<close> property does not control the slide shown. A host that has not
  followed a swipe passes the same \<open>index\<close> again, the slide it still wants shown; the
  component compares it with its previous property (line 87), sees no change, and
  stays on the slide the swipe settled on. The documentation calls \<open>index\<close> the slide to
  show, and the specification an authoritative index that overrides the target when
  idle.\<close>

theorem host_index_prop_stale:
  assumes "\<not> disabled (props c)" and "prop_index (props c) = Some i" and "index (state c) = i"
    and "run c (TouchStart w t # map TouchMove ts @ [TouchEnd]) = Inr (c', out)"
    and "notified out = [j]" and "prop_index p = Some i"
  shows "\<exists>c''. step c' (ReceiveProps p) = Inr (c'', []) \<and> props c'' = p \<and>
           \<not> isDragging (state c'') \<and> index (state c'') = j \<and> targetIndex (state c'') = j \<and> j \<noteq> i"
  using swipe_session_notified_state [OF assms(1,4,5)] assms(2,3,6)
  by (simp add: componentWillReceiveProps_def)

theorem host_index_prop_stale_witness:
  "\<exists>c' c''. run demo [TouchStart 100 \<lparr>pageX = 0, pageY = 0\<rparr>, TouchMove \<lparr>pageX = -30, pageY = 0\<rparr>,
                      TouchEnd] = Inr (c', [PreventDefault, ChangeIndex 1]) \<and>
            step c' (ReceiveProps (props demo)) = Inr (c'', []) \<and> index (state c'') = 1"
proof -
  let ?c' = "demo\<lparr>session := Some \<lparr>startWidth = 100, startIndex = 0, startX = 0, lastX = -30,
                                    deltaX = -15, startY = 0, isScroll = Some False\<rparr>,
                 state := \<lparr>index = 1, targetIndex = 1, isDragging = False, isFirstRender = False\<rparr>,
                 style_given := \<lparr>translate_target = 100, translate_config = idle_config,
                                  height_target = 80, height_config = default_config\<rparr>\<rparr>"
  have r: "run demo (TouchStart 100 \<lparr>pageX = 0, pageY = 0\<rparr> #
             map TouchMove [\<lparr>pageX = -30, pageY = 0\<rparr>] @ [TouchEnd])
           = Inr (?c', [PreventDefault, ChangeIndex 1])"
    by (simp add: demo_def getDefaultProps_def handler_defs touch_move_def gesture_defs
                  js_simps index_new_def react_update_def shouldComponentUpdate_def render_def
                  getTargetHeight_def)
  have d: "\<not> disabled (props demo)" and p: "prop_index (props demo) = Some 0"
      and i: "index (state demo) = 0"
    by (simp_all add: demo_def getDefaultProps_def)
  have n: "notified [PreventDefault, ChangeIndex 1] = [1]" by simp
  from host_index_prop_stale [OF d p i r n p] r show ?thesis by auto
qed

end
