(* ===== verification/Animation.thy ===== *)
theory Animation
  imports Mounting Reachability
begin

text \<open>
  The animation as a whole (src/src/index.js, lines 234--240, with react-motion's
  \<open>Motion\<close>): every style the component hands to \<open>Motion\<close> drives the strip with one of
  the two configurations of line 234 and the height with react-motion's default one,
  and an animation frame advances both springs towards the style last handed over.
  So in every reachable state, whatever the positions and speeds of the springs,
  frames alone bring both channels as close to their targets as one likes.
\<close>

definition style_ok :: "motion_style \<Rightarrow> bool" where
  "style_ok st \<longleftrightarrow>
     (translate_config st = idle_config \<or> translate_config st = dragging_config) \<and>
     height_config st = default_config"

subsection \<open>The styles \<open>Motion\<close> is given\<close>

lemma style_ok_render [simp]: "style_ok (render c)"
  by (simp add: style_ok_def render_def)

lemma dispatch_style_given:
  "dispatch c e = Inr (c', out) \<Longrightarrow> style_given c' = style_given c"
  by (cases e)
     (auto simp: handleTouchStart_def componentDidMount_def componentWillReceiveProps_def Let_def
           split: if_splits option.splits dest: handleTouchMove_keeps_inputs handleTouchEnd_keeps_inputs)

lemma step_style_ok:
  assumes "step c e = Inr (c', out)" and "style_ok (style_given c)"
  shows "style_ok (style_given c')"
proof -
  from assms(1) obtain c'' where d: "dispatch c e = Inr (c'', out)"
      and c': "c' = react_update (props_event e) c c''"
    by (auto simp: step_def split: sum.splits)
  from dispatch_style_given [OF d] assms(2) c' show ?thesis
    by (simp add: style_given_react_update)
qed

lemma reachable_style_ok: "reachable p c \<Longrightarrow> style_ok (style_given c)"
proof (induction rule: reachable.induct)
  case (mounted p c)
  then show ?case by (auto simp: mount_def Let_def split: sum.splits)
next
  case (stepped p c e c' out)
  then show ?case by (blast intro: step_style_ok)
qed

subsection \<open>Convergence of the animation\<close>

lemma style_springs_converge:
  assumes "style_ok st" and "0 < \<epsilon>"
  shows "\<exists>N. \<forall>n\<ge>N. \<bar>current (translate ((motion_tick frame_dt st ^^ n) m)) - translate_target st\<bar> < \<epsilon> \<and>
                    \<bar>current (height ((motion_tick frame_dt st ^^ n) m)) - height_target st\<bar> < \<epsilon>"
proof -
  from assms(1) have "translate_config st \<in> {dragging_config, idle_config, default_config}"
      and "height_config st \<in> {dragging_config, idle_config, default_config}"
    by (auto simp: style_ok_def)
  from spring_converges [OF this(1) assms(2), of "translate_target st" "translate m"]
       spring_converges [OF this(2) assms(2), of "height_target st" "height m"]
  obtain N1 N2 where
    "\<forall>n\<ge>N1. \<bar>current (advance_n n (translate_config st) frame_dt (translate_target st) (translate m))
               - translate_target st\<bar> < \<epsilon>"
    "\<forall>n\<ge>N2. \<bar>current (advance_n n (height_config st) frame_dt (height_target st) (height m))
               - height_target st\<bar> < \<epsilon>"
    by blast
  then have "\<forall>n\<ge>max N1 N2. \<bar>current (translate ((motion_tick frame_dt st ^^ n) m)) - translate_target st\<bar> < \<epsilon> \<and>
                    \<bar>current (height ((motion_tick frame_dt st ^^ n) m)) - height_target st\<bar> < \<epsilon>"
    by (simp add: translate_ticks height_ticks)
  then show ?thesis by blast
qed

text \<open>C13: in every state reachable in the browser's order, with no events but animation
  frames, both springs converge to the targets \<open>Motion\<close> was last given, from
  whatever positions and speeds they have: for every positive bound there is a frame
  from which on the strip's offset and the container's height are within that bound of
  their targets, and the component's state does not change.\<close>

theorem reachable_frames_converge:
  assumes "reachable p c" and "0 < \<epsilon>"
  shows "\<exists>N. \<forall>n\<ge>N. \<exists>c'. run c (replicate n (Frame frame_dt)) = Inr (c', []) \<and> state c' = state c \<and>
           \<bar>current (translate (motion c')) - translate_target (style_given c)\<bar> < \<epsilon> \<and>
           \<bar>current (height (motion c')) - height_target (style_given c)\<bar> < \<epsilon>"
  using style_springs_converge [OF reachable_style_ok [OF assms(1)] assms(2), of "motion c"]
  by (simp add: run_frames)

theorem reachable_frames_converge_witness:
  "\<exists>N. \<forall>n\<ge>N. \<exists>c'. run \<lparr>props = getDefaultProps 3,
               state = \<lparr>index = 0, targetIndex = 0, isDragging = False, isFirstRender = True\<rparr>,
               session = None, slides = [], rendered = [],
               motion = \<lparr>translate = \<lparr>current = 0, velocity = 0\<rparr>,
                         height = \<lparr>current = 0, velocity = 0\<rparr>\<rparr>,
               style_given = \<lparr>translate_target = 0, translate_config = idle_config,
                              height_target = 0, height_config = default_config\<rparr>\<rparr>
             (replicate n (Frame frame_dt)) = Inr (c', []) \<and>
           \<bar>current (translate (motion c'))\<bar> < 1 \<and> \<bar>current (height (motion c'))\<bar> < 1"
proof -
  have m: "mount (getDefaultProps 3) = Inr \<lparr>props = getDefaultProps 3,
               state = \<lparr>index = 0, targetIndex = 0, isDragging = False, isFirstRender = True\<rparr>,
               session = None, slides = [], rendered = [],
               motion = \<lparr>translate = \<lparr>current = 0, velocity = 0\<rparr>,
                         height = \<lparr>current = 0, velocity = 0\<rparr>\<rparr>,
               style_given = \<lparr>translate_target = 0, translate_config = idle_config,
                              height_target = 0, height_config = default_config\<rparr>\<rparr>"
    by (simp add: mount_def getInitialState_def getDefaultProps_def render_def getTargetHeight_def
                  motion_init_def)
  from reachable_frames_converge [OF reachable.mounted [OF m], of 1] show ?thesis by simp blast
qed

end
