(* ===== verification/Spec2Isabelle.thy ===== *)
theory Spec2Isabelle
  imports Render Behaviour Reachability Mounting Host Animation
begin

text \<open>
  \<^bold>\<open>A verification model of react-swipeable-views.\<close>

  The repository is one React component, \<open>SwipeableViews\<close> (src/src/index.js). It
  shows its children side by side in a strip, follows a horizontal drag with the
  strip, decides on release which child to settle on, and animates the strip's offset
  and the container's height with react-motion springs. Its parts and how they
  interact:
  \<^item> the gesture tracker, \<open>handleTouchStart\<close> and \<open>handleTouchMove\<close> (lines 93--138):
    instance fields recorded at \<open>touchstart\<close>, a one-time scroll/swipe decision,
    an exponentially smoothed horizontal delta and a fractional index clamped to the
    collection, stored into the React state;
  \<^item> the release decision in \<open>handleTouchEnd\<close> (lines 139--171): quick flick or
    hysteresis, then the state update and the \<open>onChangeIndex\<close> callback;
  \<^item> the controller: properties and defaults, initial state, \<open>componentDidMount\<close>,
    \<open>componentWillReceiveProps\<close>, \<open>getTargetHeight\<close>, \<open>renderContainer\<close>,
    \<open>render\<close> (lines 23--92, 172--255): which handlers are attached, the spring
    targets and configurations, the slide nodes the refs collect;
  \<^item> the spring integrator of react-motion (not in the repository), which advances
    the offset and the height towards the targets \<open>render\<close> hands to \<open>Motion\<close>.
  Events flow from the touch handlers into the session fields and the React state;
  \<open>render\<close> turns the state into spring targets; animation frames move the springs.

  \<^bold>\<open>Theories.\<close>
  \<^item> \<open>Prelude\<close>: JavaScript numbers as \<open>real\<close> (no rounding), the non-finite values of
    a division (\<open>js_num\<close>, \<open>js_div\<close>, \<open>js_plus\<close>, \<open>js_lt\<close>, \<open>js_gt\<close>), array
    indexing by a number (\<open>js_index\<close>), the error type, the range predicates
    \<open>in_range\<close>, \<open>is_slot\<close>, \<open>index_max\<close>, and the shared lemmas on \<open>floor\<close>,
    \<open>ceiling\<close> and \<open>round\<close> (\<open>Math.floor\<close>, \<open>Math.ceil\<close>, \<open>Math.round\<close>,
    which is \<open>\<lfloor>x + 1/2\<rfloor>\<close> as in HOL).
  \<^item> \<open>Resolver\<close>: \<open>index_new\<close>, the decision of lines 144--160. Its lemmas: the
    result is a valid slide (\<open>index_new_slot\<close>); quick flicks go to the neighbouring
    slide in the direction of the movement (\<open>index_new_quick\<close>); slow releases change
    the slide exactly past the 0.6 hysteresis, to the nearest whole slide
    (\<open>index_new_slow\<close>, which with a zero threshold also shows that such a threshold
    does not make a release without residual movement a quick flick); one drag never skips a slide (\<open>index_new_one_slide\<close>); the
    specification's three scenarios (\<open>index_new_scenarios\<close>); a negative threshold
    makes every release a quick flick, a zero threshold does not
    (\<open>index_new_negative_threshold\<close>, \<open>index_new_zero_threshold\<close>).
  \<^item> \<open>Gesture\<close>: the record \<open>session\<close> of the instance fields, \<open>touch_start\<close>,
    \<open>classify\<close>, \<open>smooth\<close>, \<open>raw_index\<close>, \<open>clamp_index\<close> and \<open>touch_move\<close>
    (lines 93--132), and \<open>smoothed\<close>, the specification's closed form of repeated
    smoothing. Its lemmas: the reported index is within range; a move fails only on
    \<open>0 / 0\<close>; the classification is taken once; the index follows the finger; after
    an overshoot the boundary re-anchoring makes the first move back count from where
    the finger turned when the drag started on slide 0 (\<open>touch_move_boundary_hold\<close>),
    built from the shared lemmas \<open>touch_move_clamp_low\<close>, \<open>touch_move_clamp_high\<close> and
    \<open>touch_move_after_reanchor\<close>, and makes the view jump
    back otherwise, at either end of the collection (\<open>touch_move_clamp_jump\<close>,
    \<open>touch_move_clamp_jump_upper\<close>): the jump is \<open>startIndex\<close> less the further
    movement in widths.
  \<^item> \<open>Spring\<close>: \<open>advance\<close> (one integration step, modelled from the specification),
    the configurations of line 234 and react-motion's default one used by line 239,
    \<open>motion_tick\<close> for the two channels. The frame length is react-motion's fixed
    \<open>1/60\<close> s. The proofs use that the error dynamics is linear: the energy
    \<open>5 e\<^sup>2 + w\<^sup>2\<close> shrinks by a factor 6 per frame with \<open>[3000, 50]\<close>, and the
    modes \<open>e + 2 w\<close>, \<open>e + 3 w\<close> by \<open>3/4\<close> and \<open>2/3\<close> with \<open>[300, 30]\<close>
    (\<open>e\<close> the distance to the target, \<open>w\<close> the displacement of one frame). From rest
    within one slide, the dragging spring is within 0.01 of its target from frame 11
    on and the idle one from frame 40 on; these bounds come from the factors above and
    hold for every later frame. From any state, not only from rest, the idle spring is
    within \<open>5 M (3/4)\<^sup>n\<close> of its target after \<open>n\<close> frames, \<open>M\<close> the larger of
    the two modes (\<open>idle_error_bound\<close>). From rest the error is linear in the initial
    distance (\<open>from_rest_scale\<close>), so the dragging spring overshoots from every
    starting distance: it crosses its target within two frames and its distance grows
    between frames 4 and 5 (\<open>dragging_overshoots\<close>); the idle one approaches monotonically without overshoot.
    For react-motion's default configuration \<open>[170, 26]\<close>, which drives the height,
    the eigenvalues are irrational; the quadratic form \<open>e\<^sup>2 + 3 e w + 3 w\<^sup>2\<close>
    shrinks by at least \<open>4/5\<close> per frame (an exact sum-of-squares certificate), which
    gives the bound of \<open>height_channel_settles\<close>: from rest within 1000 pixels, within
    half a pixel from frame 75 on. With the three contraction factors, each
    configuration converges from any state: the distance to the target is eventually
    below every positive bound (\<open>spring_converges\<close>, through
    \<open>geometric_eventually\<close> of the prelude).
  \<^item> \<open>Slides\<close>: the array \<open>this._slides\<close> that the ref closures of
    \<open>renderContainer\<close> fill (lines 191--212): JavaScript arrays as lists of optional
    values extended by assignment (\<open>js_store\<close>), the two kinds of closure, and a
    commit as React performs it (the previous render's closures called with \<open>null\<close>,
    then the new ones with their nodes: \<open>detach_refs\<close>, \<open>attach_refs\<close>,
    \<open>commit_refs\<close>), with the lemmas on stores and reads those proofs use.
  \<^item> \<open>Styles\<close>: the \<open>styles\<close> constant (lines 9--21) and \<open>objectAssign\<close> on
    style objects as association lists in insertion order; \<open>translate_valid\<close> says
    when the transform template of line 216 is valid CSS.
  \<^item> \<open>Controller\<close>: the records \<open>props\<close>, \<open>sv_state\<close> and \<open>component\<close>, one
    definition per handler of the source, \<open>render\<close>, \<open>getTargetHeight\<close>, the event
    type, \<open>dispatch\<close> (the handler React calls for an event), \<open>step\<close>,
    \<open>run\<close>, \<open>mount\<close> and the inductive \<open>reachable\<close>. A step runs the handler and
    then the re-render \<open>PureRenderMixin\<close> allows (\<open>shouldComponentUpdate\<close>,
    \<open>react_update\<close>): only a re-render hands \<open>Motion\<close> a new style, the field
    \<open>style_given\<close>, and a \<open>Frame\<close> moves the springs towards that style, not towards
    what \<open>render\<close> would give at that moment. The invariant
    \<open>wf\<close> with the environment assumption \<open>ok_event\<close> (a \<open>touchstart\<close> with a
    positive width and not during a drag, moves and ends after a start, new properties
    with the same number of children and a valid index, a commit with one node per
    rendered slide), preserved by every step (\<open>step_wf\<close>) with no error
    (\<open>step_progress\<close>). \<open>ok_run\<close> requires each event to be in order in the
    state the earlier events reached, and nothing after an error, so that a run's
    success is a consequence of \<open>step_progress\<close> and not part of the order. Its claims are about whole touch sessions: exactly one
    callback per swipe that changes the slide and none for scrolls; a scroll session is
    silent.
  \<^item> \<open>Behaviour\<close>: single handlers and frames: the idle state after a swipe; the
    divergences (a drag cancelled at any fractional index followed by a tap rests between
    slides, since no \<open>touchcancel\<close> handler exists; the \<open>index\<close> property is applied
    at once, also during a drag and outside the collection, and does not move
    \<open>targetIndex\<close>); \<open>disabled\<close> detaches the touch
    handlers; the height channel settles; after a release, frames alone bring the strip
    to its slide at the rate of the idle spring (\<open>idle_strip_settles\<close>).
  \<^item> \<open>Reachability\<close>: rule induction over \<open>reachable\<close>: \<open>wf\<close> holds in every
    reachable state; an idle reachable component shows a whole slide, and from every
    reachable state one \<open>touchend\<close> brings it there (\<open>reachable_can_settle\<close>, using
    that a drag always belongs to a swipe session); every value passed to
    \<open>onChangeIndex\<close> is a slide index (\<open>run_notifies_slots\<close>).
  \<^item> \<open>Render\<close>: the element tree of \<open>render\<close> and \<open>renderContainer\<close>
    (\<open>render_tree\<close>): the root with the touch handlers, \<open>Motion\<close>, the container
    and its slide \<open>div\<close>s. Its claims: a \<open>style\<close> property overrides the animated values and never
    reaches the slides, against its documentation. A \<open>Commit\<close> event delivers the
    rendered slide nodes: the ref protocol registers exactly those nodes
    (\<open>commit_registers_rendered\<close>), and \<open>getTargetHeight\<close> then reads the slide at
    \<open>targetIndex\<close>, which on the first render is missing for every slide but the first
    (\<open>commit_height_target\<close>).
  \<^item> \<open>Mounting\<close>: the browser's mount order (first render, commit of slide 0,
    \<open>componentDidMount\<close>, commit of all slides) as a run, and the re-render shortcut
    against \<open>step_always\<close>, the reference that re-renders after every handler. Its
    claims: mounted on a slide \<open>k \<noteq> 0\<close>, the style \<open>Motion\<close> is given targets
    the height 0 after the mount, although the registered nodes give slide \<open>k\<close>'s
    height, and the container stays 0 high over any number of frames
    (\<open>mount_on_later_slide_height_zero\<close>, a bug: \<open>render\<close> reads the nodes of the
    previous commit, and nothing re-renders after the last one); and
    \<open>PureRenderMixin\<close> is transparent: from an up-to-date render, every run without a
    commit equals the reference run (\<open>pure_render_transparent\<close>).
  \<^item> \<open>Host\<close>: a touch session followed by a property change from the host. After a
    swipe the host was notified of, the host passing its unchanged \<open>index\<close> again is
    ignored, because line 87 compares with the previous property and not with the slide
    shown; the component stays on the swiped-to slide (\<open>host_index_prop_stale\<close>).
  \<^item> \<open>Animation\<close>: the invariant \<open>style_ok\<close>, which says every style handed to
    \<open>Motion\<close> uses one of the configurations of line 234 for the strip and the default one
    for the height. It holds in every reachable state (rule induction over
    \<open>reachable\<close>). The liveness claim \<open>reachable_frames_converge\<close> follows: from every
    reachable state, frames bring both channels within any bound of the targets last
    given, whatever the springs' positions and speeds.
  \<^item> This theory: that every run of a mounted component in the browser's event order
    succeeds and keeps both indices valid (\<open>indices_stay_valid\<close>), and that a
    swipe which needs no clamping refines the specification's account \<open>spec_settle\<close>
    of a session (\<open>swipe_session_refines_spec\<close>). It also holds the
    specification's controller machine of section 4.4 as the inductive relation
    \<open>spec_ctrl\<close> over the abstract state \<open>abs_ctrl\<close> (current index, target index,
    dragging flag; \<open>abs_of\<close> reads it off a component), labelled by the abstract
    event (\<open>AMove\<close>, \<open>AUp\<close>, \<open>AQuiet\<close>; \<open>abs_label\<close> names the one of a concrete
    event), with its lock-step runs \<open>spec_trace\<close> and the specification's invariant
    \<open>abs_ok\<close> preserved by them (\<open>spec_machine_invariant\<close>, rule induction over the
    runs). The simulation \<open>touch_runs_refine_spec_machine\<close>: every run of events but
    property changes from a reachable component is a run of the machine with one step per
    event; a move drags within the collection or, outside a drag, scrolls; a
    \<open>touchend\<close> settles on a slide less than one slide from the release index and clears
    the dragging flag, or, outside a drag, ends a scroll; every other event changes
    nothing. Property changes are left out of
    the simulation on purpose: the code applies them during a drag and without moving
    \<open>targetIndex\<close>, which the machine forbids (the findings on line 87). Across
    Gesture, Spring and Render: a move of a whole width towards slide 0 makes the
    dragging spring overshoot below 0, and the transform template then is invalid CSS
    (\<open>flick_to_first_slide_breaks_transform\<close>). A gap of the specification: when
    \<open>disabled\<close> is set during a drag, no event but new properties ends the drag
    (\<open>disabled_drag_never_ends\<close>).

  \<^bold>\<open>Not modelled.\<close> The children themselves: a child of \<open>props.children\<close>
  is named by its position and measured only through the heights a \<open>Commit\<close> reports;
  React's reconciliation, keys and the DOM nodes' other properties are outside the
  model. React's batching of \<open>setState\<close> is modelled as an immediate update
  followed by one re-render per handler, since the touch handlers run one at a time and
  call \<open>setState\<close> at most once; unmounting is not modelled. react-motion is not
  part of the repository: its integration step is modelled from the specification, and
  its frame accumulation and rest detection are not modelled: a \<open>Frame\<close> advances
  each spring by one step of the given length.
  The conversion of a number to a string is modelled only by its sign (in
  \<open>translate_valid\<close>). Floating-point rounding is not modelled.

  The specification's Idle and Dragging modes have no counterpart in the code other
  than \<open>isDragging\<close>: the session fields of \<open>handleTouchStart\<close> are never cleared,
  and a session becomes a drag only at its first horizontal move. So the abstract
  machine's mode is the dragging flag of \<open>abs_ctrl\<close>, and a touch start is a quiet
  step of \<open>spec_ctrl\<close>.
\<close>

text \<open>The specification's account of one swipe session (sections 4.2 and 4.3): the
  fractional index at release is the start index plus the horizontal distance from the
  start point in widths, the smoothed delta is the fold \<open>smoothed\<close> over the
  horizontal samples, and the settled index is the release decision applied to both.\<close>

definition spec_settle :: "real \<Rightarrow> real \<Rightarrow> real \<Rightarrow> real \<Rightarrow> real list \<Rightarrow> real" where
  "spec_settle thr width si x0 xs = index_new thr (smoothed 0 x0 xs) si (si + (x0 - last xs) / width)"

text \<open>The specification's controller (section 4.4) as an abstract machine over the
  state it names (\<open>currentIndex\<close>, \<open>targetIndex\<close>, \<open>isDragging\<close>), with one
  abstract event per kind of pointer event, as the specification lists its transitions:
  a pointer move either drags the current index to a fractional index within the
  collection, or, outside a drag, belongs to a scroll and changes nothing; a pointer up
  either settles current and target index on a slide within one slide of the current
  (release) index and ends the drag, or, outside a drag, ends a scroll; every other event
  leaves the controller's state alone. \<open>abs_of\<close> reads that state off a component,
  \<open>abs_label\<close> names the abstract event of a concrete one (while \<open>disabled\<close>, no touch
  handler is attached, and a touch is a quiet event); the touch-side events are all
  events but a change of properties.\<close>

record abs_ctrl =
  a_index :: real
  a_target :: real
  a_dragging :: bool

definition abs_of :: "component \<Rightarrow> abs_ctrl" where
  "abs_of c = \<lparr>a_index = index (state c), a_target = targetIndex (state c),
               a_dragging = isDragging (state c)\<rparr>"

datatype abs_event = AMove | AUp | AQuiet

fun abs_label :: "bool \<Rightarrow> event \<Rightarrow> abs_event" where
  "abs_label False (TouchMove t) = AMove"
| "abs_label False TouchEnd = AUp"
| "abs_label _ _ = AQuiet"

inductive spec_ctrl :: "nat \<Rightarrow> abs_event \<Rightarrow> abs_ctrl \<Rightarrow> abs_ctrl \<Rightarrow> bool" where
  quiet: "spec_ctrl n AQuiet a a"
| scroll: "\<not> a_dragging a \<Longrightarrow> spec_ctrl n AMove a a"
| drag: "in_range (index_max n) f \<Longrightarrow> spec_ctrl n AMove a (a\<lparr>a_index := f, a_dragging := True\<rparr>)"
| settle: "is_slot (index_max n) s \<Longrightarrow> \<bar>s - a_index a\<bar> < 1 \<Longrightarrow>
    spec_ctrl n AUp a \<lparr>a_index = s, a_target = s, a_dragging = False\<rparr>"
| scroll_end: "\<not> a_dragging a \<Longrightarrow> spec_ctrl n AUp a a"

text \<open>A run of the machine in lock-step with a list of abstract events: one machine step
  per event.\<close>

inductive spec_trace :: "nat \<Rightarrow> abs_ctrl \<Rightarrow> abs_event list \<Rightarrow> abs_ctrl \<Rightarrow> bool" where
  trace_nil: "spec_trace n a [] a"
| trace_cons: "spec_ctrl n l a b \<Longrightarrow> spec_trace n b ls c \<Longrightarrow> spec_trace n a (l # ls) c"

fun touch_side :: "event \<Rightarrow> bool" where
  "touch_side (ReceiveProps p) = False"
| "touch_side e = True"

text \<open>The state invariant the specification states for the controller (section 3):
  the current index within the collection, the target index a slide, and the current
  index a slide whenever no drag is in progress.\<close>

definition abs_ok :: "nat \<Rightarrow> abs_ctrl \<Rightarrow> bool" where
  "abs_ok n a \<longleftrightarrow>
     in_range (index_max n) (a_index a) \<and> is_slot (index_max n) (a_target a) \<and>
     (a_dragging a \<or> is_int (a_index a))"

text \<open>C1: for properties with at least one child and a valid index, the mounted
  component, driven by any sequence of events in the browser's order, never fails: the
  order \<open>ok_run\<close> only constrains each event in the state the previous ones reached, and
  no handler then returns an error (\<open>step_progress\<close>); the displayed index stays within
  \<open>[0, childCount - 1]\<close> and the settled index is always a valid slide.\<close>

theorem indices_stay_valid:
  assumes "props_ok p" and "mount p = Inr c" and "ok_run c es"
  shows "\<exists>c' out. run c es = Inr (c', out) \<and> children (props c') = children p \<and>
    in_range (index_max (children p)) (index (state c')) \<and>
    is_slot (index_max (children p)) (targetIndex (state c'))"
proof -
  from mount_wf [OF assms(1,2)] have "wf c" .
  with assms(3) obtain c' out where r: "run c es = Inr (c', out)" and w: "wf c'"
    using run_wf by blast
  from run_children [OF assms(3) r] mount_props [OF assms(2)]
  have "children (props c') = children p" by simp
  with r w show ?thesis by (auto simp: wf_def Let_def)
qed

theorem indices_stay_valid_witness:
  "let c = \<lparr>props = getDefaultProps 3,
            state = \<lparr>index = 0, targetIndex = 0, isDragging = False, isFirstRender = True\<rparr>,
            session = None, slides = [], rendered = [],
            motion = \<lparr>translate = \<lparr>current = 0, velocity = 0\<rparr>,
                      height = \<lparr>current = 0, velocity = 0\<rparr>\<rparr>,
            style_given = \<lparr>translate_target = 0, translate_config = idle_config, height_target = 0, height_config = default_config\<rparr>\<rparr>;
       es = [Commit [[120]], DidMount, Commit [[120], [80], [200]], TouchStart 100 \<lparr>pageX = 0, pageY = 0\<rparr>,
             TouchMove \<lparr>pageX = -80, pageY = 0\<rparr>, TouchEnd, Frame (1/60)]
   in props_ok (getDefaultProps 3) \<and> mount (getDefaultProps 3) = Inr c \<and> ok_run c es \<and>
      (\<exists>c' out. run c es = Inr (c', out) \<and> children (props c') = 3 \<and>
         in_range (index_max 3) (index (state c')) \<and> is_slot (index_max 3) (targetIndex (state c')))"
proof -
  let ?c = "\<lparr>props = getDefaultProps 3,
            state = \<lparr>index = 0, targetIndex = 0, isDragging = False, isFirstRender = True\<rparr>,
            session = None, slides = [], rendered = [],
            motion = \<lparr>translate = \<lparr>current = 0, velocity = 0\<rparr>,
                      height = \<lparr>current = 0, velocity = 0\<rparr>\<rparr>,
            style_given = \<lparr>translate_target = 0, translate_config = idle_config, height_target = 0, height_config = default_config\<rparr>\<rparr>"
  let ?es = "[Commit [[120]], DidMount, Commit [[120], [80], [200]], TouchStart 100 \<lparr>pageX = 0, pageY = 0\<rparr>,
             TouchMove \<lparr>pageX = -80, pageY = 0\<rparr>, TouchEnd, Frame (1/60)]"
  have p: "props_ok (getDefaultProps 3)"
    by (simp add: props_ok_def getDefaultProps_def js_simps)
  have m: "mount (getDefaultProps 3) = Inr ?c"
    by (simp add: mount_def getInitialState_def getDefaultProps_def render_def
                  getTargetHeight_def motion_init_def)
  have o: "ok_run ?c ?es"
    by (simp add: getDefaultProps_def handler_defs touch_move_def gesture_defs js_simps
                  index_new_def render_refs_def commit_refs_def attach_refs_def
                  detach_refs_def js_store_def Let_def)
  have c3: "children (getDefaultProps 3) = 3" by (simp add: getDefaultProps_def)
  from indices_stay_valid [OF p m o, unfolded c3] p m o show ?thesis
    unfolding Let_def by blast
qed

lemma session_first_move:
  assumes "\<not> disabled (props c)" and "0 < w"
    and "\<not> \<bar>pageY t0 - pageY t1\<bar> > \<bar>pageX t0 - pageX t1\<bar>"
    and "in_range (index_max (children (props c))) (index (state c) + (pageX t0 - pageX t1) / w)"
  shows "run c [TouchStart w t0, TouchMove t1] =
    Inr (react_update False c
          (c\<lparr>session := Some ((touch_start w (index (state c)) t0)
                              \<lparr>isScroll := Some False, deltaX := (pageX t1 - pageX t0) * 0.5,
                                lastX := pageX t1\<rparr>),
             state := (state c)\<lparr>isDragging := True,
                      index := index (state c) + (pageX t0 - pageX t1) / w\<rparr>\<rparr>), [PreventDefault])"
proof -
  let ?s = "touch_start w (index (state c)) t0"
  have cl: "classify ?s t1 = ?s\<lparr>isScroll := Some False\<rparr>"
    using assms(3) by (simp add: classify_def touch_start_def)
  have "handleTouchMove t1 (handleTouchStart w t0 c) =
    Inr ((handleTouchStart w t0 c)\<lparr>session := Some (smooth (classify ?s t1) t1),
           state := (state c)\<lparr>isDragging := True,
                      index := index (state c) + (pageX t0 - pageX t1) / w\<rparr>\<rparr>, [PreventDefault])"
    using handleTouchMove_inside [of "handleTouchStart w t0 c" ?s t1] assms cl
    by (simp add: handleTouchStart_def touch_start_def)
  moreover have "react_update False (handleTouchStart w t0 c) = react_update False c"
    by (rule ext, rule react_update_state_cong) (simp add: handleTouchStart_def)
  ultimately show ?thesis using assms(1) cl
    by (simp add: handleTouchStart_def smooth_def touch_start_def)
qed

text \<open>C8: the component implements the specification's account of a swipe: for a
  session whose first move is at least as horizontal as vertical and whose samples all
  stay within the collection (no clamping), the run settles, idle, on exactly
  \<open>spec_settle\<close> of the threshold, the width, the start index, the start position and
  the horizontal samples.\<close>

theorem swipe_session_refines_spec:
  assumes "\<not> disabled (props c)" and "0 < w"
    and "\<not> \<bar>pageY t0 - pageY t1\<bar> > \<bar>pageX t0 - pageX t1\<bar>"
    and "\<forall>t \<in> set (t1 # ts). in_range (index_max (children (props c)))
                                  (index (state c) + (pageX t0 - pageX t) / w)"
  shows "\<exists>c' out. run c (TouchStart w t0 # map TouchMove (t1 # ts) @ [TouchEnd]) = Inr (c', out) \<and>
    \<not> isDragging (state c') \<and> index (state c') = targetIndex (state c') \<and>
    targetIndex (state c') =
      spec_settle (threshold (props c)) w (index (state c)) (pageX t0) (map pageX (t1 # ts))"
proof -
  let ?i = "index (state c)"
  let ?s1 = "(touch_start w ?i t0)\<lparr>isScroll := Some False, deltaX := (pageX t1 - pageX t0) * 0.5,
                                   lastX := pageX t1\<rparr>"
  let ?c1 = "react_update False c (c\<lparr>session := Some ?s1,
               state := (state c)\<lparr>isDragging := True, index := ?i + (pageX t0 - pageX t1) / w\<rparr>\<rparr>)"
  have r1: "run c [TouchStart w t0, TouchMove t1] = Inr (?c1, [PreventDefault])"
    using session_first_move [OF assms(1-3)] assms(4) by simp
  have f1: "session ?c1 = Some ?s1" "isScroll ?s1 = Some False" "0 < startWidth ?s1"
    "\<not> disabled (props ?c1)" "startIndex ?s1 = ?i" "startX ?s1 = pageX t0" "startWidth ?s1 = w"
    "props ?c1 = props c"
    using assms(1,2) by (simp_all add: touch_start_def)
  obtain c2 where r2: "run ?c1 (map TouchMove ts) = Inr (c2, replicate (length ts) PreventDefault)"
    and s2: "session c2 = Some (?s1\<lparr>deltaX := smoothed (deltaX ?s1) (lastX ?s1) (map pageX ts),
                                    lastX := last (pageX t1 # map pageX ts)\<rparr>)"
    and i2: "index (state c2) = ?i + (pageX t0 - last (pageX t1 # map pageX ts)) / w"
    and p2: "props c2 = props c"
  proof (cases "ts = []")
    case True
    with that show ?thesis by simp
  next
    case False
    from run_moves_inside [OF f1(1-4) False] assms(4) f1(5-8) False that show ?thesis
      by auto
  qed
  let ?v = "spec_settle (threshold (props c)) w ?i (pageX t0) (map pageX (t1 # ts))"
  let ?o = "if onChangeIndex (props c) \<and> ?v \<noteq> ?i then [ChangeIndex ?v] else []"
  have d2: "smoothed (deltaX ?s1) (lastX ?s1) (map pageX ts) = smoothed 0 (pageX t0) (pageX t1 # map pageX ts)"
    by (simp add: touch_start_def)
  have r3: "run c2 [TouchEnd] =
    Inr (react_update False c2 (c2\<lparr>state := (state c2)\<lparr>index := ?v, targetIndex := ?v, isDragging := False\<rparr>\<rparr>), ?o)"
    using s2 i2 p2 d2 assms(1)
    by (simp add: handleTouchEnd_def Let_def spec_settle_def touch_start_def)
  have "run c (TouchStart w t0 # map TouchMove (t1 # ts) @ [TouchEnd]) =
        run c ([TouchStart w t0, TouchMove t1] @ map TouchMove ts @ [TouchEnd])"
    by simp
  also have "\<dots> = (case run ?c1 (map TouchMove ts @ [TouchEnd]) of Inl err \<Rightarrow> Inl err
                   | Inr (c'', out') \<Rightarrow> Inr (c'', [PreventDefault] @ out'))"
    by (simp only: run_append r1 sum.case prod.case)
  also have "run ?c1 (map TouchMove ts @ [TouchEnd]) = (case run c2 [TouchEnd] of Inl err \<Rightarrow> Inl err
                   | Inr (c'', out') \<Rightarrow> Inr (c'', replicate (length ts) PreventDefault @ out'))"
    by (simp only: run_append r2 sum.case prod.case)
  finally show ?thesis using r3 by simp
qed

theorem swipe_session_refines_spec_witness:
  "\<exists>c' out. run demo (TouchStart 100 \<lparr>pageX = 0, pageY = 0\<rparr> #
       map TouchMove [\<lparr>pageX = -30, pageY = 2\<rparr>, \<lparr>pageX = -65, pageY = 5\<rparr>] @ [TouchEnd]) = Inr (c', out) \<and>
     \<not> isDragging (state c') \<and> index (state c') = targetIndex (state c') \<and>
     targetIndex (state c') = spec_settle 5 100 0 0 [-30, -65]"
proof -
  have h: "\<not> disabled (props demo)" "(0::real) < 100"
    "\<not> \<bar>pageY \<lparr>pageX = 0, pageY = 0\<rparr> - pageY \<lparr>pageX = -30, pageY = 2\<rparr>\<bar>
        > \<bar>pageX \<lparr>pageX = 0, pageY = 0\<rparr> - pageX \<lparr>pageX = -30, pageY = (2::real)\<rparr>\<bar>"
    "\<forall>t \<in> set [\<lparr>pageX = -30, pageY = 2\<rparr>, \<lparr>pageX = -65, pageY = 5\<rparr>].
        in_range (index_max (children (props demo)))
          (index (state demo) + (pageX \<lparr>pageX = 0, pageY = 0\<rparr> - pageX t) / 100)"
    by (simp_all add: demo_def getDefaultProps_def js_simps)
  from swipe_session_refines_spec [OF h] show ?thesis
    by (simp add: demo_def getDefaultProps_def)
qed

lemma abs_of_react_update [simp]: "abs_of (react_update b c c') = abs_of c'"
  by (simp add: abs_of_def)

lemma touch_move_ScrollD:
  "touch_move n s t = Inr (s', Scroll) \<Longrightarrow> isScroll (classify s t) = Some True"
  by (auto simp: touch_move_def Let_def split: if_splits option.splits)

lemma handleTouchMove_simulates:
  assumes "wf c" and "isDragging (state c) \<longrightarrow> (\<exists>s. session c = Some s \<and> isScroll s = Some False)"
    and "handleTouchMove t c = Inr (c', out)"
  shows "spec_ctrl (children (props c)) AMove (abs_of c) (abs_of c')"
proof -
  from assms(3) obtain s s' r where ss: "session c = Some s"
    and tm: "touch_move (children (props c)) s t = Inr (s', r)"
    by (auto simp: handleTouchMove_def split: option.splits sum.splits)
  show ?thesis
  proof (cases r)
    case Scroll
    with assms(3) ss tm have "c' = c\<lparr>session := Some s'\<rparr>" by (simp add: handleTouchMove_def)
    moreover have "\<not> isDragging (state c)"
      using assms(2) ss touch_move_ScrollD [OF tm [unfolded Scroll]] by (auto simp: classify_def)
    ultimately show ?thesis by (simp add: abs_of_def spec_ctrl.scroll)
  next
    case (Drag i)
    with assms(3) ss tm have "c' = c\<lparr>session := Some s',
        state := (state c)\<lparr>isDragging := True, index := i\<rparr>\<rparr>"
      by (simp add: handleTouchMove_def)
    then have "abs_of c' = (abs_of c)\<lparr>a_index := i, a_dragging := True\<rparr>"
      by (simp add: abs_of_def)
    moreover from touch_move_DragD [OF tm [unfolded Drag]] wf_D(1) [OF assms(1)]
    have "in_range (index_max (children (props c))) i" by (blast intro: clamp_index_range)
    ultimately show ?thesis by (simp add: spec_ctrl.drag)
  qed
qed

lemma handleTouchEnd_simulates:
  assumes "wf c" and "isDragging (state c) \<longrightarrow> (\<exists>s. session c = Some s \<and> isScroll s = Some False)"
    and "handleTouchEnd c = Inr (c', out)"
  shows "spec_ctrl (children (props c)) AUp (abs_of c) (abs_of c')"
proof -
  from assms(3) obtain s where ss: "session c = Some s"
    by (auto simp: handleTouchEnd_def split: option.splits)
  show ?thesis
  proof (cases "isScroll s = Some True")
    case True
    with assms(3) ss have "c' = c" by (simp add: handleTouchEnd_def)
    moreover from True assms(2) ss have "\<not> isDragging (state c)" by auto
    ultimately show ?thesis by (simp add: abs_of_def spec_ctrl.scroll_end)
  next
    case False
    let ?n = "children (props c)"
    let ?new = "index_new (threshold (props c)) (deltaX s) (startIndex s) (index (state c))"
    from assms(3) ss False have "c' = c\<lparr>state := (state c)\<lparr>index := ?new, targetIndex := ?new,
        isDragging := False\<rparr>\<rparr>"
      by (auto simp: handleTouchEnd_def Let_def)
    then have "abs_of c' = \<lparr>a_index = ?new, a_target = ?new, a_dragging = False\<rparr>"
      by (simp add: abs_of_def)
    moreover have "is_slot (index_max ?n) ?new" by (rule handleTouchEnd_new_slot [OF assms(1) ss])
    moreover have "\<bar>?new - a_index (abs_of c)\<bar> < 1"
      using index_new_near by (simp add: abs_of_def)
    ultimately show ?thesis by (simp add: spec_ctrl.settle)
  qed
qed

lemma step_touch_side_props:
  assumes "touch_side e" and "step c e = Inr (c', out)"
  shows "props c' = props c"
  using assms
  by (cases e)
     (auto simp: handleTouchStart_def componentDidMount_def split: if_splits sum.splits
           dest!: handleTouchMove_notified handleTouchEnd_keeps_inputs)

lemma step_refines_spec_machine:
  assumes "wf c" and "isDragging (state c) \<longrightarrow> (\<exists>s. session c = Some s \<and> isScroll s = Some False)"
    and "touch_side e" and "step c e = Inr (c', out)"
  shows "spec_ctrl (children (props c)) (abs_label (disabled (props c)) e) (abs_of c) (abs_of c')"
proof (cases e)
  case (TouchMove t)
  show ?thesis
  proof (cases "disabled (props c)")
    case True
    with assms(4) TouchMove show ?thesis by (simp add: spec_ctrl.quiet)
  next
    case False
    with assms(4) TouchMove obtain c'' where h: "handleTouchMove t c = Inr (c'', out)"
      and "c' = react_update False c c''" by (auto split: sum.splits)
    with False TouchMove handleTouchMove_simulates [OF assms(1,2) h] show ?thesis by simp
  qed
next
  case TouchEnd
  show ?thesis
  proof (cases "disabled (props c)")
    case True
    with assms(4) TouchEnd show ?thesis by (simp add: spec_ctrl.quiet)
  next
    case False
    with assms(4) TouchEnd obtain c'' where h: "handleTouchEnd c = Inr (c'', out)"
      and "c' = react_update False c c''" by (auto split: sum.splits)
    with False TouchEnd handleTouchEnd_simulates [OF assms(1,2) h] show ?thesis by simp
  qed
next
  case (ReceiveProps p)
  with assms(3) show ?thesis by simp
next
  case (TouchStart w t)
  with assms(4) show ?thesis
    by (cases "disabled (props c)")
       (auto simp: abs_of_def handleTouchStart_def spec_ctrl.quiet)
qed (use assms(4) in \<open>auto simp: abs_of_def componentDidMount_def spec_ctrl.quiet\<close>)

text \<open>C9: every run of touch-side events (anything but new properties) that the
  browser delivers, in its order, to a reachable component is a run of the
  specification's controller machine in lock-step: event by event, a move drags the
  current index within the collection or, outside a drag, is part of a scroll; a
  \<open>touchend\<close> settles current and target index on a slide less than one slide from the
  release index and ends the drag, or, outside a drag, ends a scroll; every other event
  leaves the controller's state unchanged.\<close>

theorem touch_runs_refine_spec_machine:
  assumes "reachable p c" and "props_ok p" and "ok_run c es" and "list_all touch_side es"
    and "run c es = Inr (c', out)"
  shows "spec_trace (children (props c)) (abs_of c) (map (abs_label (disabled (props c))) es) (abs_of c')"
  using assms
proof (induction es arbitrary: c out)
  case Nil
  then show ?case by (simp add: spec_trace.trace_nil)
next
  case (Cons e es)
  from Cons.prems(3,5) obtain c1 o1 o2 where s: "step c e = Inr (c1, o1)" and o: "ok_event c e"
    and r: "ok_run c1 es" and r2: "run c1 es = Inr (c', o2)"
    by (auto split: sum.splits)
  have re1: "reachable p c1" by (rule reachable.stepped [OF Cons.prems(1) o s])
  from Cons.prems(4) have t: "touch_side e" and ts: "list_all touch_side es" by simp_all
  have p1: "props c1 = props c" by (rule step_touch_side_props [OF t s])
  from reachable_wf [OF Cons.prems(1,2)] have w: "wf c" by simp
  from step_refines_spec_machine [OF w reachable_swipe_session [OF Cons.prems(1)] t s]
       Cons.IH [OF re1 Cons.prems(2) r ts r2] p1
  show ?case by (simp add: spec_trace.trace_cons)
qed

theorem touch_runs_refine_spec_machine_witness:
  "spec_trace 3 \<lparr>a_index = 0, a_target = 0, a_dragging = False\<rparr> [AQuiet, AMove, AUp]
                \<lparr>a_index = 1, a_target = 1, a_dragging = False\<rparr>"
proof -
  let ?c0 = "\<lparr>props = getDefaultProps 3,
      state = \<lparr>index = 0, targetIndex = 0, isDragging = False, isFirstRender = True\<rparr>,
      session = None, slides = [], rendered = [],
      motion = \<lparr>translate = \<lparr>current = 0, velocity = 0\<rparr>, height = \<lparr>current = 0, velocity = 0\<rparr>\<rparr>,
      style_given = \<lparr>translate_target = 0, translate_config = idle_config, height_target = 0,
                     height_config = default_config\<rparr>\<rparr>"
  let ?es = "[TouchStart 100 \<lparr>pageX = 0, pageY = 0\<rparr>, TouchMove \<lparr>pageX = -40, pageY = 0\<rparr>, TouchEnd]"
  have m: "mount (getDefaultProps 3) = Inr ?c0"
    by (simp add: mount_def getInitialState_def getDefaultProps_def render_def
                  getTargetHeight_def motion_init_def)
  have p: "props_ok (getDefaultProps 3)" by (simp add: props_ok_def getDefaultProps_def js_simps)
  have o: "ok_run ?c0 ?es"
    by (simp add: getDefaultProps_def handler_defs touch_move_def gesture_defs js_simps
                  index_new_def Let_def)
  have w: "wf ?c0" using reachable_wf [OF reachable.mounted [OF m] p] by simp
  from run_wf [OF w o] obtain c' out where r: "run ?c0 ?es = Inr (c', out)" by blast
  have t: "list_all touch_side ?es" by simp
  from r have a: "abs_of c' = \<lparr>a_index = 1, a_target = 1, a_dragging = False\<rparr>"
    by (auto simp: getDefaultProps_def handler_defs touch_move_def gesture_defs js_simps
                   index_new_def Let_def abs_of_def)
  from touch_runs_refine_spec_machine [OF reachable.mounted [OF m] p o t r] a show ?thesis
    by (simp add: getDefaultProps_def abs_of_def)
qed

lemma spec_ctrl_ok: "spec_ctrl n l a b \<Longrightarrow> abs_ok n a \<Longrightarrow> abs_ok n b"
  by (induction rule: spec_ctrl.induct) (auto simp: abs_ok_def is_slot_def)

text \<open>The specification's invariant is an invariant of its controller machine:
  every state a run of the machine reaches from a state that satisfies it satisfies it
  (rule induction over the runs).\<close>

lemma spec_machine_invariant:
  assumes "spec_trace n a ls b" and "abs_ok n a"
  shows "abs_ok n b"
  using assms by (induction rule: spec_trace.induct) (auto intro: spec_ctrl_ok)

lemma frames_keep_render:
  "run c [Frame dt, Frame dt] =
     Inr (c\<lparr>motion := motion_tick dt (style_given c) (motion_tick dt (style_given c) (motion c))\<rparr>, [])"
  by simp

text \<open>C19: a drag that moves the index by a whole slide within one move event (a fast
  flick, or the jump of the boundary re-anchoring) drives the stiff dragging spring of
  line 234 past its target. When the target is slide 0, two frames later the translate
  value is \<open>-100/9\<close>, and line 216 renders \<open>translate3d(--11.11\<dots>%, 0, 0)\<close>, which
  is not a valid transform: the strip loses its offset for those frames.\<close>

theorem flick_to_first_slide_breaks_transform:
  assumes "wf c" and "\<not> disabled (props c)" and "style (props c) = None"
    and "index (state c) = 1" and "translate (motion c) = \<lparr>current = 100, velocity = 0\<rparr>"
    and "0 < w" and "pageY t1 = pageY t0" and "pageX t1 = pageX t0 + w"
  shows "\<exists>c'. run c [TouchStart w t0, TouchMove t1, Frame frame_dt, Frame frame_dt] =
               Inr (c', [PreventDefault]) \<and>
             map_of (node_style (renderContainer (motion c') c')) ''transform'' =
               Some (Translate3d (- 100 / 9)) \<and>
             \<not> translate_valid (Translate3d (- 100 / 9))"
proof -
  let ?c1 = "c\<lparr>session := Some ((touch_start w (index (state c)) t0)
                              \<lparr>isScroll := Some False, deltaX := (pageX t1 - pageX t0) * 0.5,
                                lastX := pageX t1\<rparr>),
           state := (state c)\<lparr>isDragging := True,
                      index := index (state c) + (pageX t0 - pageX t1) / w\<rparr>\<rparr>"
  have idx: "index (state c) + (pageX t0 - pageX t1) / w = 0" using assms(4,6,8) by simp
  from wf_D(2) [OF assms(1)] assms(4) have "in_range (index_max (children (props c))) 0"
    by (simp add: in_range_def)
  then have "in_range (index_max (children (props c))) (index (state c) + (pageX t0 - pageX t1) / w)"
    by (simp only: idx)
  with assms(2,6,7) have r1: "run c [TouchStart w t0, TouchMove t1] =
      Inr (react_update False c ?c1, [PreventDefault])"
    by (intro session_first_move) simp_all
  have ne: "state c \<noteq> state ?c1"
  proof
    assume "state c = state ?c1"
    then have "index (state c) = index (state ?c1)" by simp
    with assms(4) idx show False by simp
  qed
  have g: "style_given (react_update False c ?c1) = render ?c1"
    using ne by (simp add: style_given_react_update)
  let ?m2 = "motion_tick frame_dt (style_given (react_update False c ?c1))
               (motion_tick frame_dt (style_given (react_update False c ?c1)) (motion c))"
  have "run c ([TouchStart w t0, TouchMove t1] @ [Frame frame_dt, Frame frame_dt]) =
           Inr ((react_update False c ?c1)\<lparr>motion := ?m2\<rparr>, [PreventDefault])"
    by (simp only: run_append r1 sum.case prod.case) (simp add: frames_keep_render del: run.simps)
  then have r: "run c [TouchStart w t0, TouchMove t1, Frame frame_dt, Frame frame_dt] =
           Inr ((react_update False c ?c1)\<lparr>motion := ?m2\<rparr>, [PreventDefault])"
    by (simp only: append_Cons append_Nil)
  have "current (translate ?m2) = - 100 / 9"
    unfolding g using assms(5) idx
    by (simp add: motion_tick_def render_def advance_def dragging_config_def frame_dt_def)
  with assms(3) have "map_of (node_style (renderContainer ?m2 ((react_update False c ?c1)\<lparr>motion := ?m2\<rparr>)))
           ''transform'' =
           Some (Translate3d (- 100 / 9))"
    by (simp add: renderContainer_style container_base_def styles_container_def map_add_def)
  with r show ?thesis by (auto simp: translate_valid_def)
qed

theorem flick_to_first_slide_breaks_transform_witness:
  "\<exists>c'. run (demo\<lparr>state := \<lparr>index = 1, targetIndex = 1, isDragging = False, isFirstRender = False\<rparr>,
                  motion := \<lparr>translate = \<lparr>current = 100, velocity = 0\<rparr>, height = \<lparr>current = 80, velocity = 0\<rparr>\<rparr>\<rparr>)
         [TouchStart 100 \<lparr>pageX = 0, pageY = 0\<rparr>, TouchMove \<lparr>pageX = 100, pageY = 0\<rparr>,
          Frame frame_dt, Frame frame_dt] = Inr (c', [PreventDefault]) \<and>
       map_of (node_style (renderContainer (motion c') c')) ''transform'' = Some (Translate3d (- 100 / 9))"
proof -
  let ?c = "demo\<lparr>state := \<lparr>index = 1, targetIndex = 1, isDragging = False, isFirstRender = False\<rparr>,
                  motion := \<lparr>translate = \<lparr>current = 100, velocity = 0\<rparr>, height = \<lparr>current = 80, velocity = 0\<rparr>\<rparr>\<rparr>"
  have w: "wf ?c" by (simp add: wf_def demo_def getDefaultProps_def session_ok_def js_simps)
  have "\<not> disabled (props ?c)" and "style (props ?c) = None" and "index (state ?c) = 1"
    and "translate (motion ?c) = \<lparr>current = 100, velocity = 0\<rparr>"
    and "0 < (100::real)" and "pageY \<lparr>pageX = 100, pageY = 0\<rparr> = pageY \<lparr>pageX = 0, pageY = 0\<rparr>"
    and "pageX \<lparr>pageX = 100, pageY = 0\<rparr> = pageX \<lparr>pageX = 0, pageY = 0\<rparr> + 100"
    by (simp_all add: demo_def getDefaultProps_def)
  from flick_to_first_slide_breaks_transform [OF w this] show ?thesis by blast
qed

lemma disabled_step_keeps_drag:
  assumes "touch_side e" and "disabled (props c)" and "step c e = Inr (c1, o1)"
  shows "isDragging (state c1) = isDragging (state c) \<and> index (state c1) = index (state c) \<and>
         disabled (props c1) \<and> o1 = []"
  using assms by (cases e) (auto simp: componentDidMount_def)

text \<open>C34: the specification does not say what happens when \<open>disabled\<close> is set
  during a drag. In the code \<open>render\<close> then detaches the touch handlers (line 242), so
  the \<open>touchend\<close> of the drag is never handled: until the host changes the properties
  again, no event ends the drag, the component keeps the dragging flag and its
  fractional index, and no callback is made.\<close>

theorem disabled_drag_never_ends:
  assumes "isDragging (state c)" and "disabled (props c)" and "list_all touch_side es"
    and "run c es = Inr (c', out)"
  shows "isDragging (state c') \<and> index (state c') = index (state c) \<and> out = []"
  using assms
proof (induction es arbitrary: c out)
  case Nil
  then show ?case by simp
next
  case (Cons e es)
  from Cons.prems(4) obtain c1 o1 o2 where s: "step c e = Inr (c1, o1)"
    and r: "run c1 es = Inr (c', o2)" and out: "out = o1 @ o2"
    by (auto split: sum.splits)
  from Cons.prems(3) have e: "touch_side e" and es: "list_all touch_side es" by simp_all
  from disabled_step_keeps_drag [OF e Cons.prems(2) s] Cons.prems(1)
  have "isDragging (state c1)" and "disabled (props c1)" and i: "index (state c1) = index (state c)"
    and "o1 = []" by simp_all
  with Cons.IH [OF this(1,2) es r] out show ?case by simp
qed

theorem disabled_drag_never_ends_witness:
  "\<exists>c' out. run (demo\<lparr>props := (props demo)\<lparr>disabled := True\<rparr>,
                      state := \<lparr>index = 0.4, targetIndex = 0, isDragging = True, isFirstRender = False\<rparr>\<rparr>)
                 [TouchEnd, TouchCancel, Frame frame_dt] = Inr (c', out) \<and>
     isDragging (state c') \<and> index (state c') = 0.4 \<and> out = []"
proof -
  let ?c = "demo\<lparr>props := (props demo)\<lparr>disabled := True\<rparr>,
                 state := \<lparr>index = 0.4, targetIndex = 0, isDragging = True, isFirstRender = False\<rparr>\<rparr>"
  have r: "run ?c [TouchEnd, TouchCancel, Frame frame_dt] =
           Inr (?c\<lparr>motion := motion_tick frame_dt (style_given ?c) (motion ?c)\<rparr>, [])"
    by simp
  have "isDragging (state ?c)" and "disabled (props ?c)"
    and "list_all touch_side [TouchEnd, TouchCancel, Frame frame_dt]" by simp_all
  from disabled_drag_never_ends [OF this r] r show ?thesis by simp
qed

end
